theory Spec2Isabelle
  imports Complex_Main "HOL-Library.Log_Nat"
begin

section \<open>Rounding to binary64\<close>

text \<open>
  Every quantity of \<^verbatim>\<open>utils/carbonCalculator.ts\<close> is a TypeScript \<^verbatim>\<open>number\<close>, an IEEE-754
  binary64 value, and every \<^verbatim>\<open>+\<close>, \<^verbatim>\<open>-\<close>, \<^verbatim>\<open>*\<close> and \<^verbatim>\<open>/\<close> returns the exact result rounded
  to the nearest such value, a tie going to the even significand.

  \<open>pow2 k\<close> is 2 to the power \<open>k\<close>, for an integer \<open>k\<close>. \<open>exponent x\<close> is the \<open>e\<close> with
  \<open>pow2 e \<le> |x| < pow2 (e + 1)\<close>, computed from the bit length of \<open>\<lfloor>|x|\<rfloor>\<close> when \<open>|x| \<ge> 1\<close> and
  of \<open>\<lceil>1/|x|\<rceil> - 1\<close> otherwise. The values representable around \<open>x\<close> are the multiples of
  \<open>quantum x\<close>: 53 significant bits for a normal number, and the fixed spacing
  \<open>pow2 (- 1074)\<close> below \<open>pow2 (- 1022)\<close>, where the subnormal numbers lie. \<open>nearest x\<close> is the
  multiple of the quantum nearest to \<open>x\<close>.
\<close>

definition pow2 :: "int \<Rightarrow> real" where
  "pow2 k = (if 0 \<le> k then 2 ^ nat k else 1 / 2 ^ nat (- k))"

definition exponent :: "real \<Rightarrow> int" where
  "exponent x =
     (if 1 \<le> \<bar>x\<bar> then bitlen \<lfloor>\<bar>x\<bar>\<rfloor> - 1 else - bitlen (\<lceil>1 / \<bar>x\<bar>\<rceil> - 1))"

definition eff_exponent :: "real \<Rightarrow> int" where
  "eff_exponent x = max (exponent x) (- 1022)"

definition quantum :: "real \<Rightarrow> real" where
  "quantum x = pow2 (eff_exponent x - 52)"

definition round_half_even :: "real \<Rightarrow> int" where
  "round_half_even y =
     (let f = \<lfloor>y\<rfloor>; d = y - of_int f
      in if d < 1 / 2 then f else if 1 / 2 < d then f + 1 else if even f then f else f + 1)"

definition nearest :: "real \<Rightarrow> real" where
  "nearest x = of_int (round_half_even (x / quantum x)) * quantum x"

section \<open>ECMAScript numbers\<close>

text \<open>
  A number is NaN, an infinity, negative zero, or \<open>Fin r\<close>, the finite number with the real
  value \<open>r\<close>; \<open>Fin 0\<close> is \<open>+0\<close>. The numbers a program can hold are the \<open>Fin r\<close> with \<open>r\<close>
  representable; the operations below return only such numbers, whatever they are given.
\<close>

datatype number = NaN | PosInfinity | NegInfinity | NegZero | Fin real

fun is_finite :: "number \<Rightarrow> bool" where
  "is_finite (Fin r) = True"
| "is_finite NegZero = True"
| "is_finite _ = False"

fun val :: "number \<Rightarrow> real" where
  "val (Fin r) = r"
| "val _ = 0"

fun sign_bit :: "number \<Rightarrow> bool" where
  "sign_bit (Fin r) = (r < 0)"
| "sign_bit NegZero = True"
| "sign_bit NegInfinity = True"
| "sign_bit _ = False"

definition is_inf :: "number \<Rightarrow> bool" where
  "is_inf a = (a = PosInfinity \<or> a = NegInfinity)"

definition is_zero :: "number \<Rightarrow> bool" where
  "is_zero a = (a = NegZero \<or> a = Fin 0)"

definition zero_of :: "bool \<Rightarrow> number" where
  "zero_of negative = (if negative then NegZero else Fin 0)"

definition inf_of :: "bool \<Rightarrow> number" where
  "inf_of negative = (if negative then NegInfinity else PosInfinity)"

text \<open>
  The number nearest to a real: an infinity once the nearest multiple of the quantum
  reaches \<open>pow2 1024\<close> (the largest finite number is \<open>pow2 1024 - pow2 971\<close>), and a zero with
  the sign of \<open>x\<close> when \<open>x\<close> underflows. A decimal literal of the source denotes the number
  nearest to it: \<^verbatim>\<open>10.15\<close> is \<open>js_lit 10.15\<close>, which is not the real 10.15.
\<close>

definition round64 :: "real \<Rightarrow> number" where
  "round64 x =
     (let v = nearest x
      in if pow2 1024 \<le> v then PosInfinity
         else if v \<le> - pow2 1024 then NegInfinity
         else if v = 0 then zero_of (x < 0)
         else Fin v)"

definition js_lit :: "real \<Rightarrow> number" where
  "js_lit x = round64 x"

text \<open>
  \<^verbatim>\<open>a * b\<close>: the sign is the exclusive or of the signs; infinity times zero is NaN; the
  product of two finite numbers is rounded.
\<close>

definition js_mul :: "number \<Rightarrow> number \<Rightarrow> number" where
  "js_mul a b =
     (if a = NaN \<or> b = NaN then NaN
      else if is_inf a \<or> is_inf b then
        (if is_zero a \<or> is_zero b then NaN else inf_of (sign_bit a \<noteq> sign_bit b))
      else if val a * val b = 0 then zero_of (sign_bit a \<noteq> sign_bit b)
      else round64 (val a * val b))"

text \<open>
  \<^verbatim>\<open>a / b\<close> never throws: a non-zero number over a zero is an infinity, zero over zero
  and infinity over infinity are NaN; the quotient of two finite numbers is rounded.
\<close>

definition js_div :: "number \<Rightarrow> number \<Rightarrow> number" where
  "js_div a b =
     (if a = NaN \<or> b = NaN then NaN
      else if is_inf a then (if is_inf b then NaN else inf_of (sign_bit a \<noteq> sign_bit b))
      else if is_inf b then zero_of (sign_bit a \<noteq> sign_bit b)
      else if val b = 0 then (if val a = 0 then NaN else inf_of (sign_bit a \<noteq> sign_bit b))
      else if val a = 0 then zero_of (sign_bit a \<noteq> sign_bit b)
      else round64 (val a / val b))"

text \<open>
  \<^verbatim>\<open>a + b\<close>: opposite infinities give NaN; the sum is \<open>-0\<close> only for \<open>-0 + -0\<close>; the sum of
  two finite numbers is rounded, and an exact sum of zero is \<open>+0\<close>.
\<close>

definition js_add :: "number \<Rightarrow> number \<Rightarrow> number" where
  "js_add a b =
     (if a = NaN \<or> b = NaN then NaN
      else if is_inf a then (if is_inf b \<and> a \<noteq> b then NaN else a)
      else if is_inf b then b
      else if a = NegZero \<and> b = NegZero then NegZero
      else round64 (val a + val b))"

fun js_neg :: "number \<Rightarrow> number" where
  "js_neg NaN = NaN"
| "js_neg PosInfinity = NegInfinity"
| "js_neg NegInfinity = PosInfinity"
| "js_neg NegZero = Fin 0"
| "js_neg (Fin r) = (if r = 0 then NegZero else Fin (- r))"

definition js_sub :: "number \<Rightarrow> number \<Rightarrow> number" where
  "js_sub a b = js_add a (js_neg b)"

text \<open>\<^verbatim>\<open>a < b\<close> and \<^verbatim>\<open>a > b\<close>: false as soon as one side is NaN; the two zeros are equal.\<close>

definition js_lt :: "number \<Rightarrow> number \<Rightarrow> bool" where
  "js_lt a b =
     (if a = NaN \<or> b = NaN then False
      else if a = PosInfinity \<or> b = NegInfinity then False
      else if a = NegInfinity \<or> b = PosInfinity then True
      else val a < val b)"

definition js_gt :: "number \<Rightarrow> number \<Rightarrow> bool" where
  "js_gt a b = js_lt b a"

text \<open>
  \<^verbatim>\<open>Math.round(x)\<close>: the nearest integer, a tie going towards \<open>+\<infinity>\<close>; \<open>-0\<close> for
  \<open>-0.5 \<le> x < 0\<close>; NaN and the infinities are returned as they are. The result is exact:
  a binary64 value of magnitude \<open>pow2 52\<close> or more is an integer already, and below that
  every integer is representable.
\<close>

fun Math_round :: "number \<Rightarrow> number" where
  "Math_round (Fin r) =
     (if - (1 / 2) \<le> r \<and> r < 0 then NegZero else Fin (of_int \<lfloor>r + 1 / 2\<rfloor>))"
| "Math_round a = a"

section \<open>Reference data (\<^verbatim>\<open>config/constants.ts\<close>)\<close>

datatype EcosystemType = mangrove | seagrass | salt_marsh | kelp_forest

fun SEQUESTRATION_FACTORS :: "EcosystemType \<Rightarrow> number" where
  "SEQUESTRATION_FACTORS mangrove = js_lit 10.15"
| "SEQUESTRATION_FACTORS seagrass = js_lit 8.7"
| "SEQUESTRATION_FACTORS salt_marsh = js_lit 6.8"
| "SEQUESTRATION_FACTORS kelp_forest = js_lit 12.3"

record Buffers =
  uncertainty :: number
  mortality :: number
  verification :: number

definition DEFAULT_BUFFERS :: Buffers where
  "DEFAULT_BUFFERS = \<lparr>uncertainty = Fin 10, mortality = Fin 15, verification = Fin 5\<rparr>"

record ImpactEquivalences =
  cars_removed_per_year :: number
  homes_powered_per_year :: number
  trees_planted :: number

definition IMPACT_EQUIVALENCES :: ImpactEquivalences where
  "IMPACT_EQUIVALENCES =
     \<lparr>cars_removed_per_year = js_lit 0.45, homes_powered_per_year = js_lit 0.12,
      trees_planted = Fin 16\<rparr>"

section \<open>The calculator (\<^verbatim>\<open>utils/carbonCalculator.ts\<close>)\<close>

record Equivalences =
  cars_removed :: number
  homes_powered :: number
  trees_planted :: number

text \<open>\<^verbatim>\<open>policy_area_needed\<close> is an optional field: forward mode leaves it out.\<close>

record CalculationResult =
  annual_absorption :: number
  cumulative_absorption :: number
  equivalences :: Equivalences
  policy_area_needed :: "number option"

text \<open>
  \<^verbatim>\<open>years\<close> and \<^verbatim>\<open>buffers\<close> are optional parameters; the destructuring defaults
  (\<^verbatim>\<open>years = 20\<close>, \<^verbatim>\<open>buffers = DEFAULT_BUFFERS\<close>) apply when they are absent.
\<close>

record CalculationParams =
  area_m2 :: number
  ecosystem_type :: EcosystemType
  years :: "number option"
  buffers :: "Buffers option"

record PolicyCalculationParams =
  target_co2_reduction :: number
  ecosystem_type :: EcosystemType
  years :: "number option"
  buffers :: "Buffers option"

text \<open>
  The error kind the specification asks of the calculator. Neither function of the source
  has a \<^verbatim>\<open>throw\<close>, and no operation they use (arithmetic on numbers, reading a field of
  the parameter object, \<^verbatim>\<open>Math.round\<close>) can throw: every path of the model ends in \<open>Inr\<close>.
\<close>

datatype error = InvalidInput

definition calculateCarbonSequestration :: "CalculationParams \<Rightarrow> error + CalculationResult" where
  "calculateCarbonSequestration params =
     (let area_m2 = CalculationParams.area_m2 params;
          ecosystem_type = CalculationParams.ecosystem_type params;
          years = (case CalculationParams.years params of None \<Rightarrow> Fin 20 | Some y \<Rightarrow> y);
          buffers = (case CalculationParams.buffers params of
                       None \<Rightarrow> DEFAULT_BUFFERS | Some b \<Rightarrow> b);
          area_hectares = js_div area_m2 (Fin 10000);
          base_sequestration = SEQUESTRATION_FACTORS ecosystem_type;
          gross_annual_absorption = js_mul area_hectares base_sequestration;
          total_buffer_percentage =
            js_add (js_add (uncertainty buffers) (mortality buffers)) (verification buffers);
          buffer_factor = js_div (js_sub (Fin 100) total_buffer_percentage) (Fin 100);
          annual_absorption = js_mul gross_annual_absorption buffer_factor;
          cumulative_absorption = js_mul annual_absorption years;
          equivalences =
            \<lparr>cars_removed =
               Math_round (js_mul annual_absorption (cars_removed_per_year IMPACT_EQUIVALENCES)),
             homes_powered =
               Math_round (js_mul annual_absorption (homes_powered_per_year IMPACT_EQUIVALENCES)),
             trees_planted =
               Math_round (js_mul cumulative_absorption
                 (ImpactEquivalences.trees_planted IMPACT_EQUIVALENCES))\<rparr>
      in Inr \<lparr>annual_absorption = js_div (Math_round (js_mul annual_absorption (Fin 100))) (Fin 100),
              cumulative_absorption =
                js_div (Math_round (js_mul cumulative_absorption (Fin 100))) (Fin 100),
              equivalences = equivalences,
              policy_area_needed = None\<rparr>)"

definition calculateRequiredArea :: "PolicyCalculationParams \<Rightarrow> error + CalculationResult" where
  "calculateRequiredArea params =
     (let target_co2_reduction = PolicyCalculationParams.target_co2_reduction params;
          ecosystem_type = PolicyCalculationParams.ecosystem_type params;
          years = (case PolicyCalculationParams.years params of None \<Rightarrow> Fin 20 | Some y \<Rightarrow> y);
          buffers = (case PolicyCalculationParams.buffers params of
                       None \<Rightarrow> DEFAULT_BUFFERS | Some b \<Rightarrow> b);
          base_sequestration = SEQUESTRATION_FACTORS ecosystem_type;
          total_buffer_percentage =
            js_add (js_add (uncertainty buffers) (mortality buffers)) (verification buffers);
          buffer_factor = js_div (js_sub (Fin 100) total_buffer_percentage) (Fin 100);
          effective_sequestration = js_mul base_sequestration buffer_factor;
          required_hectares = js_div target_co2_reduction (js_mul effective_sequestration years);
          required_m2 = js_mul required_hectares (Fin 10000);
          equivalences =
            \<lparr>cars_removed =
               Math_round (js_div (js_mul target_co2_reduction
                 (cars_removed_per_year IMPACT_EQUIVALENCES)) years),
             homes_powered =
               Math_round (js_div (js_mul target_co2_reduction
                 (homes_powered_per_year IMPACT_EQUIVALENCES)) years),
             trees_planted =
               Math_round (js_mul target_co2_reduction
                 (ImpactEquivalences.trees_planted IMPACT_EQUIVALENCES))\<rparr>
      in Inr \<lparr>annual_absorption =
                js_div (Math_round (js_mul (js_div target_co2_reduction years) (Fin 100))) (Fin 100),
              cumulative_absorption =
                js_div (Math_round (js_mul target_co2_reduction (Fin 100))) (Fin 100),
              equivalences = equivalences,
              policy_area_needed = Some (Math_round required_m2)\<rparr>)"

section \<open>The anomaly detector (\<^verbatim>\<open>detectAnomalies\<close>)\<close>

text \<open>
  The detector takes its arguments as \<^verbatim>\<open>any\<close>. The model gives them the fields the
  function reads, typed as the \<^verbatim>\<open>Project\<close> interface types them; the other fields of a
  project are never looked at. A historical snapshot is read through \<^verbatim>\<open>area_m2\<close> only.
\<close>

record CarbonCalculations =
  annual_co2_absorption :: number

record Project =
  area_m2 :: number
  ecosystem_type :: EcosystemType
  carbon_calculations :: CarbonCalculations

text \<open>
  The penalty is a \<^verbatim>\<open>number\<close> that starts at \<open>0\<close> and only ever has 25, 30 or 10 added to
  it: integers up to 65, which binary64 adds without rounding. It is an \<open>int\<close> here.
\<close>

record AnomalyReport =
  is_suspicious :: bool
  flags :: "string list"
  credibility_impact :: int

text \<open>\<^verbatim>\<open>xs[i]\<close>: reading an array outside its range gives \<^verbatim>\<open>undefined\<close>, here \<open>None\<close>.\<close>

definition at_index :: "'a list \<Rightarrow> int \<Rightarrow> 'a option" where
  "at_index xs i = (if 0 \<le> i \<and> i < int (length xs) then Some (xs ! nat i) else None)"

text \<open>
  The two mutable locals \<^verbatim>\<open>flags\<close> and \<^verbatim>\<open>credibility_impact\<close> are threaded through the
  three checks as a pair. \<^verbatim>\<open>if (previous)\<close> tests an object or \<^verbatim>\<open>undefined\<close>: it holds
  exactly when the read two places from the end was in range.
\<close>

definition detectAnomalies :: "Project \<Rightarrow> Project list \<Rightarrow> AnomalyReport" where
  "detectAnomalies project historical_data =
     (let (flags, credibility_impact) = ([], 0);
          (flags, credibility_impact) =
            (if length historical_data > 0 then
               (let latest = historical_data ! (length historical_data - 1);
                    previous = at_index historical_data (int (length historical_data) - 2)
                in case previous of
                     None \<Rightarrow> (flags, credibility_impact)
                   | Some previous \<Rightarrow>
                       (let growth_rate =
                              js_div (js_sub (Project.area_m2 latest) (Project.area_m2 previous))
                                (Project.area_m2 previous)
                        in if js_gt growth_rate (Fin 1)
                           then (flags @ [''Unrealistic area expansion detected''],
                                 credibility_impact + 25)
                           else (flags, credibility_impact)))
             else (flags, credibility_impact));
          theoretical_max =
            js_mul (SEQUESTRATION_FACTORS (Project.ecosystem_type project)) (Fin 1.5);
          (flags, credibility_impact) =
            (if js_gt (annual_co2_absorption (carbon_calculations project))
                  (js_mul theoretical_max (js_div (Project.area_m2 project) (Fin 10000)))
             then (flags @ [''Carbon sequestration estimates exceed theoretical maximum''],
                   credibility_impact + 30)
             else (flags, credibility_impact));
          (flags, credibility_impact) =
            (if js_lt (Project.area_m2 project) (Fin 1000)
             then (flags @ [''Project area unusually small for ecosystem restoration''],
                   credibility_impact + 10)
             else (flags, credibility_impact))
      in \<lparr>is_suspicious = length flags > 0, flags = flags,
          credibility_impact = credibility_impact\<rparr>)"

section \<open>Quantities the properties speak about\<close>

text \<open>
  Names for what the statements below talk about: the two destructuring defaults; the
  locals \<^verbatim>\<open>total_buffer_percentage\<close> and \<^verbatim>\<open>buffer_factor\<close> that both modes compute from
  the buffers in the same way; the unrounded annual absorption of forward mode and the
  divisor \<^verbatim>\<open>effective_sequestration * years\<close> of policy mode; rounding to two decimals as
  the code does it (\<^verbatim>\<open>Math.round(x * 100) / 100\<close>); the order \<open>a \<le> b\<close> of two numbers read
  as "\<^verbatim>\<open>b < a\<close> is false", which also holds when one of them is NaN; the result of an
  operation on finite numbers, rounded, with the sign of a zero result given; and the
  growth rate over the two most recent snapshots of a history.
\<close>

definition years_or_default :: "number option \<Rightarrow> number" where
  "years_or_default y = (case y of None \<Rightarrow> Fin 20 | Some v \<Rightarrow> v)"

definition buffers_or_default :: "Buffers option \<Rightarrow> Buffers" where
  "buffers_or_default b = (case b of None \<Rightarrow> DEFAULT_BUFFERS | Some v \<Rightarrow> v)"

definition total_buffer_percentage :: "Buffers \<Rightarrow> number" where
  "total_buffer_percentage b = js_add (js_add (uncertainty b) (mortality b)) (verification b)"

definition buffer_factor :: "Buffers \<Rightarrow> number" where
  "buffer_factor b = js_div (js_sub (Fin 100) (total_buffer_percentage b)) (Fin 100)"

definition unrounded_annual :: "CalculationParams \<Rightarrow> number" where
  "unrounded_annual p =
     js_mul (js_mul (js_div (CalculationParams.area_m2 p) (Fin 10000))
               (SEQUESTRATION_FACTORS (CalculationParams.ecosystem_type p)))
       (buffer_factor (buffers_or_default (CalculationParams.buffers p)))"

definition effective_rate_times_years :: "PolicyCalculationParams \<Rightarrow> number" where
  "effective_rate_times_years q =
     js_mul (js_mul (SEQUESTRATION_FACTORS (PolicyCalculationParams.ecosystem_type q))
               (buffer_factor (buffers_or_default (PolicyCalculationParams.buffers q))))
       (years_or_default (PolicyCalculationParams.years q))"

definition rate :: "EcosystemType \<Rightarrow> real" where
  "rate e = val (SEQUESTRATION_FACTORS e)"

definition js_round2 :: "number \<Rightarrow> number" where
  "js_round2 x = js_div (Math_round (js_mul x (Fin 100))) (Fin 100)"

definition js_le_or_unordered :: "number \<Rightarrow> number \<Rightarrow> bool" where
  "js_le_or_unordered a b = (\<not> js_lt b a)"

definition fl :: "bool \<Rightarrow> real \<Rightarrow> number" where
  "fl negative x = (if x = 0 then zero_of negative else round64 x)"

definition growth_rate :: "Project list \<Rightarrow> number" where
  "growth_rate h =
     (let latest = last h; previous = last (butlast h)
      in js_div (js_sub (Project.area_m2 latest) (Project.area_m2 previous))
           (Project.area_m2 previous))"

definition growth_rule_fires :: "Project list \<Rightarrow> bool" where
  "growth_rule_fires h = (2 \<le> length h \<and> js_gt (growth_rate h) (Fin 1))"

text \<open>
  For the error analysis: one rounding of a positive real in the normal range moves it by
  a factor between \<open>rho\<close> and \<open>1 / rho\<close>. \<open>approx k x y\<close> says that \<open>y\<close> is \<open>x\<close> up to \<open>k\<close> such
  factors; \<open>inrange m x\<close> that \<open>x\<close> lies between \<open>2^-m\<close> and \<open>2^m\<close>; and \<open>tracks k m x a\<close> that
  the number \<open>a\<close> is finite and holds the real \<open>x\<close>, which is in that range, up to \<open>k\<close>
  roundings.
\<close>

definition rho :: real where
  "rho = 1 - pow2 (- 53)"

definition approx :: "nat \<Rightarrow> real \<Rightarrow> real \<Rightarrow> bool" where
  "approx k x y = (x * rho ^ k \<le> y \<and> y * rho ^ k \<le> x)"

definition inrange :: "nat \<Rightarrow> real \<Rightarrow> bool" where
  "inrange m x = (pow2 (- int m) \<le> x \<and> x \<le> pow2 (int m))"

definition tracks :: "nat \<Rightarrow> nat \<Rightarrow> real \<Rightarrow> number \<Rightarrow> bool" where
  "tracks k m x a = (is_finite a \<and> approx k x (val a) \<and> inrange m x)"

section \<open>Rounding to nearest: bounds, error, monotonicity\<close>

lemma pow2_powr: "pow2 k = 2 powr (of_int k)"
  by (simp add: pow2_def powr_realpow [symmetric] powr_minus divide_inverse)

lemma pow2_pos [simp]: "0 < pow2 k"
  by (simp add: pow2_powr)

lemma pow2_nonneg [simp]: "0 \<le> pow2 k"
  by (simp add: pow2_powr)

lemma pow2_not_le0 [simp]: "\<not> pow2 k \<le> 0"
  by (simp add: pow2_powr not_le)

lemma pow2_nonzero [simp]: "pow2 k \<noteq> 0"
  by (simp add: pow2_powr)

lemma pow2_add: "pow2 (a + b) = pow2 a * pow2 b"
  by (simp add: pow2_powr powr_add)

lemma pow2_mono: "a \<le> b \<Longrightarrow> pow2 a \<le> pow2 b"
  by (simp add: pow2_powr)

lemma pow2_less_iff: "pow2 a < pow2 b \<longleftrightarrow> a < b"
  by (simp add: pow2_powr)

lemma pow2_minus: "pow2 (- k) = 1 / pow2 k"
  by (simp add: pow2_powr powr_minus divide_inverse)

lemma pow2_nat: "0 \<le> k \<Longrightarrow> pow2 k = 2 ^ nat k"
  by (simp add: pow2_def)

lemma exponent_bounds:
  assumes "x \<noteq> 0"
  shows "pow2 (exponent x) \<le> \<bar>x\<bar>" and "\<bar>x\<bar> < pow2 (exponent x + 1)"
proof -
  have "pow2 (exponent x) \<le> \<bar>x\<bar> \<and> \<bar>x\<bar> < pow2 (exponent x + 1)"
  proof (cases "1 \<le> \<bar>x\<bar>")
    case True
    let ?n = "\<lfloor>\<bar>x\<bar>\<rfloor>"
    have n: "0 < ?n" using True by simp
    have b: "1 \<le> bitlen ?n" using n by (simp add: bitlen_alt_def)
    have e: "exponent x = bitlen ?n - 1" using True by (simp add: exponent_def)
    from bitlen_bounds [OF n] have 1: "(2::int) ^ nat (bitlen ?n - 1) \<le> ?n"
      and 2: "?n < 2 ^ nat (bitlen ?n)" by simp_all
    have "real_of_int (2 ^ nat (bitlen ?n - 1)) \<le> real_of_int ?n"
      using 1 by (simp only: of_int_le_iff)
    also have "\<dots> \<le> \<bar>x\<bar>" by simp
    finally have lo: "pow2 (bitlen ?n - 1) \<le> \<bar>x\<bar>"
      using b by (simp add: pow2_nat)
    have "?n + 1 \<le> 2 ^ nat (bitlen ?n)" using 2 by simp
    then have "real_of_int (?n + 1) \<le> real_of_int (2 ^ nat (bitlen ?n))"
      by (simp only: of_int_le_iff)
    then have A: "real_of_int ?n + 1 \<le> 2 ^ nat (bitlen ?n)" by simp
    have "\<bar>x\<bar> < real_of_int ?n + 1" by linarith
    with A have "\<bar>x\<bar> < 2 ^ nat (bitlen ?n)" by linarith
    then have hi: "\<bar>x\<bar> < pow2 (bitlen ?n)"
      using b by (simp add: pow2_nat)
    show ?thesis using lo hi by (simp add: e)
  next
    case False
    let ?y = "1 / \<bar>x\<bar>"
    let ?m = "\<lceil>?y\<rceil> - 1"
    have x: "0 < \<bar>x\<bar>" "\<bar>x\<bar> < 1" using assms False by simp_all
    have y: "1 < ?y" using x by simp
    have m: "0 < ?m" using y by linarith
    have b: "1 \<le> bitlen ?m" using m by (simp add: bitlen_alt_def)
    have e: "exponent x = - bitlen ?m" using False by (simp add: exponent_def)
    from bitlen_bounds [OF m] have 1: "(2::int) ^ nat (bitlen ?m - 1) \<le> ?m"
      and 2: "?m < 2 ^ nat (bitlen ?m)" by simp_all
    have "real_of_int (2 ^ nat (bitlen ?m - 1)) \<le> real_of_int ?m"
      using 1 by (simp only: of_int_le_iff)
    also have "\<dots> < ?y" by linarith
    finally have "pow2 (bitlen ?m - 1) < ?y"
      using b by (simp add: pow2_nat)
    then have "\<bar>x\<bar> * pow2 (bitlen ?m - 1) < 1"
      using x by (simp add: field_simps)
    then have "\<bar>x\<bar> < 1 / pow2 (bitlen ?m - 1)"
      using pow2_pos [of "bitlen ?m - 1"] by (simp add: field_simps)
    then have "\<bar>x\<bar> < pow2 (- (bitlen ?m - 1))"
      by (simp only: pow2_minus)
    moreover have "- (bitlen ?m - 1) = - bitlen ?m + 1" by simp
    ultimately have hi: "\<bar>x\<bar> < pow2 (- bitlen ?m + 1)"
      by simp
    have "?m + 1 \<le> 2 ^ nat (bitlen ?m)" using 2 by simp
    then have "real_of_int (?m + 1) \<le> real_of_int (2 ^ nat (bitlen ?m))"
      by (simp only: of_int_le_iff)
    then have A: "real_of_int ?m + 1 \<le> 2 ^ nat (bitlen ?m)" by simp
    have "?y \<le> real_of_int ?m + 1" by simp
    with A have "?y \<le> 2 ^ nat (bitlen ?m)" by linarith
    then have "?y \<le> pow2 (bitlen ?m)"
      using b by (simp add: pow2_nat)
    then have "1 \<le> \<bar>x\<bar> * pow2 (bitlen ?m)"
      using x by (simp add: field_simps)
    then have "1 / pow2 (bitlen ?m) \<le> \<bar>x\<bar>"
      using pow2_pos [of "bitlen ?m"] by (simp add: field_simps)
    then have lo: "pow2 (- bitlen ?m) \<le> \<bar>x\<bar>"
      by (simp only: pow2_minus)
    show ?thesis using lo hi by (simp add: e)
  qed
  then show "pow2 (exponent x) \<le> \<bar>x\<bar>" and "\<bar>x\<bar> < pow2 (exponent x + 1)"
    by simp_all
qed

lemma exponent_neg [simp]: "exponent (- x) = exponent x"
  by (simp add: exponent_def)

lemma exponent_mono:
  assumes "x \<noteq> 0" and "\<bar>x\<bar> \<le> \<bar>y\<bar>"
  shows "exponent x \<le> exponent y"
proof -
  have y: "y \<noteq> 0" using assms by auto
  have "pow2 (exponent x) \<le> \<bar>x\<bar>" using assms(1) by (rule exponent_bounds)
  also have "\<dots> \<le> \<bar>y\<bar>" by (rule assms(2))
  also have "\<dots> < pow2 (exponent y + 1)" using y by (rule exponent_bounds)
  finally show ?thesis by (simp add: pow2_less_iff)
qed

lemma rhe_err: "\<bar>of_int (round_half_even y) - y\<bar> \<le> 1 / 2"
  unfolding round_half_even_def Let_def by (auto; linarith)

lemma rhe_of_int [simp]: "round_half_even (of_int n) = n"
  by (simp add: round_half_even_def)

lemma rhe_neg: "round_half_even (- y) = - round_half_even y"
proof (cases "y = of_int \<lfloor>y\<rfloor>")
  case True
  then obtain n where "y = of_int n" ..
  then show ?thesis
    by (simp add: of_int_minus [symmetric] del: of_int_minus)
next
  case False
  then have lt: "of_int \<lfloor>y\<rfloor> < y"
    using of_int_floor_le [of y] by linarith
  have f: "\<lfloor>- y\<rfloor> = - \<lfloor>y\<rfloor> - 1"
  proof (rule floor_unique)
    show "of_int (- \<lfloor>y\<rfloor> - 1) \<le> - y" by simp linarith
    show "- y < of_int (- \<lfloor>y\<rfloor> - 1) + 1" using lt by simp
  qed
  define d where "d = y - of_int \<lfloor>y\<rfloor>"
  have d: "0 < d" "d < 1" using lt by (simp_all add: d_def) linarith
  have d': "- y - of_int (- \<lfloor>y\<rfloor> - 1) = 1 - d" by (simp add: d_def)
  have e: "even (- \<lfloor>y\<rfloor> - 1) \<longleftrightarrow> odd \<lfloor>y\<rfloor>" by simp
  show ?thesis
    unfolding round_half_even_def Let_def f d' e d_def [symmetric] using d
    by (cases "d < 1 / 2"; cases "1 / 2 < d") auto
qed

lemma rhe_mono:
  assumes "y \<le> z"
  shows "round_half_even y \<le> round_half_even z"
proof (cases "\<lfloor>y\<rfloor> = \<lfloor>z\<rfloor>")
  case True
  then show ?thesis
    using assms unfolding round_half_even_def Let_def by (auto; linarith)
next
  case False
  then have "\<lfloor>y\<rfloor> + 1 \<le> \<lfloor>z\<rfloor>"
    using assms floor_mono [of y z] by linarith
  moreover have "round_half_even y \<le> \<lfloor>y\<rfloor> + 1"
    unfolding round_half_even_def Let_def by auto
  moreover have "\<lfloor>z\<rfloor> \<le> round_half_even z"
    unfolding round_half_even_def Let_def by auto
  ultimately show ?thesis by linarith
qed

lemma rhe_le: "y \<le> of_int n \<Longrightarrow> round_half_even y \<le> n"
  using rhe_mono [of y "of_int n"] by simp

lemma rhe_ge: "of_int n \<le> y \<Longrightarrow> n \<le> round_half_even y"
  using rhe_mono [of "of_int n" y] by simp

lemma quantum_pos [simp]: "0 < quantum x"
  by (simp add: quantum_def)

lemma quantum_nonzero [simp]: "quantum x \<noteq> 0"
  by (simp add: quantum_def pow2_powr)

lemma abs_quantum [simp]: "\<bar>quantum x\<bar> = quantum x"
  by (simp add: quantum_def pow2_powr)

lemma quantum_neg [simp]: "quantum (- x) = quantum x"
  by (simp add: quantum_def eff_exponent_def)

lemma nearest_neg: "nearest (- x) = - nearest x"
  by (simp add: nearest_def rhe_neg)

lemma rhe_zero [simp]: "round_half_even 0 = 0"
  using rhe_of_int [of 0] by simp

lemma nearest_zero [simp]: "nearest 0 = 0"
  by (simp add: nearest_def)

lemma nearest_err: "\<bar>nearest x - x\<bar> \<le> quantum x / 2"
proof -
  have "\<bar>of_int (round_half_even (x / quantum x)) - x / quantum x\<bar> \<le> 1 / 2"
    by (rule rhe_err)
  then have "\<bar>of_int (round_half_even (x / quantum x)) - x / quantum x\<bar> * quantum x
      \<le> 1 / 2 * quantum x"
    using quantum_pos [of x] by (intro mult_right_mono) (simp_all add: less_imp_le)
  moreover have "\<bar>of_int (round_half_even (x / quantum x)) - x / quantum x\<bar> * quantum x
      = \<bar>nearest x - x\<bar>"
  proof -
    have "(of_int (round_half_even (x / quantum x)) - x / quantum x) * quantum x = nearest x - x"
      by (simp add: nearest_def left_diff_distrib)
    then have "\<bar>nearest x - x\<bar>
        = \<bar>of_int (round_half_even (x / quantum x)) - x / quantum x\<bar> * \<bar>quantum x\<bar>"
      by (simp only: abs_mult [symmetric])
    then show ?thesis by simp
  qed
  ultimately show ?thesis by simp
qed

lemma quantum_eff: "quantum x = pow2 (eff_exponent x - 52)"
  by (simp add: quantum_def)

lemma quantum_nonneg [simp]: "0 \<le> quantum x"
  by (simp add: quantum_def pow2_powr)

lemma pow2_split:
  assumes "0 \<le> k"
  shows "pow2 (e + k) = real_of_int (2 ^ nat k) * pow2 e"
proof -
  have "pow2 (e + k) = pow2 k * pow2 e"
    by (simp only: pow2_add mult.commute)
  then show ?thesis using assms by (simp add: pow2_nat)
qed

lemma nearest_nonneg: "0 \<le> x \<Longrightarrow> 0 \<le> nearest x"
proof -
  assume "0 \<le> x"
  then have "of_int 0 \<le> x / quantum x" by simp
  then have "0 \<le> round_half_even (x / quantum x)" by (rule rhe_ge)
  then show ?thesis by (simp add: nearest_def)
qed

lemma nearest_upper:
  assumes "0 < x"
  shows "nearest x \<le> pow2 (eff_exponent x + 1)"
proof -
  let ?q = "pow2 (eff_exponent x - 52)"
  define N :: int where "N = 2 ^ nat 53"
  have "eff_exponent x + 1 = eff_exponent x - 52 + 53" by simp
  then have N: "pow2 (eff_exponent x + 1) = real_of_int N * ?q"
    using pow2_split [of 53 "eff_exponent x - 52"] by (simp only: N_def)
  have "x < pow2 (exponent x + 1)"
    using exponent_bounds(2) [of x] assms by simp
  also have "\<dots> \<le> pow2 (eff_exponent x + 1)"
    by (rule pow2_mono) (simp add: eff_exponent_def)
  finally have "x < real_of_int N * ?q" by (simp only: N)
  then have "x / ?q \<le> of_int N"
    by (simp add: field_simps)
  then have "round_half_even (x / ?q) \<le> N" by (rule rhe_le)
  then have "real_of_int (round_half_even (x / ?q)) \<le> real_of_int N"
    by (simp only: of_int_le_iff)
  then have "real_of_int (round_half_even (x / ?q)) * ?q \<le> real_of_int N * ?q"
    by (intro mult_right_mono) (simp_all add: less_imp_le)
  then show ?thesis
    by (simp only: nearest_def quantum_eff N)
qed

lemma nearest_lower:
  assumes "pow2 e \<le> x" and "eff_exponent x \<le> e"
  shows "pow2 e \<le> nearest x"
proof -
  let ?q = "pow2 (eff_exponent x - 52)"
  define k where "k = e - eff_exponent x + 52"
  define N :: int where "N = 2 ^ nat k"
  have k: "0 \<le> k" using assms(2) by (simp add: k_def)
  have "e = eff_exponent x - 52 + k" by (simp add: k_def)
  then have N: "pow2 e = real_of_int N * ?q"
    using pow2_split [OF k, of "eff_exponent x - 52"] by (simp add: N_def)
  with assms(1) have "of_int N \<le> x / ?q"
    by (simp add: field_simps)
  then have "N \<le> round_half_even (x / ?q)" by (rule rhe_ge)
  then have "real_of_int N \<le> real_of_int (round_half_even (x / ?q))"
    by (simp only: of_int_le_iff)
  then have "real_of_int N * ?q \<le> real_of_int (round_half_even (x / ?q)) * ?q"
    by (intro mult_right_mono) (simp_all add: less_imp_le)
  then show ?thesis
    by (simp only: nearest_def quantum_eff N)
qed

lemma eff_exponent_mono:
  assumes "0 < x" and "x \<le> y"
  shows "eff_exponent x \<le> eff_exponent y"
proof -
  have "exponent x \<le> exponent y"
    using assms by (intro exponent_mono) simp_all
  then show ?thesis by (simp add: eff_exponent_def)
qed

lemma nearest_mono_pos:
  assumes "0 < x" and "x \<le> y"
  shows "nearest x \<le> nearest y"
proof (cases "eff_exponent x = eff_exponent y")
  case True
  then have q: "quantum x = quantum y" by (simp add: quantum_eff)
  have "x / quantum y \<le> y / quantum y"
    using assms(2) by (simp add: divide_right_mono less_imp_le)
  then have "round_half_even (x / quantum y) \<le> round_half_even (y / quantum y)"
    by (rule rhe_mono)
  then have "real_of_int (round_half_even (x / quantum y)) * quantum y
      \<le> real_of_int (round_half_even (y / quantum y)) * quantum y"
    by (intro mult_right_mono) (simp_all add: less_imp_le)
  then show ?thesis by (simp add: nearest_def q)
next
  case False
  then have lt: "eff_exponent x + 1 \<le> eff_exponent y"
    using eff_exponent_mono [OF assms] by simp
  then have ey: "eff_exponent y = exponent y"
    by (simp add: eff_exponent_def max_def split: if_splits)
  have y: "y \<noteq> 0" using assms by simp
  have "pow2 (eff_exponent y) \<le> y"
    using exponent_bounds(1) [OF y] assms by (simp add: ey)
  then have "pow2 (eff_exponent y) \<le> nearest y"
    by (rule nearest_lower) simp
  moreover have "nearest x \<le> pow2 (eff_exponent x + 1)"
    using assms(1) by (rule nearest_upper)
  moreover have "pow2 (eff_exponent x + 1) \<le> pow2 (eff_exponent y)"
    using lt by (rule pow2_mono)
  ultimately show ?thesis by linarith
qed

lemma nearest_mono:
  assumes "x \<le> y"
  shows "nearest x \<le> nearest y"
proof -
  consider "0 < x" | "x \<le> 0" "0 \<le> y" | "y < 0" by linarith
  then show ?thesis
  proof cases
    case 1
    then show ?thesis using assms by (rule nearest_mono_pos)
  next
    case 2
    have "0 \<le> nearest (- x)" using 2(1) by (intro nearest_nonneg) simp
    then have "nearest x \<le> 0" by (simp add: nearest_neg)
    moreover have "0 \<le> nearest y" using 2(2) by (rule nearest_nonneg)
    ultimately show ?thesis by linarith
  next
    case 3
    then have "nearest (- y) \<le> nearest (- x)"
      using assms by (intro nearest_mono_pos) simp_all
    then show ?thesis by (simp add: nearest_neg)
  qed
qed

section \<open>Rounded operations\<close>

lemmas fp_eval = round64_def nearest_def quantum_def eff_exponent_def exponent_def pow2_def
  round_half_even_def
  Let_def compute_bitlen zero_of_def js_lit_def

lemmas js_eval = js_mul_def js_div_def js_add_def js_sub_def js_lt_def js_gt_def is_inf_def
  is_zero_def inf_of_def fp_eval

lemma round64_not_nan [simp]: "round64 x \<noteq> NaN"
  by (simp add: round64_def Let_def zero_of_def)

lemma round64_zero [simp]: "round64 0 = Fin 0"
  by (simp add: round64_def zero_of_def)

lemma round64_cases:
  obtains "round64 x = PosInfinity" "pow2 1024 \<le> nearest x"
  | "round64 x = NegInfinity" "nearest x \<le> - pow2 1024"
  | "is_finite (round64 x)" "val (round64 x) = nearest x" "\<bar>nearest x\<bar> < pow2 1024"
proof -
  have p: "0 < pow2 1024" by simp
  show ?thesis
    using that p unfolding round64_def Let_def zero_of_def
    by (cases "pow2 1024 \<le> nearest x"; cases "nearest x \<le> - pow2 1024"; cases "nearest x = 0")
      (auto simp del: pow2_pos)
qed

lemma round64_mono:
  assumes "x \<le> y"
  shows "js_le_or_unordered (round64 x) (round64 y)"
proof -
  have n: "nearest x \<le> nearest y" using assms by (rule nearest_mono)
  have p: "0 < pow2 1024" by simp
  show ?thesis
    by (cases x rule: round64_cases; cases y rule: round64_cases)
      (use n p in \<open>auto simp: js_le_or_unordered_def js_lt_def simp del: pow2_pos\<close>)
qed

lemma is_finite_zero_of [simp]: "is_finite (zero_of s)"
  by (simp add: zero_of_def)

lemma val_zero_of [simp]: "val (zero_of s) = 0"
  by (simp add: zero_of_def)

lemma zero_of_not_nan [simp]: "zero_of s \<noteq> NaN" "zero_of s \<noteq> PosInfinity" "zero_of s \<noteq> NegInfinity"
  by (simp_all add: zero_of_def)

lemma fl_not_nan [simp]: "fl s x \<noteq> NaN"
  by (simp add: fl_def)

lemma mul_finite:
  "is_finite a \<Longrightarrow> is_finite b \<Longrightarrow> js_mul a b = fl (sign_bit a \<noteq> sign_bit b) (val a * val b)"
  by (cases a; cases b) (simp_all add: js_mul_def fl_def is_inf_def)

lemma div_finite:
  "is_finite a \<Longrightarrow> is_finite b \<Longrightarrow> val b \<noteq> 0 \<Longrightarrow>
   js_div a b = fl (sign_bit a \<noteq> sign_bit b) (val a / val b)"
  by (cases a; cases b) (simp_all add: js_div_def fl_def is_inf_def)

lemma add_finite:
  "is_finite a \<Longrightarrow> is_finite b \<Longrightarrow> js_add a b = fl (a = NegZero \<and> b = NegZero) (val a + val b)"
  by (cases a; cases b) (simp_all add: js_add_def fl_def is_inf_def zero_of_def)

lemma fin_lt: "is_finite a \<Longrightarrow> is_finite b \<Longrightarrow> js_lt a b = (val a < val b)"
  by (cases a; cases b) (auto simp: js_lt_def)

lemma fin_gt: "is_finite a \<Longrightarrow> is_finite b \<Longrightarrow> js_gt a b = (val b < val a)"
  by (simp add: js_gt_def fin_lt)

lemma le_zero_of: "js_le_or_unordered (zero_of s) b = js_le_or_unordered (Fin 0) b"
  by (cases b) (simp_all add: js_le_or_unordered_def js_lt_def zero_of_def)

lemma zero_of_le: "js_le_or_unordered a (zero_of s) = js_le_or_unordered a (Fin 0)"
  by (cases a) (simp_all add: js_le_or_unordered_def js_lt_def zero_of_def)

lemma fl_mono:
  assumes "x \<le> y"
  shows "js_le_or_unordered (fl s x) (fl t y)"
proof -
  have "js_le_or_unordered (round64 x) (round64 y)" using assms by (rule round64_mono)
  moreover have "js_le_or_unordered (Fin 0) (round64 y)" if "x = 0"
    using round64_mono [of 0 y] assms that by simp
  moreover have "js_le_or_unordered (round64 x) (Fin 0)" if "y = 0"
    using round64_mono [of x 0] assms that by simp
  ultimately show ?thesis
    by (auto simp: fl_def le_zero_of zero_of_le)
qed

lemmas order_defs = js_le_or_unordered_def js_lt_def js_mul_def js_div_def js_add_def
  is_inf_def is_zero_def zero_of_def inf_of_def

lemma lt_imp_le_or_unordered: "js_lt a b \<Longrightarrow> js_le_or_unordered a b"
  by (cases a; cases b) (auto simp: order_defs)

lemma le_fin: "is_finite a \<Longrightarrow> is_finite b \<Longrightarrow> js_le_or_unordered a b = (val a \<le> val b)"
  by (simp add: js_le_or_unordered_def fin_lt not_less)

lemma mono_div_const:
  assumes "0 < c" and "js_le_or_unordered a b"
  shows "js_le_or_unordered (js_div a (Fin c)) (js_div b (Fin c))"
proof (cases "is_finite a \<and> is_finite b")
  case True
  then have "val a / c \<le> val b / c"
    using assms by (simp add: le_fin divide_right_mono)
  then show ?thesis
    using True assms(1) by (simp add: div_finite fl_mono)
next
  case False
  then show ?thesis
    using assms by (cases a; cases b) (auto simp: order_defs)
qed

lemma mono_mul_const:
  assumes "0 < c" and "js_le_or_unordered a b"
  shows "js_le_or_unordered (js_mul a (Fin c)) (js_mul b (Fin c))"
proof (cases "is_finite a \<and> is_finite b")
  case True
  then have "val a * c \<le> val b * c"
    using assms by (simp add: le_fin)
  then show ?thesis
    using True by (simp add: mul_finite fl_mono)
next
  case False
  then show ?thesis
    using assms by (cases a; cases b) (auto simp: order_defs)
qed

section \<open>The operations are monotone\<close>

lemma mono_round:
  assumes "js_le_or_unordered a b"
  shows "js_le_or_unordered (Math_round a) (Math_round b)"
proof (cases "is_finite a \<and> is_finite b")
  case True
  have fa: "is_finite (Math_round a)" "val (Math_round a) = of_int \<lfloor>val a + 1 / 2\<rfloor>"
    using True by (cases a; auto simp: floor_eq_iff)+
  have fb: "is_finite (Math_round b)" "val (Math_round b) = of_int \<lfloor>val b + 1 / 2\<rfloor>"
    using True by (cases b; auto simp: floor_eq_iff)+
  have "val a \<le> val b"
    using True assms by (simp add: le_fin)
  then have "real_of_int \<lfloor>val a + 1 / 2\<rfloor> \<le> real_of_int \<lfloor>val b + 1 / 2\<rfloor>"
    by (simp add: floor_mono)
  then show ?thesis
    using fa fb by (simp add: le_fin)
next
  case False
  then show ?thesis
    using assms by (cases a; cases b) (auto simp: order_defs)
qed

lemma mono_round2:
  "js_le_or_unordered a b \<Longrightarrow> js_le_or_unordered (js_round2 a) (js_round2 b)"
  unfolding js_round2_def by (intro mono_div_const mono_round mono_mul_const) simp_all

lemma mono_mul_factor:
  assumes "\<not> js_lt f (Fin 0)" and "js_le_or_unordered a b"
  shows "js_le_or_unordered (js_mul a f) (js_mul b f)"
proof (cases "is_finite a \<and> is_finite b \<and> is_finite f")
  case True
  then have "0 \<le> val f" "val a \<le> val b"
    using assms by (simp_all add: le_fin fin_lt not_less)
  then have "val a * val f \<le> val b * val f"
    by (rule mult_right_mono [rotated])
  then show ?thesis
    using True by (simp add: mul_finite fl_mono)
next
  case False
  then show ?thesis
    using assms
    by (cases a; cases b; cases f)
      (auto simp: order_defs not_less zero_less_mult_iff mult_less_0_iff split: if_splits)
qed

lemma mono_mul_left:
  assumes "\<not> js_lt g (Fin 0)" and "js_le_or_unordered a b"
  shows "js_le_or_unordered (js_mul g a) (js_mul g b)"
proof (cases "is_finite a \<and> is_finite b \<and> is_finite g")
  case True
  then have "0 \<le> val g" "val a \<le> val b"
    using assms by (simp_all add: le_fin fin_lt not_less)
  then have "val g * val a \<le> val g * val b"
    by (rule mult_left_mono [rotated])
  then show ?thesis
    using True by (simp add: mul_finite fl_mono)
next
  case False
  then show ?thesis
    using assms
    by (cases a; cases b; cases g)
      (auto simp: order_defs not_less zero_less_mult_iff mult_less_0_iff split: if_splits)
qed

lemma mono_add_left:
  assumes "js_le_or_unordered a b"
  shows "js_le_or_unordered (js_add a c) (js_add b c)"
proof (cases "is_finite a \<and> is_finite b \<and> is_finite c")
  case True
  then have "val a + val c \<le> val b + val c"
    using assms by (simp add: le_fin)
  then show ?thesis
    using True by (simp add: add_finite fl_mono)
next
  case False
  then show ?thesis
    using assms by (cases a; cases b; cases c) (auto simp: order_defs)
qed

lemma mono_add_right:
  assumes "js_le_or_unordered a b"
  shows "js_le_or_unordered (js_add c a) (js_add c b)"
proof (cases "is_finite a \<and> is_finite b \<and> is_finite c")
  case True
  then have "val c + val a \<le> val c + val b"
    using assms by (simp add: le_fin)
  then show ?thesis
    using True by (simp add: add_finite fl_mono)
next
  case False
  then show ?thesis
    using assms by (cases a; cases b; cases c) (auto simp: order_defs)
qed

lemma anti_neg:
  "js_le_or_unordered a b \<Longrightarrow> js_le_or_unordered (js_neg b) (js_neg a)"
  by (cases a; cases b) (auto simp: order_defs)

lemma anti_sub:
  "js_le_or_unordered a b \<Longrightarrow> js_le_or_unordered (js_sub c b) (js_sub c a)"
  unfolding js_sub_def by (intro mono_add_right anti_neg)

lemma total_mono:
  assumes "b' = b\<lparr>uncertainty := x\<rparr> \<and> js_lt (uncertainty b) x
       \<or> b' = b\<lparr>mortality := x\<rparr> \<and> js_lt (mortality b) x
       \<or> b' = b\<lparr>verification := x\<rparr> \<and> js_lt (verification b) x"
  shows "js_le_or_unordered (total_buffer_percentage b) (total_buffer_percentage b')"
  using assms unfolding total_buffer_percentage_def
  by (auto intro: mono_add_left [OF mono_add_left [OF lt_imp_le_or_unordered]]
      mono_add_left [OF mono_add_right [OF lt_imp_le_or_unordered]]
      mono_add_right [OF lt_imp_le_or_unordered])

lemma sub_self_100: "js_sub (Fin 100) (Fin 100) = Fin 0"
  by (simp add: js_sub_def js_add_def is_inf_def)

lemma div_zero_100: "js_div (Fin 0) (Fin 100) = Fin 0"
  by (simp add: js_div_def is_inf_def zero_of_def)

lemma factor_nonneg:
  assumes "\<not> js_gt (total_buffer_percentage b) (Fin 100)"
  shows "\<not> js_lt (buffer_factor b) (Fin 0)"
proof -
  have "js_le_or_unordered (total_buffer_percentage b) (Fin 100)"
    using assms by (simp add: js_le_or_unordered_def js_gt_def)
  then have "js_le_or_unordered (js_sub (Fin 100) (Fin 100))
      (js_sub (Fin 100) (total_buffer_percentage b))"
    by (rule anti_sub)
  then have "js_le_or_unordered (js_div (js_sub (Fin 100) (Fin 100)) (Fin 100))
      (js_div (js_sub (Fin 100) (total_buffer_percentage b)) (Fin 100))"
    by (intro mono_div_const) simp_all
  then show ?thesis
    by (simp add: sub_self_100 div_zero_100 buffer_factor_def js_le_or_unordered_def)
qed

lemma rate_pos: "0 < rate e"
  by (cases e) (simp_all add: rate_def fp_eval)

lemma factor_is_rate: "SEQUESTRATION_FACTORS e = Fin (rate e)"
  by (cases e) (simp_all add: rate_def fp_eval)

lemma fin_rate [simp]: "is_finite (SEQUESTRATION_FACTORS e)"
  by (simp add: factor_is_rate)

lemma val_rate [simp]: "val (SEQUESTRATION_FACTORS e) = rate e"
  by (simp add: rate_def)

lemma rate_bounds: "6 \<le> rate e \<and> rate e \<le> 13"
  by (cases e) (simp_all add: rate_def fp_eval)

lemma gross_nonneg:
  assumes "\<not> js_lt a (Fin 0)"
  shows "\<not> js_lt (js_mul (js_div a (Fin 10000)) (SEQUESTRATION_FACTORS e)) (Fin 0)"
proof -
  obtain c where c: "SEQUESTRATION_FACTORS e = Fin c" "0 < c"
    using factor_is_rate rate_pos by blast
  have "js_le_or_unordered (Fin 0) a"
    using assms by (simp add: js_le_or_unordered_def)
  then have "js_le_or_unordered (js_mul (js_div (Fin 0) (Fin 10000)) (Fin c))
      (js_mul (js_div a (Fin 10000)) (Fin c))"
    using c(2) by (intro mono_mul_const mono_div_const) simp_all
  moreover have "js_mul (js_div (Fin 0) (Fin 10000)) (Fin c) = Fin 0"
    using c(2) by (simp add: js_div_def js_mul_def is_inf_def zero_of_def)
  ultimately show ?thesis
    by (simp add: c(1) js_le_or_unordered_def)
qed

section \<open>Numbers that are not finite\<close>

lemma div_by_zero_not_finite: "is_zero b \<Longrightarrow> \<not> is_finite (js_div a b)"
  by (cases a; cases b) (auto simp: js_div_def is_zero_def is_inf_def inf_of_def)

lemma mul_not_finite: "\<not> is_finite a \<Longrightarrow> \<not> is_finite (js_mul a b)"
  by (cases a; cases b) (auto simp: js_mul_def is_zero_def is_inf_def inf_of_def)

lemma div_not_finite: "\<not> is_finite a \<Longrightarrow> \<not> is_finite (js_div a (Fin c))"
  by (cases a) (auto simp: js_div_def is_inf_def inf_of_def)

lemma round_not_finite: "\<not> is_finite a \<Longrightarrow> \<not> is_finite (Math_round a)"
  by (cases a) auto

section \<open>What the three functions return\<close>

lemma forward_unfold:
  "\<exists>r. calculateCarbonSequestration p = Inr r
     \<and> annual_absorption r = js_round2 (unrounded_annual p)
     \<and> cumulative_absorption r =
         js_round2 (js_mul (unrounded_annual p) (years_or_default (CalculationParams.years p)))"
  by (simp add: calculateCarbonSequestration_def Let_def js_round2_def buffer_factor_def
      total_buffer_percentage_def buffers_or_default_def years_or_default_def
      unrounded_annual_def)

lemma policy_fields:
  "\<exists>r. calculateRequiredArea q = Inr r
     \<and> annual_absorption r =
         js_round2 (js_div (target_co2_reduction q)
           (years_or_default (PolicyCalculationParams.years q)))
     \<and> cumulative_absorption r = js_round2 (target_co2_reduction q)
     \<and> cars_removed (equivalences r) =
         Math_round (js_div (js_mul (target_co2_reduction q) (js_lit 0.45))
           (years_or_default (PolicyCalculationParams.years q)))
     \<and> homes_powered (equivalences r) =
         Math_round (js_div (js_mul (target_co2_reduction q) (js_lit 0.12))
           (years_or_default (PolicyCalculationParams.years q)))
     \<and> Equivalences.trees_planted (equivalences r) =
         Math_round (js_mul (target_co2_reduction q) (Fin 16))
     \<and> policy_area_needed r =
         Some (Math_round (js_mul (js_div (target_co2_reduction q) (effective_rate_times_years q))
           (Fin 10000)))"
  by (simp add: calculateRequiredArea_def Let_def years_or_default_def IMPACT_EQUIVALENCES_def
      js_round2_def effective_rate_times_years_def buffer_factor_def total_buffer_percentage_def
      buffers_or_default_def)

lemma at_index_prev:
  "at_index h (int (length h) - 2) = (if 2 \<le> length h then Some (last (butlast h)) else None)"
proof (cases "2 \<le> length h")
  case True
  then have "0 < length (butlast h)" by simp
  then have "butlast h \<noteq> []" by (simp del: length_butlast)
  then have "last (butlast h) = butlast h ! (length h - 2)"
    by (simp add: last_conv_nth numeral_2_eq_2)
  also have "\<dots> = h ! (length h - 2)"
    using True by (simp add: nth_butlast)
  finally have "last (butlast h) = h ! nat (int (length h) - 2)"
    using True by (simp add: nat_diff_distrib')
  with True show ?thesis by (simp add: at_index_def)
next
  case False
  then show ?thesis by (simp add: at_index_def)
qed

lemma latest_last: "h \<noteq> [] \<Longrightarrow> h ! (length h - Suc 0) = last h"
  by (simp add: last_conv_nth)

lemma detect_unfold:
  "detectAnomalies p h =
     (let g = growth_rule_fires h;
          t = js_gt (annual_co2_absorption (carbon_calculations p))
                (js_mul (js_mul (SEQUESTRATION_FACTORS (Project.ecosystem_type p)) (Fin 1.5))
                   (js_div (Project.area_m2 p) (Fin 10000)));
          m = js_lt (Project.area_m2 p) (Fin 1000);
          fl = (if g then [''Unrealistic area expansion detected''] else [])
             @ (if t then [''Carbon sequestration estimates exceed theoretical maximum''] else [])
             @ (if m then [''Project area unusually small for ecosystem restoration''] else [])
      in \<lparr>is_suspicious = (g \<or> t \<or> m), flags = fl,
          credibility_impact =
            (if g then 25 else 0) + (if t then 30 else 0) + (if m then 10 else 0)\<rparr>)"
proof (cases "h = []")
  case True
  then show ?thesis
    by (simp add: detectAnomalies_def growth_rule_fires_def Let_def)
next
  case False
  then show ?thesis
    by (simp add: detectAnomalies_def growth_rule_fires_def growth_rate_def Let_def
        at_index_prev latest_last)
qed

section \<open>The error of one rounding\<close>

lemma exponent_ge:
  assumes "pow2 k \<le> \<bar>x\<bar>"
  shows "k \<le> exponent x"
proof -
  have "x \<noteq> 0"
    using assms pow2_pos [of k] by auto
  then have "\<bar>x\<bar> < pow2 (exponent x + 1)"
    by (rule exponent_bounds(2))
  with assms have "pow2 k < pow2 (exponent x + 1)"
    by simp
  then show ?thesis
    by (simp add: pow2_less_iff)
qed

lemma exponent_less:
  assumes "x \<noteq> 0" and "\<bar>x\<bar> < pow2 k"
  shows "exponent x < k"
proof -
  have "pow2 (exponent x) \<le> \<bar>x\<bar>"
    using assms(1) by (rule exponent_bounds(1))
  with assms(2) have "pow2 (exponent x) < pow2 k"
    by simp
  then show ?thesis
    by (simp add: pow2_less_iff)
qed

lemma pow2_one: "pow2 1 = 2"
  by (simp add: pow2_def)

lemma pow2_zero: "pow2 0 = 1"
  by (simp add: pow2_def)

lemma pow2_half: "pow2 (k - 1) = pow2 k / 2"
proof -
  have "pow2 k = pow2 (k - 1) * pow2 1"
    using pow2_add [of "k - 1" 1] by simp
  then show ?thesis
    by (simp add: pow2_one)
qed

lemma pow2_double: "2 * pow2 k = pow2 (k + 1)"
  using pow2_half [of "k + 1"] by simp

lemma nearest_rel:
  assumes "pow2 (- 1022) \<le> \<bar>x\<bar>"
  shows "\<bar>nearest x - x\<bar> \<le> pow2 (- 53) * \<bar>x\<bar>"
proof -
  have x: "x \<noteq> 0"
    using assms pow2_pos [of "- 1022"] by auto
  have "- 1022 \<le> exponent x"
    using assms by (rule exponent_ge)
  then have "quantum x = pow2 (exponent x - 52)"
    by (simp add: quantum_def eff_exponent_def max_def)
  then have "quantum x / 2 = pow2 (exponent x - 53)"
    using pow2_half [of "exponent x - 52"] by simp
  also have "\<dots> = pow2 (- 53 + exponent x)"
    by (simp add: algebra_simps)
  also have "\<dots> = pow2 (- 53) * pow2 (exponent x)"
    by (rule pow2_add)
  also have "\<dots> \<le> pow2 (- 53) * \<bar>x\<bar>"
    using exponent_bounds(1) [OF x] by (intro mult_left_mono) simp_all
  finally show ?thesis
    using nearest_err [of x] by linarith
qed

lemma nearest_abs: "\<bar>nearest x - x\<bar> \<le> pow2 (- 53) * \<bar>x\<bar> + pow2 (- 1075)"
proof (cases "pow2 (- 1022) \<le> \<bar>x\<bar>")
  case True
  then have "\<bar>nearest x - x\<bar> \<le> pow2 (- 53) * \<bar>x\<bar>"
    by (rule nearest_rel)
  moreover have "0 \<le> pow2 (- 1075)"
    by simp
  ultimately show ?thesis
    by linarith
next
  case False
  show ?thesis
  proof (cases "x = 0")
    case True
    then show ?thesis by simp
  next
    case x: False
    have "exponent x < - 1022"
      using x False by (intro exponent_less) simp_all
    then have "quantum x = pow2 (- 1074)"
      by (simp add: quantum_def eff_exponent_def max_def)
    then have "quantum x / 2 = pow2 (- 1075)"
      using pow2_half [of "- 1074"] by simp
    moreover have "0 \<le> pow2 (- 53) * \<bar>x\<bar>"
      by simp
    ultimately show ?thesis
      using nearest_err [of x] by linarith
  qed
qed

lemma val_round64: "is_finite (round64 x) \<Longrightarrow> val (round64 x) = nearest x"
  by (cases x rule: round64_cases) simp_all

lemma nearest_below_overflow:
  assumes "\<bar>x\<bar> < pow2 1023"
  shows "\<bar>nearest x\<bar> < pow2 1024"
proof -
  have pos: "\<bar>nearest y\<bar> < pow2 1024" if "0 < y" "y < pow2 1023" for y
  proof -
    have "exponent y < 1023"
      using that by (intro exponent_less) simp_all
    then have "eff_exponent y + 1 \<le> 1023"
      by (simp add: eff_exponent_def)
    then have "pow2 (eff_exponent y + 1) \<le> pow2 1023"
      by (rule pow2_mono)
    moreover have "nearest y \<le> pow2 (eff_exponent y + 1)"
      using that(1) by (rule nearest_upper)
    moreover have "0 \<le> nearest y"
      using that(1) by (intro nearest_nonneg) simp
    moreover have "pow2 1023 < pow2 1024"
      by (simp add: pow2_less_iff)
    ultimately show ?thesis
      by linarith
  qed
  consider "0 < x" | "x = 0" | "x < 0" by linarith
  then show ?thesis
  proof cases
    case 1
    then show ?thesis using pos [of x] assms by simp
  next
    case 2
    then show ?thesis by simp
  next
    case 3
    then show ?thesis using pos [of "- x"] assms by (simp add: nearest_neg)
  qed
qed

lemma round64_finite: "\<bar>x\<bar> < pow2 1023 \<Longrightarrow> is_finite (round64 x)"
  using nearest_below_overflow [of x] pow2_pos [of 1024]
  by (cases x rule: round64_cases) (simp_all del: pow2_pos)

lemma round64_err:
  "is_finite (round64 x) \<Longrightarrow> \<bar>val (round64 x) - x\<bar> \<le> pow2 (- 53) * \<bar>x\<bar> + pow2 (- 1075)"
  using nearest_abs [of x] by (simp add: val_round64)

lemma val_fl [simp]: "val (fl s x) = val (round64 x)"
  by (simp add: fl_def)

lemma fin_fl [simp]: "is_finite (fl s x) = is_finite (round64 x)"
  by (simp add: fl_def)

section \<open>Chains of roundings\<close>

lemma rho_pos: "0 < rho"
proof -
  have "pow2 (- 53) < pow2 0"
    by (simp add: pow2_less_iff)
  then show ?thesis
    by (simp add: rho_def pow2_zero)
qed

lemma rho_le_one: "rho \<le> 1"
  by (simp add: rho_def)

lemma rho_pow_pos [simp]: "0 < rho ^ k"
  using rho_pos by simp

lemma rho_pow_nonneg [simp]: "0 \<le> rho ^ k"
  using rho_pow_pos [of k] by (rule less_imp_le)

lemma rho_pow_le_one: "rho ^ k \<le> 1"
  using rho_pos rho_le_one by (simp add: power_le_one)

lemma rho_pow_bernoulli: "1 - real k * pow2 (- 53) \<le> rho ^ k"
proof -
  have "pow2 (- 53) \<le> pow2 0"
    by (rule pow2_mono) simp
  then have "- 1 \<le> - pow2 (- 53)"
    by (simp add: pow2_zero)
  then have "1 + real k * (- pow2 (- 53)) \<le> (1 + (- pow2 (- 53))) ^ k"
    by (rule Bernoulli_inequality)
  then show ?thesis
    by (simp add: rho_def)
qed

lemma approx_refl [simp]: "approx 0 x x"
  by (simp add: approx_def)

lemma approx_nonneg: "approx k x y \<Longrightarrow> 0 \<le> x \<Longrightarrow> 0 \<le> y"
proof -
  assume a: "approx k x y" and x: "0 \<le> x"
  have "0 \<le> x * rho ^ k"
    using x by simp
  with a show ?thesis
    by (simp add: approx_def)
qed

lemma approx_pos: "approx k x y \<Longrightarrow> 0 < x \<Longrightarrow> 0 < y"
proof -
  assume a: "approx k x y" and x: "0 < x"
  have "0 < x * rho ^ k"
    using x by simp
  with a show ?thesis
    by (simp add: approx_def)
qed

lemma approx_trans:
  assumes "approx j x y" and "approx k y z"
  shows "approx (j + k) x z"
proof -
  have 1: "x * rho ^ j \<le> y" "y * rho ^ j \<le> x" "y * rho ^ k \<le> z" "z * rho ^ k \<le> y"
    using assms by (simp_all add: approx_def)
  have "(x * rho ^ j) * rho ^ k \<le> y * rho ^ k"
    using 1(1) by (rule mult_right_mono) simp
  then have "(x * rho ^ j) * rho ^ k \<le> z"
    using 1(3) by (rule order_trans)
  then have a: "x * rho ^ (j + k) \<le> z"
    by (simp only: power_add mult.assoc)
  have "(z * rho ^ k) * rho ^ j \<le> y * rho ^ j"
    using 1(4) by (rule mult_right_mono) simp
  then have "(z * rho ^ k) * rho ^ j \<le> x"
    using 1(2) by (rule order_trans)
  then have b: "z * rho ^ (j + k) \<le> x"
    by (simp only: power_add mult.assoc mult.commute [of "rho ^ j" "rho ^ k"])
  from a b show ?thesis
    by (simp add: approx_def)
qed

lemma approx_mult:
  assumes "approx j x y" and "approx k x' y'" and "0 \<le> x" and "0 \<le> x'"
  shows "approx (j + k) (x * x') (y * y')"
proof -
  have y: "0 \<le> y" "0 \<le> y'"
    using assms by (auto intro: approx_nonneg)
  have "(x * rho ^ j) * (x' * rho ^ k) \<le> y * y'"
    using assms y by (intro mult_mono) (simp_all add: approx_def)
  moreover have "(y * rho ^ j) * (y' * rho ^ k) \<le> x * x'"
    using assms y by (intro mult_mono) (simp_all add: approx_def)
  ultimately show ?thesis
    by (simp add: approx_def power_add mult_ac)
qed

lemma approx_divide:
  assumes "approx j x y" and "approx k x' y'" and "0 \<le> x" and "0 < x'"
  shows "approx (j + k) (x / x') (y / y')"
proof -
  have y: "0 \<le> y" "0 < y'"
    using assms by (auto intro: approx_nonneg approx_pos)
  have 1: "x * rho ^ j \<le> y" "y * rho ^ j \<le> x" "x' * rho ^ k \<le> y'" "y' * rho ^ k \<le> x'"
    using assms by (simp_all add: approx_def)
  have "(x * rho ^ j) * (y' * rho ^ k) \<le> y * x'"
    using 1 y assms by (intro mult_mono) simp_all
  then have "x * rho ^ (j + k) * y' \<le> y * x'"
    by (simp add: power_add mult_ac)
  then have a: "x / x' * rho ^ (j + k) \<le> y / y'"
    using y(2) assms(4) by (simp add: field_simps)
  have "(y * rho ^ j) * (x' * rho ^ k) \<le> x * y'"
    using 1 y assms by (intro mult_mono) simp_all
  then have "y * rho ^ (j + k) * x' \<le> x * y'"
    by (simp add: power_add mult_ac)
  then have b: "y / y' * rho ^ (j + k) \<le> x / x'"
    using y(2) assms(4) by (simp add: field_simps)
  from a b show ?thesis
    by (simp add: approx_def)
qed

lemma approx_weaken:
  assumes "approx j x y" and "j \<le> k" and "0 \<le> x"
  shows "approx k x y"
proof -
  have y: "0 \<le> y"
    using assms(1,3) by (rule approx_nonneg)
  have p: "rho ^ k \<le> rho ^ j"
    using assms(2) rho_pos rho_le_one by (intro power_decreasing) simp_all
  have "x * rho ^ k \<le> x * rho ^ j"
    using p assms(3) by (rule mult_left_mono)
  moreover have "y * rho ^ k \<le> y * rho ^ j"
    using p y by (rule mult_left_mono)
  ultimately show ?thesis
    using assms(1) by (simp add: approx_def)
qed

lemma rho_pow_half:
  assumes "k \<le> 32"
  shows "1 / 2 \<le> rho ^ k"
proof -
  have "pow2 (- 53) \<le> pow2 (- 6)"
    by (rule pow2_mono) simp
  moreover have "pow2 (- 6) = 1 / 64"
    by (simp add: pow2_def)
  ultimately have "real k * pow2 (- 53) \<le> 32 * (1 / 64)"
    using assms by (intro mult_mono) simp_all
  then show ?thesis
    using rho_pow_bernoulli [of k] by simp
qed

lemma approx_lower:
  assumes "approx k x y" and "k \<le> 32" and "0 \<le> x"
  shows "x / 2 \<le> y"
proof -
  have "x * (1 / 2) \<le> x * rho ^ k"
    using rho_pow_half [OF assms(2)] assms(3) by (rule mult_left_mono)
  then show ?thesis
    using assms(1) by (simp add: approx_def)
qed

lemma approx_upper:
  assumes "approx k x y" and "k \<le> 32" and "0 \<le> x"
  shows "y \<le> 2 * x"
proof -
  have y: "0 \<le> y"
    using assms(1,3) by (rule approx_nonneg)
  have "y * (1 / 2) \<le> y * rho ^ k"
    using rho_pow_half [OF assms(2)] y by (rule mult_left_mono)
  then show ?thesis
    using assms(1) by (simp add: approx_def)
qed

lemma approx_round:
  assumes "pow2 (- 1022) \<le> x" and "x < pow2 1023"
  shows "is_finite (round64 x)" and "approx 1 x (val (round64 x))"
proof -
  have x: "0 < x"
    using assms(1) pow2_pos [of "- 1022"] by linarith
  show f: "is_finite (round64 x)"
    using assms(2) x by (intro round64_finite) simp
  have e: "\<bar>nearest x - x\<bar> \<le> pow2 (- 53) * x"
    using nearest_rel [of x] assms(1) x by simp
  have "(x + pow2 (- 53) * x) * rho = x - pow2 (- 53) * pow2 (- 53) * x"
    by (simp add: rho_def algebra_simps)
  moreover have "0 \<le> pow2 (- 53) * pow2 (- 53) * x"
    using x by simp
  ultimately have "(x + pow2 (- 53) * x) * rho \<le> x"
    by linarith
  moreover have "nearest x * rho \<le> (x + pow2 (- 53) * x) * rho"
    using e rho_pos by (intro mult_right_mono) (simp_all add: abs_le_iff)
  moreover have "x * rho \<le> nearest x"
    using e by (simp add: rho_def algebra_simps abs_le_iff)
  ultimately show "approx 1 x (val (round64 x))"
    using f by (simp add: approx_def val_round64)
qed

lemma approx_round_chain:
  assumes "approx k x y" and "k \<le> 32" and "pow2 (- 1000) \<le> x" and "x \<le> pow2 1000"
  shows "is_finite (round64 y)" and "approx (Suc k) x (val (round64 y))"
proof -
  have x: "0 \<le> x"
    using assms(3) pow2_pos [of "- 1000"] by linarith
  have "pow2 (- 1001) = pow2 (- 1000) / 2"
    using pow2_half [of "- 1000"] by simp
  then have "pow2 (- 1001) \<le> x / 2"
    using assms(3) by simp
  also have "x / 2 \<le> y"
    using assms(1,2) x by (rule approx_lower)
  finally have "pow2 (- 1001) \<le> y" .
  moreover have "pow2 (- 1022) \<le> pow2 (- 1001)"
    by (rule pow2_mono) simp
  ultimately have lo: "pow2 (- 1022) \<le> y"
    by linarith
  have "y \<le> 2 * x"
    using assms(1,2) x by (rule approx_upper)
  also have "\<dots> \<le> 2 * pow2 1000"
    using assms(4) by simp
  also have "\<dots> = pow2 1001"
    using pow2_half [of 1001] by simp
  also have "\<dots> < pow2 1023"
    by (simp add: pow2_less_iff)
  finally have hi: "y < pow2 1023" .
  show "is_finite (round64 y)"
    using lo hi by (rule approx_round(1))
  have "approx 1 y (val (round64 y))"
    using lo hi by (rule approx_round(2))
  with assms(1) have "approx (k + 1) x (val (round64 y))"
    by (rule approx_trans)
  then show "approx (Suc k) x (val (round64 y))"
    by simp
qed

lemma inrange_pos: "inrange m x \<Longrightarrow> 0 < x"
  using pow2_pos [of "- int m"] by (simp add: inrange_def del: pow2_pos)

lemma inrange_mult:
  assumes "inrange m x" and "inrange n y"
  shows "inrange (m + n) (x * y)"
proof -
  have p: "0 \<le> x" "0 \<le> y"
    using inrange_pos [OF assms(1)] inrange_pos [OF assms(2)] by simp_all
  have "pow2 (- int m) * pow2 (- int n) \<le> x * y"
    using assms p by (intro mult_mono) (simp_all add: inrange_def)
  moreover have "x * y \<le> pow2 (int m) * pow2 (int n)"
    using assms p by (intro mult_mono) (simp_all add: inrange_def)
  moreover have "pow2 (- int (m + n)) = pow2 (- int m) * pow2 (- int n)"
    using pow2_add [of "- int m" "- int n"] by simp
  moreover have "pow2 (int (m + n)) = pow2 (int m) * pow2 (int n)"
    using pow2_add [of "int m" "int n"] by simp
  ultimately show ?thesis
    by (simp add: inrange_def)
qed

lemma inrange_inverse:
  assumes "inrange n y"
  shows "inrange n (1 / y)"
proof -
  have y: "0 < y"
    using assms by (rule inrange_pos)
  have "1 / y \<le> 1 / pow2 (- int n)"
    using assms y by (intro divide_left_mono) (simp_all add: inrange_def)
  moreover have "1 / pow2 (int n) \<le> 1 / y"
    using assms y by (intro divide_left_mono) (simp_all add: inrange_def)
  moreover have "pow2 (- int n) = 1 / pow2 (int n)"
    by (rule pow2_minus)
  ultimately show ?thesis
    by (simp add: inrange_def)
qed

lemma inrange_divide:
  assumes "inrange m x" and "inrange n y"
  shows "inrange (m + n) (x / y)"
  using inrange_mult [OF assms(1) inrange_inverse [OF assms(2)]] by simp

lemma inrange_mono:
  assumes "inrange m x" and "m \<le> n"
  shows "inrange n x"
proof -
  have "pow2 (- int n) \<le> pow2 (- int m)" "pow2 (int m) \<le> pow2 (int n)"
    using assms(2) by (auto intro: pow2_mono)
  then show ?thesis
    using assms(1) by (simp add: inrange_def)
qed

lemma inrange_1000:
  assumes "inrange m x" and "m \<le> 1000"
  shows "pow2 (- 1000) \<le> x" and "x \<le> pow2 1000"
  using inrange_mono [OF assms] by (simp_all add: inrange_def)

lemma tracks_exact: "is_finite a \<Longrightarrow> inrange m (val a) \<Longrightarrow> tracks 0 m (val a) a"
  by (simp add: tracks_def)

lemma tracks_cong:
  "tracks j m x a \<Longrightarrow> j = j' \<Longrightarrow> m = m' \<Longrightarrow> x = x' \<Longrightarrow> a = a' \<Longrightarrow> tracks j' m' x' a'"
  by simp

lemma tracks_pos: "tracks k m x a \<Longrightarrow> 0 < val a"
  unfolding tracks_def by (auto intro: approx_pos inrange_pos)

lemma tracks_mul:
  assumes "tracks j m x a" and "tracks k n y b" and "j + k \<le> 32" and "m + n \<le> 1000"
  shows "tracks (j + k + 1) (m + n) (x * y) (js_mul a b)"
proof -
  have f: "is_finite a" "is_finite b"
    using assms(1,2) by (simp_all add: tracks_def)
  have r: "inrange m x" "inrange n y"
    using assms(1,2) by (simp_all add: tracks_def)
  have p: "0 \<le> x" "0 \<le> y"
    using r by (auto dest: inrange_pos)
  have i: "inrange (m + n) (x * y)"
    using r by (rule inrange_mult)
  have "approx (j + k) (x * y) (val a * val b)"
    using assms(1,2) p by (intro approx_mult) (simp_all add: tracks_def)
  from approx_round_chain [OF this assms(3) inrange_1000 [OF i assms(4)]] show ?thesis
    using f i by (simp add: tracks_def mul_finite)
qed

lemma tracks_div:
  assumes "tracks j m x a" and "tracks k n y b" and "j + k \<le> 32" and "m + n \<le> 1000"
  shows "tracks (j + k + 1) (m + n) (x / y) (js_div a b)"
proof -
  have f: "is_finite a" "is_finite b"
    using assms(1,2) by (simp_all add: tracks_def)
  have r: "inrange m x" "inrange n y"
    using assms(1,2) by (simp_all add: tracks_def)
  have p: "0 \<le> x" "0 < y"
    using r by (auto dest: inrange_pos)
  have b: "val b \<noteq> 0"
    using tracks_pos [OF assms(2)] by simp
  have i: "inrange (m + n) (x / y)"
    using r by (rule inrange_divide)
  have "approx (j + k) (x / y) (val a / val b)"
    using assms(1,2) p by (intro approx_divide) (simp_all add: tracks_def)
  from approx_round_chain [OF this assms(3) inrange_1000 [OF i assms(4)]] show ?thesis
    using f b i by (simp add: tracks_def div_finite)
qed

lemma fin_round [simp]: "is_finite (Math_round a) = is_finite a"
  by (cases a) simp_all

lemma val_round: "val (Math_round a) = of_int \<lfloor>val a + 1 / 2\<rfloor>"
proof (cases a)
  case (Fin r)
  have "\<lfloor>r + 1 / 2\<rfloor> = 0" if "- (1 / 2) \<le> r" "r < 0"
    using that by (simp add: floor_eq_iff)
  then show ?thesis
    using Fin by simp
qed simp_all

lemma round_err: "\<bar>val (Math_round a) - val a\<bar> \<le> 1 / 2"
  unfolding val_round by linarith

section \<open>The error of rounding to two decimals\<close>

lemma pow2_consts:
  "pow2 (- 51) = 4 * pow2 (- 53)" "pow2 (- 50) = 8 * pow2 (- 53)"
  "pow2 (- 48) = 32 * pow2 (- 53)" "pow2 (- 53) \<le> 1 / 1024"
  "pow2 (- 1075) \<le> pow2 (- 53)"
proof -
  show "pow2 (- 51) = 4 * pow2 (- 53)"
    using pow2_add [of 2 "- 53"] by (simp add: pow2_def)
  show "pow2 (- 50) = 8 * pow2 (- 53)"
    using pow2_add [of 3 "- 53"] by (simp add: pow2_def)
  show "pow2 (- 48) = 32 * pow2 (- 53)"
    using pow2_add [of 5 "- 53"] by (simp add: pow2_def)
  have "pow2 (- 53) \<le> pow2 (- 10)"
    by (rule pow2_mono) simp
  then show "pow2 (- 53) \<le> 1 / 1024"
    by (simp add: pow2_def)
  show "pow2 (- 1075) \<le> pow2 (- 53)"
    by (rule pow2_mono) simp
qed

lemma mul_val:
  assumes "is_finite (js_mul a b)"
  shows "is_finite a" and "is_finite b"
    and "\<bar>val (js_mul a b) - val a * val b\<bar> \<le> pow2 (- 53) * \<bar>val a * val b\<bar> + pow2 (- 1075)"
proof -
  show a: "is_finite a" and b: "is_finite b"
    using assms by (cases a; cases b; simp add: js_mul_def is_inf_def is_zero_def inf_of_def
        split: if_splits)+
  have "is_finite (round64 (val a * val b))"
    using assms a b by (simp add: mul_finite)
  from round64_err [OF this]
  show "\<bar>val (js_mul a b) - val a * val b\<bar>
      \<le> pow2 (- 53) * \<bar>val a * val b\<bar> + pow2 (- 1075)"
    using a b by (simp add: mul_finite)
qed

lemma div_val:
  assumes "is_finite (js_div a b)" and "is_finite b" and "val b \<noteq> 0"
  shows "is_finite a"
    and "\<bar>val (js_div a b) - val a / val b\<bar> \<le> pow2 (- 53) * \<bar>val a / val b\<bar> + pow2 (- 1075)"
proof -
  show a: "is_finite a"
    using assms by (cases a; cases b; simp add: js_div_def is_inf_def is_zero_def inf_of_def
        split: if_splits)
  have "is_finite (round64 (val a / val b))"
    using assms a by (simp add: div_finite)
  from round64_err [OF this]
  show "\<bar>val (js_div a b) - val a / val b\<bar>
      \<le> pow2 (- 53) * \<bar>val a / val b\<bar> + pow2 (- 1075)"
    using a assms(2,3) by (simp add: div_finite)
qed

lemma js_round2_finite:
  assumes "is_finite (js_round2 x)"
  shows "is_finite x"
proof -
  have "is_finite (Math_round (js_mul x (Fin 100)))"
    using assms unfolding js_round2_def by (rule div_val(1)) simp_all
  then have "is_finite (js_mul x (Fin 100))"
    by simp
  then show ?thesis
    by (rule mul_val(1))
qed

lemma js_round2_err:
  assumes "is_finite (js_round2 x)"
  shows "\<bar>val (js_round2 x) - val x\<bar> \<le> 1 / 200 + pow2 (- 51) * (\<bar>val x\<bar> + 1)"
proof -
  define u where "u = pow2 (- 53)"
  define h where "h = pow2 (- 1075)"
  define m where "m = js_mul x (Fin 100)"
  define n where "n = Math_round m"
  define X where "X = \<bar>val x\<bar>"
  define a where "a = u * X"
  have u: "0 \<le> u" "u \<le> 1" "0 \<le> h" "h \<le> u" "h \<le> 1"
    using pow2_consts(4,5) by (simp_all add: u_def h_def)
  have X: "0 \<le> X" and a: "0 \<le> a"
    using u(1) by (simp_all add: X_def a_def)
  have z: "js_round2 x = js_div n (Fin 100)"
    by (simp add: js_round2_def n_def m_def)
  have fn: "is_finite n"
    using assms unfolding z by (rule div_val(1)) simp_all
  then have fm: "is_finite m"
    by (simp add: n_def)
  have "\<bar>val m - val x * 100\<bar> \<le> u * \<bar>val x * 100\<bar> + h"
    using mul_val(3) [of x "Fin 100"] fm by (simp add: m_def u_def h_def)
  then have e1: "\<bar>val m - 100 * val x\<bar> \<le> 100 * a + h"
    by (simp add: a_def X_def abs_mult mult.commute)
  have e2: "\<bar>val n - val m\<bar> \<le> 1 / 2"
    unfolding n_def by (rule round_err)
  have "\<bar>val (js_round2 x) - val n / 100\<bar> \<le> u * \<bar>val n / 100\<bar> + h"
    using div_val(2) [of n "Fin 100"] assms by (simp add: z u_def h_def)
  then have e3: "\<bar>val (js_round2 x) - val n / 100\<bar> \<le> u * (\<bar>val n\<bar> / 100) + h"
    by simp
  have "\<bar>100 * val x\<bar> = 100 * X"
    by (simp add: X_def abs_mult)
  then have n1: "\<bar>val n\<bar> \<le> 100 * X + 100 * a + h + 1 / 2"
    using e1 e2 by linarith
  have "u * (\<bar>val n\<bar> / 100) \<le> u * ((100 * X + 100 * a + h + 1 / 2) / 100)"
    using n1 u(1) by (intro mult_left_mono) simp_all
  also have "\<dots> = a + u * a + u * h / 100 + u / 200"
    by (simp add: a_def algebra_simps)
  finally have n2: "u * (\<bar>val n\<bar> / 100) \<le> a + u * a + u * h / 100 + u / 200" .
  have "u * a \<le> 1 * a"
    using u(2) a by (rule mult_right_mono)
  moreover have "u * h \<le> u * 1"
    using u(5) u(1) by (rule mult_left_mono)
  ultimately have "u * (\<bar>val n\<bar> / 100) \<le> 2 * a + u / 100 + u / 200"
    using n2 by simp
  with e1 e2 e3 u a have "\<bar>val (js_round2 x) - val x\<bar> \<le> 1 / 200 + 4 * a + 4 * u"
    by linarith
  then show ?thesis
    by (simp add: pow2_consts(1) a_def u_def X_def algebra_simps)
qed

section \<open>Forward mode: the cumulative field against the annual field\<close>

lemma cumulative_err:
  assumes "is_finite (js_round2 N)" and "is_finite (js_round2 (js_mul N Y))"
  shows "\<bar>val (js_round2 (js_mul N Y)) - val (js_round2 N) * val Y\<bar>
    \<le> (\<bar>val Y\<bar> + 1) * (1 / 200 + pow2 (- 48) * (\<bar>val (js_round2 N)\<bar> + 1))"
proof -
  define u where "u = pow2 (- 53)"
  define h where "h = pow2 (- 1075)"
  define A where "A = val N"
  define y where "y = val Y"
  define P where "P = val (js_mul N Y)"
  define a where "a = val (js_round2 N)"
  define c where "c = val (js_round2 (js_mul N Y))"
  define E1 where "E1 = u * (\<bar>A\<bar> * \<bar>y\<bar>)"
  define E2 where "E2 = u * \<bar>y\<bar>"
  define E3 where "E3 = u * (\<bar>a\<bar> * \<bar>y\<bar>)"
  define E4 where "E4 = u * \<bar>a\<bar>"
  have u: "0 \<le> u" "u \<le> 1 / 1024" "0 \<le> h" "h \<le> u"
    using pow2_consts(4,5) by (simp_all add: u_def h_def)
  have E: "0 \<le> E1" "0 \<le> E2" "0 \<le> E3" "0 \<le> E4"
    using u(1) by (simp_all add: E1_def E2_def E3_def E4_def)
  have fP: "is_finite (js_mul N Y)"
    using assms(2) by (rule js_round2_finite)
  have "\<bar>P - A * y\<bar> \<le> u * \<bar>A * y\<bar> + h"
    using mul_val(3) [OF fP] by (simp only: P_def A_def y_def u_def h_def)
  then have eP: "\<bar>P - A * y\<bar> \<le> E1 + h"
    by (simp only: E1_def abs_mult)
  have "\<bar>a - A\<bar> \<le> 1 / 200 + 4 * u * (\<bar>A\<bar> + 1)"
    using js_round2_err [OF assms(1)] by (simp only: a_def A_def u_def pow2_consts(1))
  then have ea: "\<bar>a - A\<bar> \<le> 1 / 200 + 4 * (u * \<bar>A\<bar>) + 4 * u"
    by (simp add: algebra_simps)
  have "\<bar>c - P\<bar> \<le> 1 / 200 + 4 * u * (\<bar>P\<bar> + 1)"
    using js_round2_err [OF assms(2)] by (simp only: c_def P_def u_def pow2_consts(1))
  then have ec: "\<bar>c - P\<bar> \<le> 1 / 200 + 4 * (u * \<bar>P\<bar>) + 4 * u"
    by (simp add: algebra_simps)
  have "u * \<bar>A\<bar> \<le> 1 / 1024 * \<bar>A\<bar>"
    using u(2) by (intro mult_right_mono) simp_all
  with ea u have A1: "\<bar>A\<bar> \<le> 2 * \<bar>a\<bar> + 1"
    by linarith
  have "\<bar>A\<bar> * \<bar>y\<bar> \<le> (2 * \<bar>a\<bar> + 1) * \<bar>y\<bar>"
    using A1 by (intro mult_right_mono) simp_all
  then have "u * (\<bar>A\<bar> * \<bar>y\<bar>) \<le> u * ((2 * \<bar>a\<bar> + 1) * \<bar>y\<bar>)"
    using u(1) by (intro mult_left_mono)
  then have E13: "E1 \<le> 2 * E3 + E2"
    by (simp add: E1_def E2_def E3_def algebra_simps)
  have "\<bar>A * y\<bar> = \<bar>A\<bar> * \<bar>y\<bar>"
    by (rule abs_mult)
  with eP have "\<bar>P\<bar> \<le> \<bar>A\<bar> * \<bar>y\<bar> + E1 + h"
    by linarith
  then have "u * \<bar>P\<bar> \<le> u * (\<bar>A\<bar> * \<bar>y\<bar> + E1 + h)"
    using u(1) by (intro mult_left_mono)
  also have "\<dots> = E1 + u * E1 + u * h"
    by (simp add: E1_def algebra_simps)
  finally have "u * \<bar>P\<bar> \<le> E1 + u * E1 + u * h" .
  moreover have "u * E1 \<le> 1 * E1"
    using u(2) E(1) by (intro mult_right_mono) simp_all
  moreover have "u * h \<le> u * 1"
    using u by (intro mult_left_mono) simp_all
  ultimately have uP: "u * \<bar>P\<bar> \<le> 2 * E1 + u"
    by simp
  have "\<bar>a * y - A * y\<bar> = \<bar>a - A\<bar> * \<bar>y\<bar>"
    by (simp only: left_diff_distrib [symmetric] abs_mult)
  moreover have "\<bar>a - A\<bar> * \<bar>y\<bar> \<le> (1 / 200 + 4 * (u * \<bar>A\<bar>) + 4 * u) * \<bar>y\<bar>"
    using ea by (intro mult_right_mono) simp_all
  moreover have "(1 / 200 + 4 * (u * \<bar>A\<bar>) + 4 * u) * \<bar>y\<bar> = \<bar>y\<bar> / 200 + 4 * E1 + 4 * E2"
    by (simp add: E1_def E2_def algebra_simps)
  ultimately have ay: "\<bar>a * y - A * y\<bar> \<le> \<bar>y\<bar> / 200 + 4 * E1 + 4 * E2"
    by simp
  have "\<bar>c - a * y\<bar> \<le> (\<bar>y\<bar> + 1) / 200 + 32 * (E3 + E4 + E2 + u)"
    using ec eP ay uP E13 E u by (simp add: add_divide_distrib)
  also have "\<dots> = (\<bar>y\<bar> + 1) * (1 / 200 + 32 * u * (\<bar>a\<bar> + 1))"
    by (simp add: E2_def E3_def E4_def algebra_simps)
  finally show ?thesis
    by (simp only: c_def a_def y_def u_def pow2_consts(3))
qed

section \<open>Policy mode: the fields against the exact formulas\<close>

lemma quotient_round2_err:
  assumes "is_finite (js_round2 (js_div T Y))" and "is_finite Y" and "val Y \<noteq> 0"
  shows "\<bar>val (js_round2 (js_div T Y)) - val T / val Y\<bar>
    \<le> 1 / 200 + pow2 (- 48) * (\<bar>val T / val Y\<bar> + 1)"
proof -
  define u where "u = pow2 (- 53)"
  define h where "h = pow2 (- 1075)"
  define x where "x = val T / val Y"
  define q where "q = val (js_div T Y)"
  define a where "a = val (js_round2 (js_div T Y))"
  define E where "E = u * \<bar>x\<bar>"
  have u: "0 \<le> u" "u \<le> 1 / 1024" "0 \<le> h" "h \<le> u"
    using pow2_consts(4,5) by (simp_all add: u_def h_def)
  have E: "0 \<le> E"
    using u(1) by (simp add: E_def)
  have fq: "is_finite (js_div T Y)"
    using assms(1) by (rule js_round2_finite)
  have eq: "\<bar>q - x\<bar> \<le> E + h"
    using div_val(2) [OF fq assms(2,3)] by (simp only: q_def x_def u_def h_def E_def)
  have "\<bar>a - q\<bar> \<le> 1 / 200 + 4 * u * (\<bar>q\<bar> + 1)"
    using js_round2_err [OF assms(1)] by (simp only: a_def q_def u_def pow2_consts(1))
  then have ea: "\<bar>a - q\<bar> \<le> 1 / 200 + 4 * (u * \<bar>q\<bar>) + 4 * u"
    by (simp add: algebra_simps)
  have "\<bar>q\<bar> \<le> \<bar>x\<bar> + E + h"
    using eq by linarith
  then have "u * \<bar>q\<bar> \<le> u * (\<bar>x\<bar> + E + h)"
    using u(1) by (intro mult_left_mono)
  also have "\<dots> = E + u * E + u * h"
    by (simp add: E_def algebra_simps)
  finally have "u * \<bar>q\<bar> \<le> E + u * E + u * h" .
  moreover have "u * E \<le> 1 * E"
    using u(2) E by (intro mult_right_mono) simp_all
  moreover have "u * h \<le> u * 1"
    using u by (intro mult_left_mono) simp_all
  ultimately have "u * \<bar>q\<bar> \<le> 2 * E + u"
    by simp
  with ea have "\<bar>a - q\<bar> \<le> 1 / 200 + 8 * E + 8 * u"
    by linarith
  with eq E u have "\<bar>a - x\<bar> \<le> 1 / 200 + (32 * E + 32 * u)"
    by linarith
  also have "\<dots> = 1 / 200 + 32 * u * (\<bar>x\<bar> + 1)"
    by (simp add: E_def algebra_simps)
  finally show ?thesis
    by (simp only: a_def x_def u_def pow2_consts(3))
qed

lemma round_product_err:
  assumes "is_finite (Math_round (js_mul T (Fin c)))"
  shows "\<bar>val (Math_round (js_mul T (Fin c))) - val T * c\<bar>
    \<le> 1 / 2 + pow2 (- 48) * (\<bar>val T * c\<bar> + 1)"
proof -
  define u where "u = pow2 (- 53)"
  define h where "h = pow2 (- 1075)"
  have u: "0 \<le> u" "u \<le> 1 / 1024" "0 \<le> h" "h \<le> u"
    using pow2_consts(4,5) by (simp_all add: u_def h_def)
  have f: "is_finite (js_mul T (Fin c))"
    using assms by simp
  have "\<bar>val (js_mul T (Fin c)) - val T * c\<bar> \<le> u * \<bar>val T * c\<bar> + h"
    using mul_val(3) [OF f] by (simp add: u_def h_def)
  moreover have "\<bar>val (Math_round (js_mul T (Fin c))) - val (js_mul T (Fin c))\<bar> \<le> 1 / 2"
    by (rule round_err)
  moreover have "u * \<bar>val T * c\<bar> \<le> 32 * u * \<bar>val T * c\<bar>"
    using u(1) by (intro mult_right_mono) simp_all
  ultimately have "\<bar>val (Math_round (js_mul T (Fin c))) - val T * c\<bar>
      \<le> 1 / 2 + (32 * u * \<bar>val T * c\<bar> + 32 * u)"
    using u by linarith
  then show ?thesis
    by (simp add: u_def pow2_consts(3) algebra_simps)
qed

lemma round_scaled_quotient_err:
  assumes "is_finite (Math_round (js_div (js_mul T (Fin c)) Y))"
    and "is_finite Y" and "val Y \<noteq> 0"
    and "0 \<le> c0" and "\<bar>c - c0\<bar> \<le> pow2 (- 53) * c0"
  shows "\<bar>val (Math_round (js_div (js_mul T (Fin c)) Y)) - val T * c0 / val Y\<bar>
    \<le> 1 / 2 + pow2 (- 48) * (\<bar>val T * c0 / val Y\<bar> + 1) + pow2 (- 1074) / \<bar>val Y\<bar>"
proof -
  define u where "u = pow2 (- 53)"
  define h where "h = pow2 (- 1075)"
  define y where "y = \<bar>val Y\<bar>"
  define t where "t = \<bar>val T\<bar> / y"
  define X where "X = t * c0"
  define m where "m = val (js_mul T (Fin c))"
  define q where "q = val (js_div (js_mul T (Fin c)) Y)"
  define r where "r = val (Math_round (js_div (js_mul T (Fin c)) Y))"
  define hy where "hy = h / y"
  define E where "E = u * X"
  have u: "0 \<le> u" "u \<le> 1 / 1024" "0 \<le> h" "h \<le> u"
    using pow2_consts(4,5) by (simp_all add: u_def h_def)
  have y: "0 < y"
    using assms(3) by (simp add: y_def)
  have t: "0 \<le> t"
    using y by (simp add: t_def)
  have X: "0 \<le> X" and E: "0 \<le> E" and hy: "0 \<le> hy"
    using t assms(4) u y by (simp_all add: X_def E_def hy_def)
  have c: "\<bar>c\<bar> \<le> c0 + u * c0"
    using assms(4,5) unfolding u_def by linarith
  have fq: "is_finite (js_div (js_mul T (Fin c)) Y)"
    using assms(1) by simp
  have fm: "is_finite (js_mul T (Fin c))"
    using fq assms(2,3) by (rule div_val(1))
  have "\<bar>m - val T * c\<bar> \<le> u * \<bar>val T * c\<bar> + h"
    using mul_val(3) [OF fm] by (simp add: m_def u_def h_def)
  then have em: "\<bar>m - val T * c\<bar> \<le> u * (\<bar>val T\<bar> * \<bar>c\<bar>) + h"
    by (simp only: abs_mult)
  have "\<bar>q - m / val Y\<bar> \<le> u * \<bar>m / val Y\<bar> + h"
    using div_val(2) [OF fq assms(2,3)] by (simp only: q_def m_def u_def h_def)
  then have eq: "\<bar>q - m / val Y\<bar> \<le> u * (\<bar>m\<bar> / y) + h"
    by (simp only: abs_divide y_def)
  have er: "\<bar>r - q\<bar> \<le> 1 / 2"
    unfolding r_def q_def by (rule round_err)
  have tc: "\<bar>val T\<bar> * \<bar>c\<bar> / y \<le> X + E"
  proof -
    have "t * \<bar>c\<bar> \<le> t * (c0 + u * c0)"
      using c t by (rule mult_left_mono)
    moreover have "t * \<bar>c\<bar> = \<bar>val T\<bar> * \<bar>c\<bar> / y"
      by (simp add: t_def)
    moreover have "t * (c0 + u * c0) = X + E"
      by (simp add: X_def E_def algebra_simps)
    ultimately show ?thesis
      by simp
  qed
  have "\<bar>m / val Y - val T * c / val Y\<bar> = \<bar>m - val T * c\<bar> / y"
    by (simp only: diff_divide_distrib [symmetric] abs_divide y_def)
  also have "\<dots> \<le> (u * (\<bar>val T\<bar> * \<bar>c\<bar>) + h) / y"
    using em y by (intro divide_right_mono) simp_all
  also have "\<dots> = u * (\<bar>val T\<bar> * \<bar>c\<bar> / y) + hy"
    by (simp add: hy_def add_divide_distrib)
  also have "\<dots> \<le> u * (X + E) + hy"
    using tc u(1) by (intro add_right_mono mult_left_mono)
  finally have d1: "\<bar>m / val Y - val T * c / val Y\<bar> \<le> u * (X + E) + hy" .
  have "\<bar>val T * c / val Y - val T * c0 / val Y\<bar> = t * \<bar>c - c0\<bar>"
    by (simp add: diff_divide_distrib [symmetric] right_diff_distrib [symmetric] abs_mult
        t_def y_def)
  also have "\<dots> \<le> t * (u * c0)"
    using assms(5) t by (intro mult_left_mono) (simp_all add: u_def)
  also have "\<dots> = E"
    by (simp add: E_def X_def)
  finally have d2: "\<bar>val T * c / val Y - val T * c0 / val Y\<bar> \<le> E" .
  have "\<bar>val T * c\<bar> = \<bar>val T\<bar> * \<bar>c\<bar>"
    by (rule abs_mult)
  with em have "\<bar>m\<bar> \<le> \<bar>val T\<bar> * \<bar>c\<bar> + (u * (\<bar>val T\<bar> * \<bar>c\<bar>) + h)"
    by linarith
  then have "\<bar>m\<bar> / y \<le> (\<bar>val T\<bar> * \<bar>c\<bar> + (u * (\<bar>val T\<bar> * \<bar>c\<bar>) + h)) / y"
    using y by (intro divide_right_mono) simp_all
  also have "\<dots> = \<bar>val T\<bar> * \<bar>c\<bar> / y + u * (\<bar>val T\<bar> * \<bar>c\<bar> / y) + hy"
    by (simp add: hy_def add_divide_distrib)
  also have "\<dots> \<le> (X + E) + u * (X + E) + hy"
    using tc u(1) by (intro add_mono mult_left_mono) simp_all
  finally have "\<bar>m\<bar> / y \<le> (X + E) + u * (X + E) + hy" .
  then have "u * (\<bar>m\<bar> / y) \<le> u * ((X + E) + u * (X + E) + hy)"
    using u(1) by (intro mult_left_mono)
  also have "\<dots> = E + u * E + u * (E + u * E) + u * hy"
    by (simp add: E_def algebra_simps)
  finally have d3: "u * (\<bar>m\<bar> / y) \<le> E + u * E + u * (E + u * E) + u * hy" .
  have s1: "u * E \<le> 1 / 1024 * E"
    using u(2) E by (intro mult_right_mono) simp_all
  have "u * (E + u * E) \<le> 1 * (E + u * E)"
    using u E by (intro mult_right_mono) simp_all
  with s1 have s2: "u * (E + u * E) \<le> 2 * E"
    using E by simp
  have s3: "u * hy \<le> 1 * hy"
    using u hy by (intro mult_right_mono) simp_all
  have s4: "u * (X + E) = E + u * E"
    by (simp add: E_def algebra_simps)
  have "\<bar>r - val T * c0 / val Y\<bar> \<le> 1 / 2 + (32 * E + 32 * u) + 2 * hy"
    using er eq d1 d2 d3 s1 s2 s3 s4 E u hy by linarith
  moreover have "32 * E = 32 * u * \<bar>val T * c0 / val Y\<bar>"
    using assms(4) by (simp add: E_def X_def t_def y_def abs_mult)
  moreover have "2 * hy = pow2 (- 1074) / y"
    using pow2_half [of "- 1074"] by (simp add: hy_def h_def)
  ultimately show ?thesis
    by (simp add: r_def y_def u_def pow2_consts(3) algebra_simps)
qed

lemma literal_errors:
  "js_lit 0.45 = Fin (8106479329266893 / 18014398509481984)"
  "js_lit 0.12 = Fin (1080863910568919 / 9007199254740992)"
  "\<bar>8106479329266893 / 18014398509481984 - 0.45\<bar> \<le> pow2 (- 53) * (0.45::real)"
  "\<bar>1080863910568919 / 9007199254740992 - 0.12\<bar> \<le> pow2 (- 53) * (0.12::real)"
  by (simp_all add: fp_eval)

section \<open>Forward mode, then policy mode: the area that comes back\<close>

lemma approx5_upper:
  assumes "approx 5 x y" and "0 \<le> x"
  shows "y \<le> x * (1 + pow2 (- 50))"
proof -
  define u where "u = pow2 (- 53)"
  have u: "0 \<le> u" "u \<le> 1 / 1024"
    using pow2_consts(4) by (simp_all add: u_def)
  have y: "0 \<le> y"
    using assms by (rule approx_nonneg)
  have "1 - 5 * u \<le> rho ^ 5"
    using rho_pow_bernoulli [of 5] by (simp add: u_def)
  then have "y * (1 - 5 * u) \<le> y * rho ^ 5"
    using y by (rule mult_left_mono)
  also have "\<dots> \<le> x"
    using assms(1) by (simp add: approx_def)
  finally have 1: "y * (1 - 5 * u) \<le> x" .
  have "u * u \<le> u * (1 / 1024)"
    using u by (intro mult_left_mono) simp_all
  then have "1 \<le> (1 - 5 * u) * (1 + 8 * u)"
    using u by (simp add: algebra_simps)
  then have "y * 1 \<le> y * ((1 - 5 * u) * (1 + 8 * u))"
    using y by (rule mult_left_mono)
  also have "\<dots> = (y * (1 - 5 * u)) * (1 + 8 * u)"
    by simp
  also have "\<dots> \<le> x * (1 + 8 * u)"
    using 1 u by (intro mult_right_mono) simp_all
  finally show ?thesis
    by (simp add: u_def pow2_consts(2))
qed

lemma approx5_lower:
  assumes "approx 5 x y" and "0 \<le> x"
  shows "x * (1 - pow2 (- 50)) \<le> y"
proof -
  define u where "u = pow2 (- 53)"
  have u: "0 \<le> u"
    by (simp add: u_def)
  have "1 - 5 * u \<le> rho ^ 5"
    using rho_pow_bernoulli [of 5] by (simp add: u_def)
  then have "1 - 8 * u \<le> rho ^ 5"
    using u by linarith
  then have "x * (1 - 8 * u) \<le> x * rho ^ 5"
    using assms(2) by (rule mult_left_mono)
  also have "\<dots> \<le> y"
    using assms(1) by (simp add: approx_def)
  finally show ?thesis
    by (simp add: u_def pow2_consts(2))
qed

lemma zero_target_area:
  assumes "is_finite c" and "val c = 0" and "is_finite E" and "val E \<noteq> 0"
  shows "is_finite (js_mul (js_div c E) (Fin 10000))"
    and "val (js_mul (js_div c E) (Fin 10000)) = 0"
  using assms
  by (cases c; cases E; simp add: js_div_def js_mul_def is_inf_def is_zero_def zero_of_def)+

lemma area_back_arith:
  fixes A d X W Z kv t :: real and k0 :: int
  assumes d: "0 < d" and A: "0 < A" and W: "W = A * d / 100"
    and t: "0 \<le> t" "t \<le> 1 / 1024"
    and X1: "X \<le> W * (1 + t)" and X2: "W * (1 - t) \<le> X"
    and k0: "k0 = \<lfloor>X + 1 / 2\<rfloor>" and Z: "Z = 100 * of_int k0 / d"
    and k1: "kv \<le> Z * (1 + t)" and k2: "Z * (1 - t) \<le> kv"
  shows "\<bar>kv - A\<bar> \<le> 50 / d * (1 + t) + 4 * t * A"
proof -
  define B where "B = 50 / d"
  define tA where "tA = t * A"
  define tB where "tB = t * B"
  have B: "0 < B"
    using d by (simp add: B_def)
  have n: "0 \<le> tA" "0 \<le> tB"
    using t A B by (simp_all add: tA_def tB_def)
  have Ad: "100 * W / d = A"
    using d by (simp add: W)
  have kX: "of_int k0 \<le> X + 1 / 2" "X - 1 / 2 \<le> of_int k0"
    unfolding k0 by linarith+
  have X0: "0 \<le> X"
  proof -
    have "0 \<le> W * (1 - t)"
      using A d t by (simp add: W)
    with X2 show ?thesis by linarith
  qed
  have Z0: "0 \<le> Z"
  proof -
    have "0 \<le> k0"
      unfolding k0 using X0 by simp
    then show ?thesis
      using d by (simp add: Z)
  qed
  have "Z \<le> 100 * (W * (1 + t) + 1 / 2) / d"
    unfolding Z using kX(1) X1 d by (intro divide_right_mono mult_left_mono) simp_all
  also have "\<dots> = 100 * W / d * (1 + t) + 50 / d"
    using d by (simp add: field_simps)
  also have "\<dots> = A * (1 + t) + 50 / d"
    by (simp only: Ad)
  also have "\<dots> = A + tA + B"
    by (simp add: tA_def B_def algebra_simps)
  finally have Zu: "Z \<le> A + tA + B" .
  have "100 * (W * (1 - t) - 1 / 2) / d \<le> Z"
    unfolding Z using kX(2) X2 d by (intro divide_right_mono mult_left_mono) simp_all
  moreover have "100 * (W * (1 - t) - 1 / 2) / d = 100 * W / d * (1 - t) - 50 / d"
    using d by (simp add: field_simps)
  moreover have "100 * W / d * (1 - t) - 50 / d = A * (1 - t) - 50 / d"
    by (simp only: Ad)
  moreover have "A * (1 - t) - 50 / d = A - tA - B"
    by (simp add: tA_def B_def algebra_simps)
  ultimately have Zl: "A - tA - B \<le> Z"
    by simp
  have "t * Z \<le> t * (A + tA + B)"
    using Zu t(1) by (rule mult_left_mono)
  also have "\<dots> = tA + t * tA + tB"
    by (simp add: tA_def tB_def algebra_simps)
  finally have tZ: "t * Z \<le> tA + t * tA + tB" .
  have ttA: "t * tA \<le> 1 * tA"
    using t n by (intro mult_right_mono) simp_all
  have "kv \<le> Z + t * Z"
    using k1 by (simp add: algebra_simps)
  with Zu tZ ttA have up: "kv - A \<le> 3 * tA + B + tB"
    by linarith
  have "Z - t * Z \<le> kv"
    using k2 by (simp add: algebra_simps)
  with Zl tZ ttA n have lo: "A - kv \<le> 3 * tA + B + tB"
    by linarith
  have "\<bar>kv - A\<bar> \<le> 3 * tA + B + tB"
    using up lo by linarith
  also have "\<dots> \<le> B * (1 + t) + 4 * tA"
    using n by (simp add: tB_def algebra_simps)
  finally show ?thesis
    by (simp add: B_def tA_def algebra_simps)
qed

lemma round_trip_core:
  assumes fa: "is_finite area" and ra: "inrange 100 (val area)"
    and fy: "is_finite Y" and ry: "inrange 100 (val Y)"
    and ff: "is_finite F" and rf: "inrange 100 (val F)"
    and c: "c = js_round2 (js_mul (js_mul (js_mul (js_div area (Fin 10000))
               (SEQUESTRATION_FACTORS e)) F) Y)"
    and a: "a = Math_round (js_mul (js_div c (js_mul (js_mul (SEQUESTRATION_FACTORS e) F) Y))
               (Fin 10000))"
  shows "is_finite a"
    and "\<bar>val a - val area\<bar>
      \<le> 1 / 2 + 50 / (rate e * val F * val Y) * (1 + pow2 (- 50)) + pow2 (- 48) * val area"
proof -
  define d where "d = rate e * val F * val Y"
  define W where "W = val area / 10000 * rate e * val F * val Y * 100"
  define x100 where "x100 = js_mul (js_mul (js_mul (js_mul (js_div area (Fin 10000))
               (SEQUESTRATION_FACTORS e)) F) Y) (Fin 100)"
  define n where "n = Math_round x100"
  define E where "E = js_mul (js_mul (SEQUESTRATION_FACTORS e) F) Y"
  define k where "k = js_mul (js_div c E) (Fin 10000)"
  define k0 where "k0 = \<lfloor>val x100 + 1 / 2\<rfloor>"
  define Z where "Z = 100 * of_int k0 / d"
  have A: "0 < val area" and y: "0 < val Y" and f: "0 < val F"
    using ra ry rf by (auto dest: inrange_pos)
  have R: "0 < rate e"
    by (rule rate_pos)
  have d: "0 < d"
    using R y f by (simp add: d_def)
  have W: "W = val area * d / 100"
    by (simp add: W_def d_def)
  have tR: "tracks 0 4 (rate e) (SEQUESTRATION_FACTORS e)"
    using rate_bounds [of e] by (simp add: tracks_def inrange_def pow2_def)
  have t4: "tracks 0 14 10000 (Fin 10000)"
    by (simp add: tracks_def inrange_def pow2_def)
  have t2: "tracks 0 7 100 (Fin 100)"
    by (simp add: tracks_def inrange_def pow2_def)
  have tA: "tracks 0 100 (val area) area"
    using fa ra by (rule tracks_exact)
  have tY: "tracks 0 100 (val Y) Y"
    using fy ry by (rule tracks_exact)
  have tF: "tracks 0 100 (val F) F"
    using ff rf by (rule tracks_exact)
  have g1: "tracks 1 114 (val area / 10000) (js_div area (Fin 10000))"
    by (rule tracks_cong [OF tracks_div [OF tA t4]]) simp_all
  have g2: "tracks 2 118 (val area / 10000 * rate e)
      (js_mul (js_div area (Fin 10000)) (SEQUESTRATION_FACTORS e))"
    by (rule tracks_cong [OF tracks_mul [OF g1 tR]]) simp_all
  have g3: "tracks 3 218 (val area / 10000 * rate e * val F)
      (js_mul (js_mul (js_div area (Fin 10000)) (SEQUESTRATION_FACTORS e)) F)"
    by (rule tracks_cong [OF tracks_mul [OF g2 tF]]) simp_all
  have g4: "tracks 4 318 (val area / 10000 * rate e * val F * val Y)
      (js_mul (js_mul (js_mul (js_div area (Fin 10000)) (SEQUESTRATION_FACTORS e)) F) Y)"
    by (rule tracks_cong [OF tracks_mul [OF g3 tY]]) simp_all
  have g5: "tracks 5 325 W x100"
    by (rule tracks_cong [OF tracks_mul [OF g4 t2]]) (simp_all add: W_def x100_def)
  have e1: "tracks 1 104 (rate e * val F) (js_mul (SEQUESTRATION_FACTORS e) F)"
    by (rule tracks_cong [OF tracks_mul [OF tR tF]]) simp_all
  have e2: "tracks 2 204 d E"
    by (rule tracks_cong [OF tracks_mul [OF e1 tY]]) (simp_all add: d_def E_def)
  have fE: "is_finite E" "val E \<noteq> 0"
    using e2 tracks_pos [OF e2] by (simp_all add: tracks_def)
  have aW: "approx 5 W (val x100)" and rW: "inrange 325 W" and fx: "is_finite x100"
    using g5 by (simp_all add: tracks_def)
  have W0: "0 \<le> W"
    using inrange_pos [OF rW] by simp
  have x0: "0 \<le> val x100"
    using aW W0 by (rule approx_nonneg)
  have fn: "is_finite n"
    using fx by (simp add: n_def)
  have vn: "val n = of_int k0"
    by (simp add: n_def k0_def val_round)
  have k00: "0 \<le> k0"
    using x0 by (simp add: k0_def)
  have cn: "c = js_div n (Fin 100)"
    by (simp add: c js_round2_def n_def x100_def)
  have kk: "is_finite k \<and> approx 5 Z (val k)"
  proof (cases "k0 = 0")
    case True
    have "is_finite c \<and> val c = 0"
      using fn vn True by (simp add: cn div_finite)
    then have "is_finite k" "val k = 0"
      unfolding k_def using fE by (auto intro: zero_target_area)
    then show ?thesis
      using True by (simp add: Z_def approx_def)
  next
    case False
    then have k1: "1 \<le> k0"
      using k00 by simp
    have "val x100 \<le> 2 * W"
      using aW _ W0 by (rule approx_upper) simp
    also have "\<dots> \<le> 2 * pow2 325"
      using rW by (simp add: inrange_def)
    also have "\<dots> = pow2 326"
      using pow2_half [of 326] by simp
    finally have "val x100 \<le> pow2 326" .
    moreover have "of_int k0 \<le> val x100 + 1 / 2"
      unfolding k0_def by linarith
    moreover have "1 \<le> pow2 326"
      using pow2_mono [of 0 326] by (simp add: pow2_zero)
    moreover have "pow2 327 = 2 * pow2 326"
      using pow2_half [of 327] by simp
    ultimately have "real_of_int k0 \<le> pow2 327"
      by linarith
    moreover have "pow2 (- 327) \<le> 1"
      using pow2_mono [of "- 327" 0] by (simp add: pow2_zero)
    ultimately have "inrange 327 (val n)"
      using k1 by (simp add: vn inrange_def)
    with fn have tn: "tracks 0 327 (val n) n"
      by (rule tracks_exact)
    have tc: "tracks 1 334 (val n / 100) c"
      by (rule tracks_cong [OF tracks_div [OF tn t2]]) (simp_all add: cn)
    have th: "tracks 4 538 (val n / 100 / d) (js_div c E)"
      by (rule tracks_cong [OF tracks_div [OF tc e2]]) simp_all
    have tk: "tracks 5 552 (val n / 100 / d * 10000) k"
      by (rule tracks_cong [OF tracks_mul [OF th t4]]) (simp_all add: k_def)
    have "val n / 100 / d * 10000 = Z"
      by (simp add: Z_def vn)
    with tk show ?thesis
      by (simp add: tracks_def)
  qed
  have ak: "a = Math_round k"
    by (simp add: a k_def E_def)
  show "is_finite a"
    using kk by (simp add: ak)
  have Z0: "0 \<le> Z"
    using k00 d by (simp add: Z_def)
  have t: "0 \<le> pow2 (- 50)" "pow2 (- 50) \<le> 1 / 1024"
  proof -
    have "pow2 (- 50) \<le> pow2 (- 10)"
      by (rule pow2_mono) simp
    then show "pow2 (- 50) \<le> 1 / 1024"
      by (simp add: pow2_def)
  qed simp
  have "\<bar>val k - val area\<bar> \<le> 50 / d * (1 + pow2 (- 50)) + 4 * pow2 (- 50) * val area"
    using d A W t approx5_upper [OF aW W0] approx5_lower [OF aW W0] k0_def Z_def
      approx5_upper [OF conjunct2 [OF kk] Z0] approx5_lower [OF conjunct2 [OF kk] Z0]
    by (rule area_back_arith)
  moreover have "4 * pow2 (- 50) * val area = pow2 (- 48) * val area"
    by (simp add: pow2_consts(2,3))
  moreover have "\<bar>val a - val k\<bar> \<le> 1 / 2"
    unfolding ak by (rule round_err)
  ultimately show "\<bar>val a - val area\<bar>
      \<le> 1 / 2 + 50 / (rate e * val F * val Y) * (1 + pow2 (- 50)) + pow2 (- 48) * val area"
    unfolding d_def by linarith
qed

section \<open>Forward mode: inputs for which the fields are finite\<close>

lemma round2_finite_tracked:
  assumes "tracks k m x a" and "k \<le> 30" and "m \<le> 900"
  shows "is_finite (js_round2 a)"
proof -
  define x100 where "x100 = js_mul a (Fin 100)"
  define n where "n = Math_round x100"
  define k0 where "k0 = \<lfloor>val x100 + 1 / 2\<rfloor>"
  have t2: "tracks 0 7 100 (Fin 100)"
    by (simp add: tracks_def inrange_def pow2_def)
  have tx: "tracks (k + 1) (m + 7) (x * 100) x100"
    by (rule tracks_cong [OF tracks_mul [OF assms(1) t2]]) (use assms(2,3) in \<open>simp_all add: x100_def\<close>)
  have ax: "approx (k + 1) (x * 100) (val x100)" and rx: "inrange (m + 7) (x * 100)"
    and fx: "is_finite x100"
    using tx by (simp_all add: tracks_def)
  have x0: "0 \<le> x * 100"
    using inrange_pos [OF rx] by simp
  have v0: "0 \<le> val x100"
    using ax x0 by (rule approx_nonneg)
  have fn: "is_finite n"
    using fx by (simp add: n_def)
  have vn: "val n = of_int k0"
    by (simp add: n_def k0_def val_round)
  have k00: "0 \<le> k0"
    using v0 by (simp add: k0_def)
  have z: "js_round2 a = js_div n (Fin 100)"
    by (simp add: js_round2_def n_def x100_def)
  show ?thesis
  proof (cases "k0 = 0")
    case True
    then show ?thesis
      using fn vn by (simp add: z div_finite)
  next
    case False
    then have k1: "1 \<le> k0"
      using k00 by simp
    define M where "M = int (m + 7)"
    have "val x100 \<le> 2 * (x * 100)"
      using ax _ x0 by (rule approx_upper) (use assms(2) in simp)
    also have "\<dots> \<le> 2 * pow2 M"
      using rx by (simp add: inrange_def M_def)
    also have "\<dots> = pow2 (M + 1)"
      by (rule pow2_double)
    finally have "val x100 \<le> pow2 (M + 1)" .
    moreover have "of_int k0 \<le> val x100 + 1 / 2"
      unfolding k0_def by linarith
    moreover have "pow2 0 \<le> pow2 (M + 1)"
      by (rule pow2_mono) (simp add: M_def)
    moreover have "2 * pow2 (M + 1) = pow2 (M + 1 + 1)"
      by (rule pow2_double)
    ultimately have hi: "real_of_int k0 \<le> pow2 (M + 1 + 1)"
      by (simp add: pow2_zero)
    have "pow2 (- (M + 1 + 1)) \<le> pow2 0"
      by (rule pow2_mono) (simp add: M_def)
    then have lo: "pow2 (- (M + 1 + 1)) \<le> real_of_int k0"
      using k1 by (simp add: pow2_zero)
    have e: "int (m + 9) = M + 1 + 1"
      by (simp add: M_def)
    have "inrange (m + 9) (val n)"
      unfolding inrange_def vn e using lo hi by (rule conjI)
    with fn have tn: "tracks 0 (m + 9) (val n) n"
      by (rule tracks_exact)
    have "tracks 1 (m + 16) (val n / 100) (js_div n (Fin 100))"
      by (rule tracks_cong [OF tracks_div [OF tn t2]]) (use assms(3) in simp_all)
    then show ?thesis
      by (simp add: z tracks_def)
  qed
qed

lemma forward_fields_finite:
  assumes fa: "is_finite area" and ra: "inrange 100 (val area)"
    and fy: "is_finite Y" and ry: "inrange 100 (val Y)"
    and ff: "is_finite F" and rf: "inrange 100 (val F)"
  shows "is_finite (js_round2 (js_mul (js_mul (js_div area (Fin 10000))
      (SEQUESTRATION_FACTORS e)) F))"
    and "is_finite (js_round2 (js_mul (js_mul (js_mul (js_div area (Fin 10000))
      (SEQUESTRATION_FACTORS e)) F) Y))"
proof -
  have tR: "tracks 0 4 (rate e) (SEQUESTRATION_FACTORS e)"
    using rate_bounds [of e] by (simp add: tracks_def inrange_def pow2_def)
  have t4: "tracks 0 14 10000 (Fin 10000)"
    by (simp add: tracks_def inrange_def pow2_def)
  have tA: "tracks 0 100 (val area) area"
    using fa ra by (rule tracks_exact)
  have tY: "tracks 0 100 (val Y) Y"
    using fy ry by (rule tracks_exact)
  have tF: "tracks 0 100 (val F) F"
    using ff rf by (rule tracks_exact)
  have g1: "tracks 1 114 (val area / 10000) (js_div area (Fin 10000))"
    by (rule tracks_cong [OF tracks_div [OF tA t4]]) simp_all
  have g2: "tracks 2 118 (val area / 10000 * rate e)
      (js_mul (js_div area (Fin 10000)) (SEQUESTRATION_FACTORS e))"
    by (rule tracks_cong [OF tracks_mul [OF g1 tR]]) simp_all
  have g3: "tracks 3 218 (val area / 10000 * rate e * val F)
      (js_mul (js_mul (js_div area (Fin 10000)) (SEQUESTRATION_FACTORS e)) F)"
    by (rule tracks_cong [OF tracks_mul [OF g2 tF]]) simp_all
  have g4: "tracks 4 318 (val area / 10000 * rate e * val F * val Y)
      (js_mul (js_mul (js_mul (js_div area (Fin 10000)) (SEQUESTRATION_FACTORS e)) F) Y)"
    by (rule tracks_cong [OF tracks_mul [OF g3 tY]]) simp_all
  show "is_finite (js_round2 (js_mul (js_mul (js_div area (Fin 10000))
      (SEQUESTRATION_FACTORS e)) F))"
    using g3 by (rule round2_finite_tracked) simp_all
  show "is_finite (js_round2 (js_mul (js_mul (js_mul (js_div area (Fin 10000))
      (SEQUESTRATION_FACTORS e)) F) Y))"
    using g4 by (rule round2_finite_tracked) simp_all
qed

section \<open>The buffer factor of a buffer sum from 0 to below 100\<close>

lemma nearest_fixed:
  "nearest 64 = 64" "nearest 128 = 128" "nearest 100 = 100" "nearest 1 = 1"
  "nearest (1 / 70368744177664) = 1 / 70368744177664"
  "nearest (1 / 9007199254740992) = 1 / 9007199254740992"
  by (simp_all add: fp_eval)

lemma pow2_values:
  "pow2 (- 46) = 1 / 70368744177664" "pow2 (- 53) = 1 / 9007199254740992" "pow2 6 = 64"
  "pow2 7 = 128"
  by (simp_all add: pow2_def)

lemma nearest_below_100:
  assumes "nearest x < 100"
  shows "nearest x \<le> 100 - pow2 (- 46)"
proof -
  consider "x \<le> 64" | "64 < x" "x < 128" | "128 \<le> x" by linarith
  then show ?thesis
  proof cases
    case 1
    then have "nearest x \<le> nearest 64"
      by (rule nearest_mono)
    then show ?thesis
      by (simp add: nearest_fixed pow2_values)
  next
    case 2
    have "6 \<le> exponent x"
      using 2 by (intro exponent_ge) (simp add: pow2_values)
    moreover have "exponent x < 7"
      using 2 by (intro exponent_less) (simp_all add: pow2_values)
    ultimately have "exponent x = 6"
      by simp
    then have q: "quantum x = pow2 (- 46)"
      by (simp add: quantum_def eff_exponent_def)
    define k where "k = round_half_even (x / quantum x)"
    have n: "nearest x = of_int k * pow2 (- 46)"
      by (simp add: nearest_def k_def q)
    have "of_int k * pow2 (- 46) < 100"
      using assms by (simp add: n)
    then have "real_of_int k < 7036874417766400"
      by (simp add: pow2_values)
    then have "k < 7036874417766400"
      by linarith
    then have "k \<le> 7036874417766399"
      by simp
    then have "real_of_int k \<le> 7036874417766399"
      by linarith
    then have "of_int k * pow2 (- 46) \<le> 7036874417766399 * pow2 (- 46)"
      by (intro mult_right_mono) simp_all
    then show ?thesis
      by (simp add: n pow2_values)
  next
    case 3
    then have "nearest 128 \<le> nearest x"
      by (rule nearest_mono)
    then show ?thesis
      using assms by (simp add: nearest_fixed)
  qed
qed

lemma add_val:
  assumes "is_finite (js_add a b)"
  shows "val (js_add a b) = nearest (val a + val b)"
proof -
  have f: "is_finite a" "is_finite b"
    using assms by (cases a; cases b; simp add: js_add_def is_inf_def split: if_splits)+
  then have "is_finite (round64 (val a + val b))"
    using assms by (simp add: add_finite)
  then show ?thesis
    using f by (simp add: add_finite val_round64)
qed

lemma buffer_factor_range:
  assumes "is_finite (total_buffer_percentage b)"
    and "\<not> js_lt (total_buffer_percentage b) (Fin 0)"
    and "js_lt (total_buffer_percentage b) (Fin 100)"
  shows "is_finite (buffer_factor b)"
    and "pow2 (- 53) \<le> val (buffer_factor b)" and "val (buffer_factor b) \<le> 1"
proof -
  define t where "t = val (total_buffer_percentage b)"
  define D where "D = js_sub (Fin 100) (total_buffer_percentage b)"
  have t0: "0 \<le> t" and t100: "t < 100"
    using assms by (simp_all add: fin_lt t_def)
  have "t = nearest (val (js_add (uncertainty b) (mortality b)) + val (verification b))"
    using assms(1) unfolding t_def total_buffer_percentage_def by (rule add_val)
  then have t1: "t \<le> 100 - pow2 (- 46)"
    using t100 nearest_below_100 by simp
  have fneg: "is_finite (js_neg (total_buffer_percentage b))"
      "val (js_neg (total_buffer_percentage b)) = - t"
    using assms(1) by (cases "total_buffer_percentage b"; simp add: t_def)+
  have "\<bar>100 - t\<bar> < pow2 1023"
  proof -
    have "pow2 7 \<le> pow2 1023"
      by (rule pow2_mono) simp
    then show ?thesis
      using t0 t100 by (simp add: pow2_values)
  qed
  then have fr: "is_finite (round64 (100 - t))"
    by (rule round64_finite)
  have Dfl: "D = fl False (100 - t)"
    using fneg add_finite [of "Fin 100" "js_neg (total_buffer_percentage b)"]
    by (simp add: D_def js_sub_def)
  have fD: "is_finite D"
    using fr by (simp add: Dfl)
  have vD: "val D = nearest (100 - t)"
    using fr by (simp add: Dfl val_round64)
  have "nearest (pow2 (- 46)) \<le> nearest (100 - t)"
    using t1 by (intro nearest_mono) simp
  then have D1: "pow2 (- 46) \<le> val D"
    by (simp add: vD nearest_fixed pow2_values)
  have "nearest (100 - t) \<le> nearest 100"
    using t0 by (intro nearest_mono) simp
  then have D2: "val D \<le> 100"
    by (simp add: vD nearest_fixed)
  have q1: "pow2 (- 53) \<le> val D / 100"
    using D1 by (simp add: pow2_values)
  have q2: "val D / 100 \<le> 1"
    using D2 by simp
  have "\<bar>val D / 100\<bar> < pow2 1023"
  proof -
    have "pow2 7 \<le> pow2 1023"
      by (rule pow2_mono) simp
    moreover have "0 \<le> val D / 100"
      using q1 pow2_pos [of "- 53"] by linarith
    ultimately show ?thesis
      using q2 by (simp add: pow2_values)
  qed
  then have fq: "is_finite (round64 (val D / 100))"
    by (rule round64_finite)
  have F: "buffer_factor b = fl (sign_bit D \<noteq> sign_bit (Fin 100)) (val D / 100)"
    unfolding buffer_factor_def D_def [symmetric] using fD by (simp add: div_finite)
  show "is_finite (buffer_factor b)"
    using fq by (simp add: F)
  have vF: "val (buffer_factor b) = nearest (val D / 100)"
    using fq by (simp add: F val_round64)
  have "nearest (pow2 (- 53)) \<le> nearest (val D / 100)"
    using q1 by (rule nearest_mono)
  then show "pow2 (- 53) \<le> val (buffer_factor b)"
    by (simp add: vF nearest_fixed pow2_values)
  have "nearest (val D / 100) \<le> nearest 1"
    using q2 by (rule nearest_mono)
  then show "val (buffer_factor b) \<le> 1"
    by (simp add: vF nearest_fixed)
qed

lemma factor_in_range:
  assumes "is_finite (total_buffer_percentage b)"
    and "\<not> js_lt (total_buffer_percentage b) (Fin 0)"
    and "js_lt (total_buffer_percentage b) (Fin 100)"
  shows "is_finite (buffer_factor b)" and "inrange 100 (val (buffer_factor b))"
proof -
  show "is_finite (buffer_factor b)"
    using assms by (rule buffer_factor_range(1))
  have "pow2 (- 100) \<le> pow2 (- 53)"
    by (rule pow2_mono) simp
  moreover have "pow2 0 \<le> pow2 100"
    by (rule pow2_mono) simp
  ultimately show "inrange 100 (val (buffer_factor b))"
    using buffer_factor_range(2,3) [OF assms] by (simp add: inrange_def pow2_zero)
qed

section \<open>Where the binary rounding decides\<close>

text \<open>
  Three results that exact arithmetic would give differently. Seven hectares of mangrove
  absorb \<open>7 * 10.15 * 0.7 = 49.735\<close> tons a year, which rounds to 49.74; the product computed
  in binary64 lies below 49.735, and the code returns 49.73. For a target of
  3.333333333333333 tons over 3 years, \<open>target * 0.45 / 3\<close> is below one half, yet
  \<open>target * 0.45\<close> is computed as 1.5 and the code returns one car. For 25 hectares of salt
  marsh the theoretical maximum \<open>6.8 * 1.5 * 25\<close> is 255, yet it is computed as
  254.99999999999997, so that an annual absorption of 255 is flagged.
\<close>

lemma forward_binary_example:
  "calculateCarbonSequestration
     \<lparr>CalculationParams.area_m2 = Fin 70000, ecosystem_type = mangrove, years = None,
      buffers = None\<rparr>
   = Inr \<lparr>annual_absorption = js_lit 49.73, cumulative_absorption = js_lit 994.7,
          equivalences =
            \<lparr>cars_removed = Fin 22, homes_powered = Fin 6, trees_planted = Fin 15915\<rparr>,
          policy_area_needed = None\<rparr>"
proof -
  have s1: "js_div (Fin 70000) (Fin 10000) = Fin 7"
    by (simp add: js_eval)
  have s2: "js_lit (203 / 20) = Fin (5713942027226317 / 562949953421312)"
    by (simp add: js_eval)
  have s3: "js_mul (Fin 7) (Fin (5713942027226317 / 562949953421312))
      = Fin (4999699273823027 / 70368744177664)"
    by (simp add: js_eval)
  have s4: "js_add (Fin 10) (Fin 15) = Fin 25"
    by (simp add: js_eval)
  have s5: "js_add (Fin 25) (Fin 5) = Fin 30"
    by (simp add: js_eval)
  have s6: "js_sub (Fin 100) (Fin 30) = Fin 70"
    by (simp add: js_eval)
  have s7: "js_div (Fin 70) (Fin 100) = Fin (3152519739159347 / 4503599627370496)"
    by (simp add: js_eval)
  have s8: "js_mul (Fin (4999699273823027 / 70368744177664)) (Fin (3152519739159347 / 4503599627370496))
      = Fin (6999578983352237 / 140737488355328)"
    by (simp add: js_eval)
  have s9: "js_mul (Fin (6999578983352237 / 140737488355328)) (Fin 20)
      = Fin (1093684216148787 / 1099511627776)"
    by (simp add: js_eval)
  have s10: "js_lit (9 / 20) = Fin (8106479329266893 / 18014398509481984)"
    by (simp add: js_eval)
  have s11: "js_mul (Fin (6999578983352237 / 140737488355328)) (Fin (8106479329266893 / 18014398509481984))
      = Fin (6299621085017013 / 281474976710656)"
    by (simp add: js_eval)
  have s12: "Math_round (Fin (6299621085017013 / 281474976710656)) = Fin 22"
    by (simp add: js_eval)
  have s13: "js_lit (3 / 25) = Fin (1080863910568919 / 9007199254740992)"
    by (simp add: js_eval)
  have s14: "js_mul (Fin (6999578983352237 / 140737488355328)) (Fin (1080863910568919 / 9007199254740992))
      = Fin (6719595824018147 / 1125899906842624)"
    by (simp add: js_eval)
  have s15: "Math_round (Fin (6719595824018147 / 1125899906842624)) = Fin 6"
    by (simp add: js_eval)
  have s16: "js_mul (Fin (1093684216148787 / 1099511627776)) (Fin 16)
      = Fin (1093684216148787 / 68719476736)"
    by (simp add: js_eval)
  have s17: "Math_round (Fin (1093684216148787 / 68719476736)) = Fin 15915"
    by (simp add: js_eval)
  have s18: "js_mul (Fin (6999578983352237 / 140737488355328)) (Fin 100)
      = Fin (5468421080743935 / 1099511627776)"
    by (simp add: js_eval)
  have s19: "Math_round (Fin (5468421080743935 / 1099511627776)) = Fin 4973"
    by (simp add: js_eval)
  have s20: "js_div (Fin 4973) (Fin 100) = Fin (6998875295910461 / 140737488355328)"
    by (simp add: js_eval)
  have s21: "js_mul (Fin (1093684216148787 / 1099511627776)) (Fin 100)
      = Fin (6835526350929919 / 68719476736)"
    by (simp add: js_eval)
  have s22: "Math_round (Fin (6835526350929919 / 68719476736)) = Fin 99470"
    by (simp add: js_eval)
  have s23: "js_div (Fin 99470) (Fin 100) = Fin (4374736864595149 / 4398046511104)"
    by (simp add: js_eval)
  have s24: "js_lit (4973 / 100) = Fin (6998875295910461 / 140737488355328)"
    by (simp add: js_eval)
  have s25: "js_lit (9947 / 10) = Fin (4374736864595149 / 4398046511104)"
    by (simp add: js_eval)
  show ?thesis
    by (simp add: calculateCarbonSequestration_def Let_def IMPACT_EQUIVALENCES_def DEFAULT_BUFFERS_def
        s1 s2 s3 s4 s5 s6 s7 s8 s9 s10 s11 s12 s13 s14 s15 s16 s17 s18 s19 s20 s21 s22 s23 s24
        s25)
qed

lemma policy_binary_example:
  "calculateRequiredArea
     \<lparr>target_co2_reduction = js_lit 3.333333333333333, ecosystem_type = seagrass, years = Some (Fin 3),
      buffers = None\<rparr>
   = Inr \<lparr>annual_absorption = js_lit 1.11, cumulative_absorption = js_lit 3.33,
          equivalences =
            \<lparr>cars_removed = Fin 1, homes_powered = Fin 0, trees_planted = Fin 53\<rparr>,
          policy_area_needed = Some (Fin 1824)\<rparr>"
proof -
  have s1: "js_lit (3333333333333333 / 1000000000000000)
      = Fin (3752999689475413 / 1125899906842624)"
    by (simp add: js_eval)
  have s2: "js_lit (87 / 10) = Fin (2448832297382707 / 281474976710656)"
    by (simp add: js_eval)
  have s3: "js_add (Fin 10) (Fin 15) = Fin 25"
    by (simp add: js_eval)
  have s4: "js_add (Fin 25) (Fin 5) = Fin 30"
    by (simp add: js_eval)
  have s5: "js_sub (Fin 100) (Fin 30) = Fin 70"
    by (simp add: js_eval)
  have s6: "js_div (Fin 70) (Fin 100) = Fin (3152519739159347 / 4503599627370496)"
    by (simp add: js_eval)
  have s7: "js_mul (Fin (2448832297382707 / 281474976710656)) (Fin (3152519739159347 / 4503599627370496))
      = Fin (6856730432671579 / 1125899906842624)"
    by (simp add: js_eval)
  have s8: "js_mul (Fin (6856730432671579 / 1125899906842624)) (Fin 3)
      = Fin (1285636956125921 / 70368744177664)"
    by (simp add: js_eval)
  have s9: "js_div (Fin (3752999689475413 / 1125899906842624)) (Fin (1285636956125921 / 70368744177664))
      = Fin (3286699235446449 / 18014398509481984)"
    by (simp add: js_eval)
  have s10: "js_mul (Fin (3286699235446449 / 18014398509481984)) (Fin 10000)
      = Fin (4012084027644591 / 2199023255552)"
    by (simp add: js_eval)
  have s11: "js_lit (9 / 20) = Fin (8106479329266893 / 18014398509481984)"
    by (simp add: js_eval)
  have s12: "js_mul (Fin (3752999689475413 / 1125899906842624)) (Fin (8106479329266893 / 18014398509481984))
      = Fin (3 / 2)"
    by (simp add: js_eval)
  have s13: "js_div (Fin (3 / 2)) (Fin 3) = Fin (1 / 2)"
    by (simp add: js_eval)
  have s14: "Math_round (Fin (1 / 2)) = Fin 1"
    by (simp add: js_eval)
  have s15: "js_lit (3 / 25) = Fin (1080863910568919 / 9007199254740992)"
    by (simp add: js_eval)
  have s16: "js_mul (Fin (3752999689475413 / 1125899906842624)) (Fin (1080863910568919 / 9007199254740992))
      = Fin (7205759403792793 / 18014398509481984)"
    by (simp add: js_eval)
  have s17: "js_div (Fin (7205759403792793 / 18014398509481984)) (Fin 3)
      = Fin (4803839602528529 / 36028797018963968)"
    by (simp add: js_eval)
  have s18: "Math_round (Fin (4803839602528529 / 36028797018963968)) = Fin 0"
    by (simp add: js_eval)
  have s19: "js_mul (Fin (3752999689475413 / 1125899906842624)) (Fin 16)
      = Fin (3752999689475413 / 70368744177664)"
    by (simp add: js_eval)
  have s20: "Math_round (Fin (3752999689475413 / 70368744177664)) = Fin 53"
    by (simp add: js_eval)
  have s21: "js_div (Fin (3752999689475413 / 1125899906842624)) (Fin 3)
      = Fin (5003999585967217 / 4503599627370496)"
    by (simp add: js_eval)
  have s22: "js_mul (Fin (5003999585967217 / 4503599627370496)) (Fin 100)
      = Fin (7818749353073777 / 70368744177664)"
    by (simp add: js_eval)
  have s23: "Math_round (Fin (7818749353073777 / 70368744177664)) = Fin 111"
    by (simp add: js_eval)
  have s24: "js_div (Fin 111) (Fin 100) = Fin (4998995586381251 / 4503599627370496)"
    by (simp add: js_eval)
  have s25: "js_mul (Fin (3752999689475413 / 1125899906842624)) (Fin 100)
      = Fin (5864062014805333 / 17592186044416)"
    by (simp add: js_eval)
  have s26: "Math_round (Fin (5864062014805333 / 17592186044416)) = Fin 333"
    by (simp add: js_eval)
  have s27: "js_div (Fin 333) (Fin 100) = Fin (1874623344892969 / 562949953421312)"
    by (simp add: js_eval)
  have s28: "Math_round (Fin (4012084027644591 / 2199023255552)) = Fin 1824"
    by (simp add: js_eval)
  have s29: "js_lit (111 / 100) = Fin (4998995586381251 / 4503599627370496)"
    by (simp add: js_eval)
  have s30: "js_lit (333 / 100) = Fin (1874623344892969 / 562949953421312)"
    by (simp add: js_eval)
  show ?thesis
    by (simp add: calculateRequiredArea_def Let_def IMPACT_EQUIVALENCES_def DEFAULT_BUFFERS_def
        s1 s2 s3 s4 s5 s6 s7 s8 s9 s10 s11 s12 s13 s14 s15 s16 s17 s18 s19 s20 s21 s22 s23 s24
        s25 s26 s27 s28 s29 s30)
qed

lemma detector_binary_example:
  "detectAnomalies
     \<lparr>area_m2 = Fin 250000, ecosystem_type = salt_marsh,
        carbon_calculations = \<lparr>annual_co2_absorption = Fin 255\<rparr>\<rparr> []
   = \<lparr>is_suspicious = True,
      flags = [''Carbon sequestration estimates exceed theoretical maximum''],
      credibility_impact = 30\<rparr>"
proof -
  have s1: "js_lit (34 / 5) = Fin (7656119366529843 / 1125899906842624)"
    by (simp add: js_eval)
  have s2: "js_mul (Fin (7656119366529843 / 1125899906842624)) (Fin (3 / 2))
      = Fin (2871044762448691 / 281474976710656)"
    by (simp add: js_eval)
  have s3: "js_div (Fin 250000) (Fin 10000) = Fin 25"
    by (simp add: js_eval)
  have s4: "js_mul (Fin (2871044762448691 / 281474976710656)) (Fin 25)
      = Fin (8972014882652159 / 35184372088832)"
    by (simp add: js_eval)
  have s5: "js_gt (Fin 255) (Fin (8972014882652159 / 35184372088832))"
    by (simp add: js_eval)
  have s6: "\<not> js_lt (Fin 250000) (Fin 1000)"
    by (simp add: js_eval)
  show ?thesis
    by (simp add: detect_unfold Let_def growth_rule_fires_def
        s1 s2 s3 s4 s5 s6)
qed

section \<open>Input validation\<close>

text \<open>
  C1, as the specification states it: forward mode fails with \<open>InvalidInput\<close> when the area
  or the horizon is not positive or the buffers sum to 100 or more, and policy mode fails
  with \<open>InvalidInput\<close> when the target is not positive or the divisor
  \<^verbatim>\<open>effective_sequestration * years\<close> is zero, instead of returning an infinite or NaN
  area. The functions do not: an area of 0 gives the all-zero result, and buffers that sum
  to 100 give an infinite required area.
\<close>

theorem invalid_inputs_return_results:
  "calculateCarbonSequestration
     \<lparr>CalculationParams.area_m2 = Fin 0, ecosystem_type = mangrove, years = Some (Fin 20),
      buffers = None\<rparr>
   = Inr \<lparr>annual_absorption = Fin 0, cumulative_absorption = Fin 0,
          equivalences =
            \<lparr>cars_removed = Fin 0, homes_powered = Fin 0, trees_planted = Fin 0\<rparr>,
          policy_area_needed = None\<rparr>
   \<and> calculateCarbonSequestration
     \<lparr>CalculationParams.area_m2 = Fin 0, ecosystem_type = mangrove, years = Some (Fin 20),
      buffers = None\<rparr>
   \<noteq> Inl InvalidInput
   \<and> is_zero (effective_rate_times_years
     \<lparr>target_co2_reduction = Fin 2000, ecosystem_type = seagrass, years = Some (Fin 20),
      buffers = Some \<lparr>uncertainty = Fin 50, mortality = Fin 30, verification = Fin 20\<rparr>\<rparr>)
   \<and> calculateRequiredArea
     \<lparr>target_co2_reduction = Fin 2000, ecosystem_type = seagrass, years = Some (Fin 20),
      buffers = Some \<lparr>uncertainty = Fin 50, mortality = Fin 30, verification = Fin 20\<rparr>\<rparr>
   = Inr \<lparr>annual_absorption = Fin 100, cumulative_absorption = Fin 2000,
          equivalences =
            \<lparr>cars_removed = Fin 45, homes_powered = Fin 12, trees_planted = Fin 32000\<rparr>,
          policy_area_needed = Some (PosInfinity)\<rparr>
   \<and> calculateRequiredArea
     \<lparr>target_co2_reduction = Fin 2000, ecosystem_type = seagrass, years = Some (Fin 20),
      buffers = Some \<lparr>uncertainty = Fin 50, mortality = Fin 30, verification = Fin 20\<rparr>\<rparr>
   \<noteq> Inl InvalidInput"
proof -
  have s1: "js_div (Fin 0) (Fin 10000) = Fin 0"
    by (simp add: js_eval)
  have s2: "js_lit (203 / 20) = Fin (5713942027226317 / 562949953421312)"
    by (simp add: js_eval)
  have s3: "js_mul (Fin 0) (Fin (5713942027226317 / 562949953421312)) = Fin 0"
    by (simp add: js_eval)
  have s4: "js_add (Fin 10) (Fin 15) = Fin 25"
    by (simp add: js_eval)
  have s5: "js_add (Fin 25) (Fin 5) = Fin 30"
    by (simp add: js_eval)
  have s6: "js_sub (Fin 100) (Fin 30) = Fin 70"
    by (simp add: js_eval)
  have s7: "js_div (Fin 70) (Fin 100) = Fin (3152519739159347 / 4503599627370496)"
    by (simp add: js_eval)
  have s8: "js_mul (Fin 0) (Fin (3152519739159347 / 4503599627370496)) = Fin 0"
    by (simp add: js_eval)
  have s9: "js_mul (Fin 0) (Fin 20) = Fin 0"
    by (simp add: js_eval)
  have s10: "js_lit (9 / 20) = Fin (8106479329266893 / 18014398509481984)"
    by (simp add: js_eval)
  have s11: "js_mul (Fin 0) (Fin (8106479329266893 / 18014398509481984)) = Fin 0"
    by (simp add: js_eval)
  have s12: "Math_round (Fin 0) = Fin 0"
    by (simp add: js_eval)
  have s13: "js_lit (3 / 25) = Fin (1080863910568919 / 9007199254740992)"
    by (simp add: js_eval)
  have s14: "js_mul (Fin 0) (Fin (1080863910568919 / 9007199254740992)) = Fin 0"
    by (simp add: js_eval)
  have s15: "js_mul (Fin 0) (Fin 16) = Fin 0"
    by (simp add: js_eval)
  have s16: "js_mul (Fin 0) (Fin 100) = Fin 0"
    by (simp add: js_eval)
  have s17: "js_div (Fin 0) (Fin 100) = Fin 0"
    by (simp add: js_eval)
  have s18: "js_lit (87 / 10) = Fin (2448832297382707 / 281474976710656)"
    by (simp add: js_eval)
  have s19: "js_add (Fin 50) (Fin 30) = Fin 80"
    by (simp add: js_eval)
  have s20: "js_add (Fin 80) (Fin 20) = Fin 100"
    by (simp add: js_eval)
  have s21: "js_sub (Fin 100) (Fin 100) = Fin 0"
    by (simp add: js_eval)
  have s22: "js_mul (Fin (2448832297382707 / 281474976710656)) (Fin 0) = Fin 0"
    by (simp add: js_eval)
  have s23: "js_div (Fin 2000) (Fin 0) = PosInfinity"
    by (simp add: js_eval)
  have s24: "js_mul (PosInfinity) (Fin 10000) = PosInfinity"
    by (simp add: js_eval)
  have s25: "js_mul (Fin 2000) (Fin (8106479329266893 / 18014398509481984)) = Fin 900"
    by (simp add: js_eval)
  have s26: "js_div (Fin 900) (Fin 20) = Fin 45"
    by (simp add: js_eval)
  have s27: "Math_round (Fin 45) = Fin 45"
    by (simp add: js_eval)
  have s28: "js_mul (Fin 2000) (Fin (1080863910568919 / 9007199254740992)) = Fin 240"
    by (simp add: js_eval)
  have s29: "js_div (Fin 240) (Fin 20) = Fin 12"
    by (simp add: js_eval)
  have s30: "Math_round (Fin 12) = Fin 12"
    by (simp add: js_eval)
  have s31: "js_mul (Fin 2000) (Fin 16) = Fin 32000"
    by (simp add: js_eval)
  have s32: "Math_round (Fin 32000) = Fin 32000"
    by (simp add: js_eval)
  have s33: "js_div (Fin 2000) (Fin 20) = Fin 100"
    by (simp add: js_eval)
  have s34: "js_mul (Fin 100) (Fin 100) = Fin 10000"
    by (simp add: js_eval)
  have s35: "Math_round (Fin 10000) = Fin 10000"
    by (simp add: js_eval)
  have s36: "js_div (Fin 10000) (Fin 100) = Fin 100"
    by (simp add: js_eval)
  have s37: "js_mul (Fin 2000) (Fin 100) = Fin 200000"
    by (simp add: js_eval)
  have s38: "Math_round (Fin 200000) = Fin 200000"
    by (simp add: js_eval)
  have s39: "js_div (Fin 200000) (Fin 100) = Fin 2000"
    by (simp add: js_eval)
  have e1: "calculateCarbonSequestration
     \<lparr>CalculationParams.area_m2 = Fin 0, ecosystem_type = mangrove, years = Some (Fin 20),
      buffers = None\<rparr>
   = Inr \<lparr>annual_absorption = Fin 0, cumulative_absorption = Fin 0,
          equivalences =
            \<lparr>cars_removed = Fin 0, homes_powered = Fin 0, trees_planted = Fin 0\<rparr>,
          policy_area_needed = None\<rparr>"
    by (simp add: calculateCarbonSequestration_def Let_def IMPACT_EQUIVALENCES_def DEFAULT_BUFFERS_def
        s1 s2 s3 s4 s5 s6 s7 s8 s9 s10 s11 s12 s13 s14 s15 s16 s17 s18 s19 s20 s21 s22 s23 s24
        s25 s26 s27 s28 s29 s30 s31 s32 s33 s34 s35 s36 s37 s38 s39)
  have e2: "calculateRequiredArea
     \<lparr>target_co2_reduction = Fin 2000, ecosystem_type = seagrass, years = Some (Fin 20),
      buffers = Some \<lparr>uncertainty = Fin 50, mortality = Fin 30, verification = Fin 20\<rparr>\<rparr>
   = Inr \<lparr>annual_absorption = Fin 100, cumulative_absorption = Fin 2000,
          equivalences =
            \<lparr>cars_removed = Fin 45, homes_powered = Fin 12, trees_planted = Fin 32000\<rparr>,
          policy_area_needed = Some (PosInfinity)\<rparr>"
    by (simp add: calculateRequiredArea_def Let_def IMPACT_EQUIVALENCES_def DEFAULT_BUFFERS_def
        s1 s2 s3 s4 s5 s6 s7 s8 s9 s10 s11 s12 s13 s14 s15 s16 s17 s18 s19 s20 s21 s22 s23 s24
        s25 s26 s27 s28 s29 s30 s31 s32 s33 s34 s35 s36 s37 s38 s39)
  have e3: "is_zero (effective_rate_times_years
     \<lparr>target_co2_reduction = Fin 2000, ecosystem_type = seagrass, years = Some (Fin 20),
      buffers = Some \<lparr>uncertainty = Fin 50, mortality = Fin 30, verification = Fin 20\<rparr>\<rparr>)"
    by (simp add: effective_rate_times_years_def buffer_factor_def total_buffer_percentage_def
        buffers_or_default_def years_or_default_def is_zero_def
        s1 s2 s3 s4 s5 s6 s7 s8 s9 s10 s11 s12 s13 s14 s15 s16 s17 s18 s19 s20 s21 s22 s23 s24
        s25 s26 s27 s28 s29 s30 s31 s32 s33 s34 s35 s36 s37 s38 s39)
  show ?thesis
    by (simp add: e1 e2 e3)
qed

text \<open>
  C1, amended: neither function validates its input or fails. Every input, also one with
  a non-positive area, horizon or target or with buffers summing to 100 or more, yields a
  result; and when the divisor \<^verbatim>\<open>effective_sequestration * years\<close> of policy mode is zero,
  the required area that is returned is an infinity or NaN.
\<close>

theorem calculator_never_rejects:
  "(\<exists>r. calculateCarbonSequestration p = Inr r)
   \<and> (\<exists>r. calculateRequiredArea q = Inr r
        \<and> (is_zero (effective_rate_times_years q)
             \<longrightarrow> (\<exists>a. policy_area_needed r = Some a \<and> \<not> is_finite a)))"
proof -
  have "\<exists>r. calculateCarbonSequestration p = Inr r"
    using forward_unfold [of p] by blast
  moreover obtain r where r: "calculateRequiredArea q = Inr r"
    "policy_area_needed r =
       Some (Math_round (js_mul (js_div (target_co2_reduction q) (effective_rate_times_years q))
         (Fin 10000)))"
    using policy_fields [of q] by blast
  moreover have "is_zero (effective_rate_times_years q)
      \<longrightarrow> (\<exists>a. policy_area_needed r = Some a \<and> \<not> is_finite a)"
    using r(2) by (simp add: div_by_zero_not_finite mul_not_finite)
  ultimately show ?thesis by blast
qed

theorem calculator_never_rejects_witness:
  "is_zero (effective_rate_times_years
      \<lparr>target_co2_reduction = Fin 2000, ecosystem_type = seagrass, years = Some (Fin 20),
      buffers = Some \<lparr>uncertainty = Fin 50, mortality = Fin 30, verification = Fin 20\<rparr>\<rparr>)
   \<and> (\<exists>r. calculateCarbonSequestration
         \<lparr>CalculationParams.area_m2 = Fin 0, ecosystem_type = mangrove, years = Some (Fin 20),
      buffers = None\<rparr> = Inr r)
   \<and> (\<exists>r. calculateRequiredArea
         \<lparr>target_co2_reduction = Fin 2000, ecosystem_type = seagrass, years = Some (Fin 20),
      buffers = Some \<lparr>uncertainty = Fin 50, mortality = Fin 30, verification = Fin 20\<rparr>\<rparr>
          = Inr r \<and> (\<exists>a. policy_area_needed r = Some a \<and> \<not> is_finite a))"
proof -
  let ?q = "\<lparr>target_co2_reduction = Fin 2000, ecosystem_type = seagrass, years = Some (Fin 20),
      buffers = Some \<lparr>uncertainty = Fin 50, mortality = Fin 30, verification = Fin 20\<rparr>\<rparr>"
  let ?p = "\<lparr>CalculationParams.area_m2 = Fin 0, ecosystem_type = mangrove, years = Some (Fin 20),
      buffers = None\<rparr>"
  have s1: "js_add (Fin 50) (Fin 30) = Fin 80"
    by (simp add: js_eval)
  have s2: "js_add (Fin 80) (Fin 20) = Fin 100"
    by (simp add: js_eval)
  have s3: "js_sub (Fin 100) (Fin 100) = Fin 0"
    by (simp add: js_eval)
  have s4: "js_div (Fin 0) (Fin 100) = Fin 0"
    by (simp add: js_eval)
  have s5: "js_lit (87 / 10) = Fin (2448832297382707 / 281474976710656)"
    by (simp add: js_eval)
  have s6: "js_mul (Fin (2448832297382707 / 281474976710656)) (Fin 0) = Fin 0"
    by (simp add: js_eval)
  have s7: "js_mul (Fin 0) (Fin 20) = Fin 0"
    by (simp add: js_eval)
  have z: "is_zero (effective_rate_times_years ?q)"
    by (simp add: effective_rate_times_years_def buffer_factor_def total_buffer_percentage_def
        buffers_or_default_def years_or_default_def is_zero_def
        s1 s2 s3 s4 s5 s6 s7)
  show ?thesis
    using z calculator_never_rejects [of ?p ?q] by blast
qed

section \<open>Forward mode: the two rounded fields\<close>

text \<open>
  C2, as the specification states it: on valid forward-mode input the cumulative
  absorption is within 0.01 of the annual absorption times the horizon. Five square metres
  of seagrass over 20 years return an annual absorption of 0 and a cumulative absorption
  of 0.06.
\<close>

theorem cumulative_not_within_a_cent:
  "js_gt (Fin 5) (Fin 0) \<and> js_gt (Fin 20) (Fin 0)
   \<and> js_lt (total_buffer_percentage DEFAULT_BUFFERS) (Fin 100)
   \<and> calculateCarbonSequestration
     \<lparr>CalculationParams.area_m2 = Fin 5, ecosystem_type = seagrass, years = Some (Fin 20),
      buffers = None\<rparr>
   = Inr \<lparr>annual_absorption = Fin 0, cumulative_absorption = js_lit 0.06,
          equivalences =
            \<lparr>cars_removed = Fin 0, homes_powered = Fin 0, trees_planted = Fin 1\<rparr>,
          policy_area_needed = None\<rparr>
   \<and> \<not> \<bar>val (js_lit 0.06) - val (Fin 0) * val (Fin 20)\<bar> \<le> 0.01"
proof -
  have s1: "js_div (Fin 5) (Fin 10000) = Fin (1152921504606847 / 2305843009213693952)"
    by (simp add: js_eval)
  have s2: "js_lit (87 / 10) = Fin (2448832297382707 / 281474976710656)"
    by (simp add: js_eval)
  have s3: "js_mul (Fin (1152921504606847 / 2305843009213693952)) (Fin (2448832297382707 / 281474976710656))
      = Fin (626901068129973 / 144115188075855872)"
    by (simp add: js_eval)
  have s4: "js_add (Fin 10) (Fin 15) = Fin 25"
    by (simp add: js_eval)
  have s5: "js_add (Fin 25) (Fin 5) = Fin 30"
    by (simp add: js_eval)
  have s6: "js_sub (Fin 100) (Fin 30) = Fin 70"
    by (simp add: js_eval)
  have s7: "js_div (Fin 70) (Fin 100) = Fin (3152519739159347 / 4503599627370496)"
    by (simp add: js_eval)
  have s8: "js_mul (Fin (626901068129973 / 144115188075855872)) (Fin (3152519739159347 / 4503599627370496))
      = Fin (7021291963055697 / 2305843009213693952)"
    by (simp add: js_eval)
  have s9: "js_mul (Fin (7021291963055697 / 2305843009213693952)) (Fin 20)
      = Fin (8776614953819621 / 144115188075855872)"
    by (simp add: js_eval)
  have s10: "js_lit (9 / 20) = Fin (8106479329266893 / 18014398509481984)"
    by (simp add: js_eval)
  have s11: "js_mul (Fin (7021291963055697 / 2305843009213693952)) (Fin (8106479329266893 / 18014398509481984))
      = Fin (6319162766750127 / 4611686018427387904)"
    by (simp add: js_eval)
  have s12: "Math_round (Fin (6319162766750127 / 4611686018427387904)) = Fin 0"
    by (simp add: js_eval)
  have s13: "js_lit (3 / 25) = Fin (1080863910568919 / 9007199254740992)"
    by (simp add: js_eval)
  have s14: "js_mul (Fin (7021291963055697 / 2305843009213693952)) (Fin (1080863910568919 / 9007199254740992))
      = Fin (6740440284533469 / 18446744073709551616)"
    by (simp add: js_eval)
  have s15: "Math_round (Fin (6740440284533469 / 18446744073709551616)) = Fin 0"
    by (simp add: js_eval)
  have s16: "js_mul (Fin (8776614953819621 / 144115188075855872)) (Fin 16)
      = Fin (8776614953819621 / 9007199254740992)"
    by (simp add: js_eval)
  have s17: "Math_round (Fin (8776614953819621 / 9007199254740992)) = Fin 1"
    by (simp add: js_eval)
  have s18: "js_mul (Fin (7021291963055697 / 2305843009213693952)) (Fin 100)
      = Fin (5485384346137263 / 18014398509481984)"
    by (simp add: js_eval)
  have s19: "Math_round (Fin (5485384346137263 / 18014398509481984)) = Fin 0"
    by (simp add: js_eval)
  have s20: "js_div (Fin 0) (Fin 100) = Fin 0"
    by (simp add: js_eval)
  have s21: "js_mul (Fin (8776614953819621 / 144115188075855872)) (Fin 100)
      = Fin (6856730432671579 / 1125899906842624)"
    by (simp add: js_eval)
  have s22: "Math_round (Fin (6856730432671579 / 1125899906842624)) = Fin 6"
    by (simp add: js_eval)
  have s23: "js_div (Fin 6) (Fin 100) = Fin (1080863910568919 / 18014398509481984)"
    by (simp add: js_eval)
  have s24: "js_lit (3 / 50) = Fin (1080863910568919 / 18014398509481984)"
    by (simp add: js_eval)
  have s25: "js_gt (Fin 5) (Fin 0)"
    by (simp add: js_eval)
  have s26: "js_gt (Fin 20) (Fin 0)"
    by (simp add: js_eval)
  have s27: "js_lt (Fin 30) (Fin 100)"
    by (simp add: js_eval)
  have s28: "\<not> js_lt (Fin 30) (Fin 0)"
    by (simp add: js_eval)
  have e1: "calculateCarbonSequestration
     \<lparr>CalculationParams.area_m2 = Fin 5, ecosystem_type = seagrass, years = Some (Fin 20),
      buffers = None\<rparr>
   = Inr \<lparr>annual_absorption = Fin 0, cumulative_absorption = js_lit 0.06,
          equivalences =
            \<lparr>cars_removed = Fin 0, homes_powered = Fin 0, trees_planted = Fin 1\<rparr>,
          policy_area_needed = None\<rparr>"
    by (simp add: calculateCarbonSequestration_def Let_def IMPACT_EQUIVALENCES_def DEFAULT_BUFFERS_def
        s1 s2 s3 s4 s5 s6 s7 s8 s9 s10 s11 s12 s13 s14 s15 s16 s17 s18 s19 s20 s21 s22 s23 s24
        s25 s26 s27 s28)
  have e2: "js_lt (total_buffer_percentage DEFAULT_BUFFERS) (Fin 100)"
    by (simp add: total_buffer_percentage_def DEFAULT_BUFFERS_def
        s1 s2 s3 s4 s5 s6 s7 s8 s9 s10 s11 s12 s13 s14 s15 s16 s17 s18 s19 s20 s21 s22 s23 s24
        s25 s26 s27 s28)
  have e3: "\<not> \<bar>val (js_lit 0.06) - val (Fin 0) * val (Fin 20)\<bar> \<le> 0.01"
    by (simp add:
        s1 s2 s3 s4 s5 s6 s7 s8 s9 s10 s11 s12 s13 s14 s15 s16 s17 s18 s19 s20 s21 s22 s23 s24
        s25 s26 s27 s28)
  show ?thesis
    using e1 e2 e3 by (simp add:
        s1 s2 s3 s4 s5 s6 s7 s8 s9 s10 s11 s12 s13 s14 s15 s16 s17 s18 s19 s20 s21 s22 s23 s24
        s25 s26 s27 s28)
qed

text \<open>
  C2, amended. The two fields are rounded to two decimals independently, so the rounding
  of the annual value is multiplied by the horizon, and every operation rounds to binary64.
  Whenever the annual and the cumulative absorption that are returned are finite numbers,
  \<open>|cumulative - annual * years| \<le> (|years| + 1) * (0.005 + 2^-48 * (|annual| + 1))\<close>: a
  tolerance of 0.005 for each year and for the cumulative value, and the error of the
  binary roundings, relative to the size of the numbers. Both are finite numbers when the
  area and the horizon lie between \<open>2^-100\<close> and \<open>2^100\<close> and the buffers sum to a number
  from 0 to below 100.
\<close>

theorem cumulative_close_to_annual_times_years:
  "\<exists>r. calculateCarbonSequestration p = Inr r
    \<and> (is_finite (annual_absorption r) \<and> is_finite (cumulative_absorption r)
       \<longrightarrow> \<bar>val (cumulative_absorption r)
             - val (annual_absorption r) * val (years_or_default (CalculationParams.years p))\<bar>
           \<le> (\<bar>val (years_or_default (CalculationParams.years p))\<bar> + 1)
               * (1 / 200 + pow2 (- 48) * (\<bar>val (annual_absorption r)\<bar> + 1)))
    \<and> (is_finite (CalculationParams.area_m2 p)
         \<and> pow2 (- 100) \<le> val (CalculationParams.area_m2 p)
         \<and> val (CalculationParams.area_m2 p) \<le> pow2 100
         \<and> is_finite (years_or_default (CalculationParams.years p))
         \<and> pow2 (- 100) \<le> val (years_or_default (CalculationParams.years p))
         \<and> val (years_or_default (CalculationParams.years p)) \<le> pow2 100
         \<and> is_finite (total_buffer_percentage (buffers_or_default (CalculationParams.buffers p)))
         \<and> \<not> js_lt (total_buffer_percentage (buffers_or_default (CalculationParams.buffers p)))
               (Fin 0)
         \<and> js_lt (total_buffer_percentage (buffers_or_default (CalculationParams.buffers p)))
               (Fin 100)
       \<longrightarrow> is_finite (annual_absorption r) \<and> is_finite (cumulative_absorption r))"
proof -
  let ?area = "CalculationParams.area_m2 p"
  let ?Y = "years_or_default (CalculationParams.years p)"
  let ?F = "buffer_factor (buffers_or_default (CalculationParams.buffers p))"
  let ?S = "total_buffer_percentage (buffers_or_default (CalculationParams.buffers p))"
  obtain r where r: "calculateCarbonSequestration p = Inr r"
      "annual_absorption r = js_round2 (unrounded_annual p)"
      "cumulative_absorption r = js_round2 (js_mul (unrounded_annual p) ?Y)"
    using forward_unfold [of p] by blast
  have "\<bar>val (cumulative_absorption r) - val (annual_absorption r) * val ?Y\<bar>
      \<le> (\<bar>val ?Y\<bar> + 1) * (1 / 200 + pow2 (- 48) * (\<bar>val (annual_absorption r)\<bar> + 1))"
    if "is_finite (annual_absorption r)" "is_finite (cumulative_absorption r)"
    using that unfolding r(2,3) by (rule cumulative_err)
  moreover have "is_finite (annual_absorption r) \<and> is_finite (cumulative_absorption r)"
    if "is_finite ?area" "pow2 (- 100) \<le> val ?area" "val ?area \<le> pow2 100"
      "is_finite ?Y" "pow2 (- 100) \<le> val ?Y" "val ?Y \<le> pow2 100"
      "is_finite ?S" "\<not> js_lt ?S (Fin 0)" "js_lt ?S (Fin 100)"
  proof -
    have F: "is_finite ?F" "inrange 100 (val ?F)"
      using that(7-9) by (rule factor_in_range)+
    have i: "inrange 100 (val ?area)" "inrange 100 (val ?Y)"
      using that by (simp_all add: inrange_def)
    show ?thesis
      unfolding r(2,3) unrounded_annual_def
      using forward_fields_finite [OF that(1) i(1) that(4) i(2) F] by blast
  qed
  ultimately show ?thesis
    using r(1) by blast
qed

theorem cumulative_close_to_annual_times_years_witness:
  "is_finite (Fin 5) \<and> pow2 (- 100) \<le> val (Fin 5) \<and> val (Fin 5) \<le> pow2 100
   \<and> is_finite (Fin 20) \<and> pow2 (- 100) \<le> val (Fin 20) \<and> val (Fin 20) \<le> pow2 100
   \<and> is_finite (total_buffer_percentage DEFAULT_BUFFERS)
   \<and> \<not> js_lt (total_buffer_percentage DEFAULT_BUFFERS) (Fin 0)
   \<and> js_lt (total_buffer_percentage DEFAULT_BUFFERS) (Fin 100)
   \<and> (\<exists>r. calculateCarbonSequestration
       \<lparr>CalculationParams.area_m2 = Fin 5, ecosystem_type = seagrass, years = Some (Fin 20),
      buffers = None\<rparr> = Inr r
     \<and> is_finite (annual_absorption r) \<and> is_finite (cumulative_absorption r)
     \<and> \<bar>val (cumulative_absorption r) - val (annual_absorption r) * 20\<bar>
         \<le> 21 * (1 / 200 + pow2 (- 48) * (\<bar>val (annual_absorption r)\<bar> + 1)))"
proof -
  let ?p = "\<lparr>CalculationParams.area_m2 = Fin 5, ecosystem_type = seagrass, years = Some (Fin 20),
      buffers = None\<rparr>"
  have s1: "js_div (Fin 5) (Fin 10000) = Fin (1152921504606847 / 2305843009213693952)"
    by (simp add: js_eval)
  have s2: "js_lit (87 / 10) = Fin (2448832297382707 / 281474976710656)"
    by (simp add: js_eval)
  have s3: "js_mul (Fin (1152921504606847 / 2305843009213693952)) (Fin (2448832297382707 / 281474976710656))
      = Fin (626901068129973 / 144115188075855872)"
    by (simp add: js_eval)
  have s4: "js_add (Fin 10) (Fin 15) = Fin 25"
    by (simp add: js_eval)
  have s5: "js_add (Fin 25) (Fin 5) = Fin 30"
    by (simp add: js_eval)
  have s6: "js_sub (Fin 100) (Fin 30) = Fin 70"
    by (simp add: js_eval)
  have s7: "js_div (Fin 70) (Fin 100) = Fin (3152519739159347 / 4503599627370496)"
    by (simp add: js_eval)
  have s8: "js_mul (Fin (626901068129973 / 144115188075855872)) (Fin (3152519739159347 / 4503599627370496))
      = Fin (7021291963055697 / 2305843009213693952)"
    by (simp add: js_eval)
  have s9: "js_mul (Fin (7021291963055697 / 2305843009213693952)) (Fin 20)
      = Fin (8776614953819621 / 144115188075855872)"
    by (simp add: js_eval)
  have s10: "js_lit (9 / 20) = Fin (8106479329266893 / 18014398509481984)"
    by (simp add: js_eval)
  have s11: "js_mul (Fin (7021291963055697 / 2305843009213693952)) (Fin (8106479329266893 / 18014398509481984))
      = Fin (6319162766750127 / 4611686018427387904)"
    by (simp add: js_eval)
  have s12: "Math_round (Fin (6319162766750127 / 4611686018427387904)) = Fin 0"
    by (simp add: js_eval)
  have s13: "js_lit (3 / 25) = Fin (1080863910568919 / 9007199254740992)"
    by (simp add: js_eval)
  have s14: "js_mul (Fin (7021291963055697 / 2305843009213693952)) (Fin (1080863910568919 / 9007199254740992))
      = Fin (6740440284533469 / 18446744073709551616)"
    by (simp add: js_eval)
  have s15: "Math_round (Fin (6740440284533469 / 18446744073709551616)) = Fin 0"
    by (simp add: js_eval)
  have s16: "js_mul (Fin (8776614953819621 / 144115188075855872)) (Fin 16)
      = Fin (8776614953819621 / 9007199254740992)"
    by (simp add: js_eval)
  have s17: "Math_round (Fin (8776614953819621 / 9007199254740992)) = Fin 1"
    by (simp add: js_eval)
  have s18: "js_mul (Fin (7021291963055697 / 2305843009213693952)) (Fin 100)
      = Fin (5485384346137263 / 18014398509481984)"
    by (simp add: js_eval)
  have s19: "Math_round (Fin (5485384346137263 / 18014398509481984)) = Fin 0"
    by (simp add: js_eval)
  have s20: "js_div (Fin 0) (Fin 100) = Fin 0"
    by (simp add: js_eval)
  have s21: "js_mul (Fin (8776614953819621 / 144115188075855872)) (Fin 100)
      = Fin (6856730432671579 / 1125899906842624)"
    by (simp add: js_eval)
  have s22: "Math_round (Fin (6856730432671579 / 1125899906842624)) = Fin 6"
    by (simp add: js_eval)
  have s23: "js_div (Fin 6) (Fin 100) = Fin (1080863910568919 / 18014398509481984)"
    by (simp add: js_eval)
  have s24: "js_lit (3 / 50) = Fin (1080863910568919 / 18014398509481984)"
    by (simp add: js_eval)
  have s25: "js_gt (Fin 5) (Fin 0)"
    by (simp add: js_eval)
  have s26: "js_gt (Fin 20) (Fin 0)"
    by (simp add: js_eval)
  have s27: "js_lt (Fin 30) (Fin 100)"
    by (simp add: js_eval)
  have s28: "\<not> js_lt (Fin 30) (Fin 0)"
    by (simp add: js_eval)
  have h: "is_finite (Fin 5)" "pow2 (- 100) \<le> val (Fin 5)" "val (Fin 5) \<le> pow2 100"
      "is_finite (Fin 20)" "pow2 (- 100) \<le> val (Fin 20)" "val (Fin 20) \<le> pow2 100"
      "is_finite (total_buffer_percentage DEFAULT_BUFFERS)"
      "\<not> js_lt (total_buffer_percentage DEFAULT_BUFFERS) (Fin 0)"
      "js_lt (total_buffer_percentage DEFAULT_BUFFERS) (Fin 100)"
    by (simp_all add: total_buffer_percentage_def DEFAULT_BUFFERS_def pow2_def
        s1 s2 s3 s4 s5 s6 s7 s8 s9 s10 s11 s12 s13 s14 s15 s16 s17 s18 s19 s20 s21 s22 s23 s24
        s25 s26 s27 s28)
  obtain r where r: "calculateCarbonSequestration ?p = Inr r"
      "is_finite (annual_absorption r) \<and> is_finite (cumulative_absorption r)
       \<longrightarrow> \<bar>val (cumulative_absorption r)
             - val (annual_absorption r) * val (years_or_default (CalculationParams.years ?p))\<bar>
           \<le> (\<bar>val (years_or_default (CalculationParams.years ?p))\<bar> + 1)
               * (1 / 200 + pow2 (- 48) * (\<bar>val (annual_absorption r)\<bar> + 1))"
      "is_finite (CalculationParams.area_m2 ?p)
         \<and> pow2 (- 100) \<le> val (CalculationParams.area_m2 ?p)
         \<and> val (CalculationParams.area_m2 ?p) \<le> pow2 100
         \<and> is_finite (years_or_default (CalculationParams.years ?p))
         \<and> pow2 (- 100) \<le> val (years_or_default (CalculationParams.years ?p))
         \<and> val (years_or_default (CalculationParams.years ?p)) \<le> pow2 100
         \<and> is_finite (total_buffer_percentage (buffers_or_default (CalculationParams.buffers ?p)))
         \<and> \<not> js_lt (total_buffer_percentage (buffers_or_default (CalculationParams.buffers ?p)))
               (Fin 0)
         \<and> js_lt (total_buffer_percentage (buffers_or_default (CalculationParams.buffers ?p)))
               (Fin 100)
       \<longrightarrow> is_finite (annual_absorption r) \<and> is_finite (cumulative_absorption r)"
    using cumulative_close_to_annual_times_years [of ?p] by blast
  have f: "is_finite (annual_absorption r)" "is_finite (cumulative_absorption r)"
    using r(3) h by (simp_all add: years_or_default_def buffers_or_default_def)
  with r(2) have "\<bar>val (cumulative_absorption r) - val (annual_absorption r) * 20\<bar>
         \<le> 21 * (1 / 200 + pow2 (- 48) * (\<bar>val (annual_absorption r)\<bar> + 1))"
    by (simp add: years_or_default_def)
  with r(1) f h show ?thesis by blast
qed

section \<open>Forward mode, then policy mode\<close>

text \<open>
  C3, as the specification states it: feeding the cumulative absorption of forward mode
  back into policy mode recovers the area to within one square metre. For 10004 square
  metres of seagrass over one year the cumulative absorption is 6.09, and policy mode
  answers 10000 square metres for that target.
\<close>

theorem round_trip_off_by_four:
  "js_gt (Fin 10004) (Fin 0) \<and> js_gt (Fin 1) (Fin 0)
   \<and> js_lt (total_buffer_percentage DEFAULT_BUFFERS) (Fin 100)
   \<and> calculateCarbonSequestration
     \<lparr>CalculationParams.area_m2 = Fin 10004, ecosystem_type = seagrass, years = Some (Fin 1),
      buffers = None\<rparr>
   = Inr \<lparr>annual_absorption = js_lit 6.09, cumulative_absorption = js_lit 6.09,
          equivalences =
            \<lparr>cars_removed = Fin 3, homes_powered = Fin 1, trees_planted = Fin 97\<rparr>,
          policy_area_needed = None\<rparr>
   \<and> calculateRequiredArea
     \<lparr>target_co2_reduction = js_lit 6.09, ecosystem_type = seagrass, years = Some (Fin 1),
      buffers = None\<rparr>
   = Inr \<lparr>annual_absorption = js_lit 6.09, cumulative_absorption = js_lit 6.09,
          equivalences =
            \<lparr>cars_removed = Fin 3, homes_powered = Fin 1, trees_planted = Fin 97\<rparr>,
          policy_area_needed = Some (Fin 10000)\<rparr>
   \<and> \<not> \<bar>val (Fin 10000) - val (Fin 10004)\<bar> \<le> 1"
proof -
  have s1: "js_div (Fin 10004) (Fin 10000) = Fin (1126350266805361 / 1125899906842624)"
    by (simp add: js_eval)
  have s2: "js_lit (87 / 10) = Fin (2448832297382707 / 281474976710656)"
    by (simp add: js_eval)
  have s3: "js_mul (Fin (1126350266805361 / 1125899906842624)) (Fin (2448832297382707 / 281474976710656))
      = Fin (612452957575415 / 70368744177664)"
    by (simp add: js_eval)
  have s4: "js_add (Fin 10) (Fin 15) = Fin 25"
    by (simp add: js_eval)
  have s5: "js_add (Fin 25) (Fin 5) = Fin 30"
    by (simp add: js_eval)
  have s6: "js_sub (Fin 100) (Fin 30) = Fin 70"
    by (simp add: js_eval)
  have s7: "js_div (Fin 70) (Fin 100) = Fin (3152519739159347 / 4503599627370496)"
    by (simp add: js_eval)
  have s8: "js_mul (Fin (612452957575415 / 70368744177664)) (Fin (3152519739159347 / 4503599627370496))
      = Fin (857434140605581 / 140737488355328)"
    by (simp add: js_eval)
  have s9: "js_mul (Fin (857434140605581 / 140737488355328)) (Fin 1)
      = Fin (857434140605581 / 140737488355328)"
    by (simp add: js_eval)
  have s10: "js_lit (9 / 20) = Fin (8106479329266893 / 18014398509481984)"
    by (simp add: js_eval)
  have s11: "js_mul (Fin (857434140605581 / 140737488355328)) (Fin (8106479329266893 / 18014398509481984))
      = Fin (6173525812360183 / 2251799813685248)"
    by (simp add: js_eval)
  have s12: "Math_round (Fin (6173525812360183 / 2251799813685248)) = Fin 3"
    by (simp add: js_eval)
  have s13: "js_lit (3 / 25) = Fin (1080863910568919 / 9007199254740992)"
    by (simp add: js_eval)
  have s14: "js_mul (Fin (857434140605581 / 140737488355328)) (Fin (1080863910568919 / 9007199254740992))
      = Fin (3292547099925431 / 4503599627370496)"
    by (simp add: js_eval)
  have s15: "Math_round (Fin (3292547099925431 / 4503599627370496)) = Fin 1"
    by (simp add: js_eval)
  have s16: "js_mul (Fin (857434140605581 / 140737488355328)) (Fin 16)
      = Fin (857434140605581 / 8796093022208)"
    by (simp add: js_eval)
  have s17: "Math_round (Fin (857434140605581 / 8796093022208)) = Fin 97"
    by (simp add: js_eval)
  have s18: "js_mul (Fin (857434140605581 / 140737488355328)) (Fin 100)
      = Fin (5358963378784881 / 8796093022208)"
    by (simp add: js_eval)
  have s19: "Math_round (Fin (5358963378784881 / 8796093022208)) = Fin 609"
    by (simp add: js_eval)
  have s20: "js_div (Fin 609) (Fin 100) = Fin (1714182608167895 / 281474976710656)"
    by (simp add: js_eval)
  have s21: "js_lit (609 / 100) = Fin (1714182608167895 / 281474976710656)"
    by (simp add: js_eval)
  have s22: "js_mul (Fin (2448832297382707 / 281474976710656)) (Fin (3152519739159347 / 4503599627370496))
      = Fin (6856730432671579 / 1125899906842624)"
    by (simp add: js_eval)
  have s23: "js_mul (Fin (6856730432671579 / 1125899906842624)) (Fin 1)
      = Fin (6856730432671579 / 1125899906842624)"
    by (simp add: js_eval)
  have s24: "js_div (Fin (1714182608167895 / 281474976710656)) (Fin (6856730432671579 / 1125899906842624))
      = Fin (4503599627370497 / 4503599627370496)"
    by (simp add: js_eval)
  have s25: "js_mul (Fin (4503599627370497 / 4503599627370496)) (Fin 10000)
      = Fin (5497558138880001 / 549755813888)"
    by (simp add: js_eval)
  have s26: "js_mul (Fin (1714182608167895 / 281474976710656)) (Fin (8106479329266893 / 18014398509481984))
      = Fin (3085528694702211 / 1125899906842624)"
    by (simp add: js_eval)
  have s27: "js_div (Fin (3085528694702211 / 1125899906842624)) (Fin 1)
      = Fin (3085528694702211 / 1125899906842624)"
    by (simp add: js_eval)
  have s28: "Math_round (Fin (3085528694702211 / 1125899906842624)) = Fin 3"
    by (simp add: js_eval)
  have s29: "js_mul (Fin (1714182608167895 / 281474976710656)) (Fin (1080863910568919 / 9007199254740992))
      = Fin (6582461215364717 / 9007199254740992)"
    by (simp add: js_eval)
  have s30: "js_div (Fin (6582461215364717 / 9007199254740992)) (Fin 1)
      = Fin (6582461215364717 / 9007199254740992)"
    by (simp add: js_eval)
  have s31: "Math_round (Fin (6582461215364717 / 9007199254740992)) = Fin 1"
    by (simp add: js_eval)
  have s32: "js_mul (Fin (1714182608167895 / 281474976710656)) (Fin 16)
      = Fin (1714182608167895 / 17592186044416)"
    by (simp add: js_eval)
  have s33: "Math_round (Fin (1714182608167895 / 17592186044416)) = Fin 97"
    by (simp add: js_eval)
  have s34: "js_div (Fin (1714182608167895 / 281474976710656)) (Fin 1)
      = Fin (1714182608167895 / 281474976710656)"
    by (simp add: js_eval)
  have s35: "js_mul (Fin (1714182608167895 / 281474976710656)) (Fin 100) = Fin 609"
    by (simp add: js_eval)
  have s36: "Math_round (Fin 609) = Fin 609"
    by (simp add: js_eval)
  have s37: "Math_round (Fin (5497558138880001 / 549755813888)) = Fin 10000"
    by (simp add: js_eval)
  have s38: "js_gt (Fin 10004) (Fin 0)"
    by (simp add: js_eval)
  have s39: "js_gt (Fin 1) (Fin 0)"
    by (simp add: js_eval)
  have s40: "js_lt (Fin 30) (Fin 100)"
    by (simp add: js_eval)
  have e1: "calculateCarbonSequestration
     \<lparr>CalculationParams.area_m2 = Fin 10004, ecosystem_type = seagrass, years = Some (Fin 1),
      buffers = None\<rparr>
   = Inr \<lparr>annual_absorption = js_lit 6.09, cumulative_absorption = js_lit 6.09,
          equivalences =
            \<lparr>cars_removed = Fin 3, homes_powered = Fin 1, trees_planted = Fin 97\<rparr>,
          policy_area_needed = None\<rparr>"
    by (simp add: calculateCarbonSequestration_def Let_def IMPACT_EQUIVALENCES_def DEFAULT_BUFFERS_def
        s1 s2 s3 s4 s5 s6 s7 s8 s9 s10 s11 s12 s13 s14 s15 s16 s17 s18 s19 s20 s21 s22 s23 s24
        s25 s26 s27 s28 s29 s30 s31 s32 s33 s34 s35 s36 s37 s38 s39 s40)
  have e2: "calculateRequiredArea
     \<lparr>target_co2_reduction = js_lit 6.09, ecosystem_type = seagrass, years = Some (Fin 1),
      buffers = None\<rparr>
   = Inr \<lparr>annual_absorption = js_lit 6.09, cumulative_absorption = js_lit 6.09,
          equivalences =
            \<lparr>cars_removed = Fin 3, homes_powered = Fin 1, trees_planted = Fin 97\<rparr>,
          policy_area_needed = Some (Fin 10000)\<rparr>"
    by (simp add: calculateRequiredArea_def Let_def IMPACT_EQUIVALENCES_def DEFAULT_BUFFERS_def
        s1 s2 s3 s4 s5 s6 s7 s8 s9 s10 s11 s12 s13 s14 s15 s16 s17 s18 s19 s20 s21 s22 s23 s24
        s25 s26 s27 s28 s29 s30 s31 s32 s33 s34 s35 s36 s37 s38 s39 s40)
  have e3: "js_lt (total_buffer_percentage DEFAULT_BUFFERS) (Fin 100)"
    by (simp add: total_buffer_percentage_def DEFAULT_BUFFERS_def
        s1 s2 s3 s4 s5 s6 s7 s8 s9 s10 s11 s12 s13 s14 s15 s16 s17 s18 s19 s20 s21 s22 s23 s24
        s25 s26 s27 s28 s29 s30 s31 s32 s33 s34 s35 s36 s37 s38 s39 s40)
  show ?thesis
    using e1 e2 e3 by (simp add:
        s1 s2 s3 s4 s5 s6 s7 s8 s9 s10 s11 s12 s13 s14 s15 s16 s17 s18 s19 s20 s21 s22 s23 s24
        s25 s26 s27 s28 s29 s30 s31 s32 s33 s34 s35 s36 s37 s38 s39 s40)
qed

text \<open>
  C3, amended. Forward mode returns the cumulative absorption rounded to two decimals, and
  that error of 0.005 is divided by \<open>rate * buffer_factor * years\<close> on the way back; every
  operation also rounds to binary64. For an area and a horizon between \<open>2^-100\<close> and
  \<open>2^100\<close> and buffers that sum to a number from 0 to below 100, the area that policy mode
  returns for the cumulative absorption of forward mode is finite and differs from the
  original area by at most
  \<open>1/2 + 50 / (rate * buffer_factor * years) * (1 + 2^-50) + 2^-48 * area\<close>, where
  \<open>buffer_factor\<close> is \<^verbatim>\<open>(100 - total_buffer_percentage) / 100\<close> as the code computes it. It is
  within one square metre as soon as \<open>rate * buffer_factor * years\<close> is at least 101 and the
  area is at most \<open>2^39\<close> square metres.
\<close>

theorem round_trip_area_bound:
  assumes "is_finite (CalculationParams.area_m2 p)"
    and "pow2 (- 100) \<le> val (CalculationParams.area_m2 p)"
    and "val (CalculationParams.area_m2 p) \<le> pow2 100"
    and "is_finite (years_or_default (CalculationParams.years p))"
    and "pow2 (- 100) \<le> val (years_or_default (CalculationParams.years p))"
    and "val (years_or_default (CalculationParams.years p)) \<le> pow2 100"
    and "is_finite (total_buffer_percentage (buffers_or_default (CalculationParams.buffers p)))"
    and "\<not> js_lt (total_buffer_percentage (buffers_or_default (CalculationParams.buffers p)))
           (Fin 0)"
    and "js_lt (total_buffer_percentage (buffers_or_default (CalculationParams.buffers p)))
           (Fin 100)"
  shows "\<exists>r r' a. calculateCarbonSequestration p = Inr r
    \<and> calculateRequiredArea
         \<lparr>target_co2_reduction = cumulative_absorption r,
          ecosystem_type = CalculationParams.ecosystem_type p,
          years = CalculationParams.years p,
          buffers = CalculationParams.buffers p\<rparr> = Inr r'
    \<and> policy_area_needed r' = Some a \<and> is_finite a
    \<and> \<bar>val a - val (CalculationParams.area_m2 p)\<bar>
        \<le> 1 / 2 + 50 / (rate (CalculationParams.ecosystem_type p)
              * val (buffer_factor (buffers_or_default (CalculationParams.buffers p)))
              * val (years_or_default (CalculationParams.years p))) * (1 + pow2 (- 50))
          + pow2 (- 48) * val (CalculationParams.area_m2 p)
    \<and> (101 \<le> rate (CalculationParams.ecosystem_type p)
              * val (buffer_factor (buffers_or_default (CalculationParams.buffers p)))
              * val (years_or_default (CalculationParams.years p))
          \<and> val (CalculationParams.area_m2 p) \<le> pow2 39
         \<longrightarrow> \<bar>val a - val (CalculationParams.area_m2 p)\<bar> \<le> 1)"
proof -
  let ?e = "CalculationParams.ecosystem_type p"
  let ?F = "buffer_factor (buffers_or_default (CalculationParams.buffers p))"
  let ?Y = "years_or_default (CalculationParams.years p)"
  let ?area = "CalculationParams.area_m2 p"
  let ?d = "rate ?e * val ?F * val ?Y"
  obtain r where r: "calculateCarbonSequestration p = Inr r"
      "cumulative_absorption r = js_round2 (js_mul (unrounded_annual p) ?Y)"
    using forward_unfold [of p] by blast
  let ?q = "\<lparr>target_co2_reduction = cumulative_absorption r,
          ecosystem_type = CalculationParams.ecosystem_type p,
          years = CalculationParams.years p,
          buffers = CalculationParams.buffers p\<rparr>"
  obtain r' where r': "calculateRequiredArea ?q = Inr r'"
      "policy_area_needed r' =
         Some (Math_round (js_mul (js_div (target_co2_reduction ?q)
           (effective_rate_times_years ?q)) (Fin 10000)))"
    using policy_fields [of ?q] by blast
  let ?a = "Math_round (js_mul (js_div (cumulative_absorption r)
      (js_mul (js_mul (SEQUESTRATION_FACTORS ?e) ?F) ?Y)) (Fin 10000))"
  have c: "cumulative_absorption r = js_round2 (js_mul (js_mul (js_mul
      (js_div ?area (Fin 10000)) (SEQUESTRATION_FACTORS ?e)) ?F) ?Y)"
    by (simp add: r(2) unrounded_annual_def)
  have pa: "policy_area_needed r' = Some ?a"
    by (simp add: r'(2) effective_rate_times_years_def)
  have ra: "inrange 100 (val ?area)" and ry: "inrange 100 (val ?Y)"
    using assms by (simp_all add: inrange_def)
  have ff: "is_finite ?F" and rf: "inrange 100 (val ?F)"
    using assms(7-9) by (rule factor_in_range)+
  have fin: "is_finite ?a"
    using assms(1) ra assms(4) ry ff rf c refl by (rule round_trip_core(1))
  have bound: "\<bar>val ?a - val ?area\<bar>
      \<le> 1 / 2 + 50 / ?d * (1 + pow2 (- 50)) + pow2 (- 48) * val ?area"
    using assms(1) ra assms(4) ry ff rf c refl by (rule round_trip_core(2))
  have one: "\<bar>val ?a - val ?area\<bar> \<le> 1" if "101 \<le> ?d" "val ?area \<le> pow2 39"
  proof -
    have A: "0 \<le> val ?area"
      using inrange_pos [OF ra] by simp
    have "50 / ?d \<le> 50 / 101"
      using that(1) by (intro divide_left_mono) simp_all
    moreover have "pow2 (- 50) \<le> pow2 (- 10)"
      by (rule pow2_mono) simp
    then have "1 + pow2 (- 50) \<le> 1 + 1 / 1024"
      by (simp add: pow2_def)
    ultimately have "50 / ?d * (1 + pow2 (- 50)) \<le> 50 / 101 * (1 + 1 / 1024)"
      using that(1) by (intro mult_mono) simp_all
    moreover have "50 / 101 * (1 + 1 / 1024) \<le> (1 / 2 - 1 / 512 :: real)"
      by simp
    ultimately have x: "50 / ?d * (1 + pow2 (- 50)) \<le> 1 / 2 - 1 / 512"
      by (rule order_trans)
    have "pow2 (- 48) * val ?area \<le> pow2 (- 48) * pow2 39"
      using that(2) by (intro mult_left_mono) simp_all
    moreover have "pow2 (- 48) * pow2 39 = 1 / 512"
      using pow2_add [of "- 48" 39] by (simp add: pow2_def)
    ultimately have z: "pow2 (- 48) * val ?area \<le> 1 / 512"
      by simp
    from bound x z show ?thesis
      by linarith
  qed
  from r(1) r'(1) pa fin bound one show ?thesis
    by blast
qed

theorem round_trip_area_bound_witness:
  "is_finite (Fin 100000) \<and> pow2 (- 100) \<le> val (Fin 100000) \<and> val (Fin 100000) \<le> pow2 100
   \<and> is_finite (Fin 20) \<and> pow2 (- 100) \<le> val (Fin 20) \<and> val (Fin 20) \<le> pow2 100
   \<and> is_finite (total_buffer_percentage DEFAULT_BUFFERS)
   \<and> \<not> js_lt (total_buffer_percentage DEFAULT_BUFFERS) (Fin 0)
   \<and> js_lt (total_buffer_percentage DEFAULT_BUFFERS) (Fin 100)
   \<and> 101 \<le> rate mangrove * val (buffer_factor DEFAULT_BUFFERS) * val (Fin 20)
   \<and> val (Fin 100000) \<le> pow2 39
   \<and> (\<exists>r r' a. calculateCarbonSequestration
          \<lparr>CalculationParams.area_m2 = Fin 100000, ecosystem_type = mangrove, years = Some (Fin 20),
      buffers = None\<rparr> = Inr r
        \<and> calculateRequiredArea
          \<lparr>target_co2_reduction = cumulative_absorption r, ecosystem_type = mangrove,
           years = Some (Fin 20), buffers = None\<rparr> = Inr r'
        \<and> policy_area_needed r' = Some a
        \<and> is_finite a
        \<and> \<bar>val a - 100000\<bar> \<le> 1)"
proof -
  let ?p = "\<lparr>CalculationParams.area_m2 = Fin 100000, ecosystem_type = mangrove, years = Some (Fin 20),
      buffers = None\<rparr>"
  have s1: "js_div (Fin 100000) (Fin 10000) = Fin 10"
    by (simp add: js_eval)
  have s2: "js_lit (203 / 20) = Fin (5713942027226317 / 562949953421312)"
    by (simp add: js_eval)
  have s3: "js_mul (Fin 10) (Fin (5713942027226317 / 562949953421312)) = Fin (203 / 2)"
    by (simp add: js_eval)
  have s4: "js_add (Fin 10) (Fin 15) = Fin 25"
    by (simp add: js_eval)
  have s5: "js_add (Fin 25) (Fin 5) = Fin 30"
    by (simp add: js_eval)
  have s6: "js_sub (Fin 100) (Fin 30) = Fin 70"
    by (simp add: js_eval)
  have s7: "js_div (Fin 70) (Fin 100) = Fin (3152519739159347 / 4503599627370496)"
    by (simp add: js_eval)
  have s8: "js_mul (Fin (203 / 2)) (Fin (3152519739159347 / 4503599627370496))
      = Fin (4999699273823027 / 70368744177664)"
    by (simp add: js_eval)
  have s9: "js_mul (Fin (4999699273823027 / 70368744177664)) (Fin 20) = Fin 1421"
    by (simp add: js_eval)
  have s10: "js_lit (9 / 20) = Fin (8106479329266893 / 18014398509481984)"
    by (simp add: js_eval)
  have s11: "js_mul (Fin (4999699273823027 / 70368744177664)) (Fin (8106479329266893 / 18014398509481984))
      = Fin (8999458692881449 / 281474976710656)"
    by (simp add: js_eval)
  have s12: "Math_round (Fin (8999458692881449 / 281474976710656)) = Fin 32"
    by (simp add: js_eval)
  have s13: "js_lit (3 / 25) = Fin (1080863910568919 / 9007199254740992)"
    by (simp add: js_eval)
  have s14: "js_mul (Fin (4999699273823027 / 70368744177664)) (Fin (1080863910568919 / 9007199254740992))
      = Fin (2399855651435053 / 281474976710656)"
    by (simp add: js_eval)
  have s15: "Math_round (Fin (2399855651435053 / 281474976710656)) = Fin 9"
    by (simp add: js_eval)
  have s16: "js_mul (Fin 1421) (Fin 16) = Fin 22736"
    by (simp add: js_eval)
  have s17: "Math_round (Fin 22736) = Fin 22736"
    by (simp add: js_eval)
  have s18: "js_mul (Fin (4999699273823027 / 70368744177664)) (Fin 100) = Fin 7105"
    by (simp add: js_eval)
  have s19: "Math_round (Fin 7105) = Fin 7105"
    by (simp add: js_eval)
  have s20: "js_div (Fin 7105) (Fin 100) = Fin (4999699273823027 / 70368744177664)"
    by (simp add: js_eval)
  have s21: "js_mul (Fin 1421) (Fin 100) = Fin 142100"
    by (simp add: js_eval)
  have s22: "Math_round (Fin 142100) = Fin 142100"
    by (simp add: js_eval)
  have s23: "js_div (Fin 142100) (Fin 100) = Fin 1421"
    by (simp add: js_eval)
  have s24: "js_lt (Fin 30) (Fin 100)"
    by (simp add: js_eval)
  have s25: "\<not> js_lt (Fin 30) (Fin 0)"
    by (simp add: js_eval)
  have h: "is_finite (Fin 100000)" "pow2 (- 100) \<le> val (Fin 100000)"
      "val (Fin 100000) \<le> pow2 100"
      "is_finite (Fin 20)" "pow2 (- 100) \<le> val (Fin 20)" "val (Fin 20) \<le> pow2 100"
      "is_finite (total_buffer_percentage DEFAULT_BUFFERS)"
      "\<not> js_lt (total_buffer_percentage DEFAULT_BUFFERS) (Fin 0)"
      "js_lt (total_buffer_percentage DEFAULT_BUFFERS) (Fin 100)"
      "101 \<le> rate mangrove * val (buffer_factor DEFAULT_BUFFERS) * val (Fin 20)"
      "val (Fin 100000) \<le> pow2 39"
    by (simp_all add: buffer_factor_def total_buffer_percentage_def DEFAULT_BUFFERS_def rate_def
        pow2_def
        s1 s2 s3 s4 s5 s6 s7 s8 s9 s10 s11 s12 s13 s14 s15 s16 s17 s18 s19 s20 s21 s22 s23 s24
        s25)
  have h1: "is_finite (CalculationParams.area_m2 ?p)"
    and h2: "pow2 (- 100) \<le> val (CalculationParams.area_m2 ?p)"
    and h3: "val (CalculationParams.area_m2 ?p) \<le> pow2 100"
    and h4: "is_finite (years_or_default (CalculationParams.years ?p))"
    and h5: "pow2 (- 100) \<le> val (years_or_default (CalculationParams.years ?p))"
    and h6: "val (years_or_default (CalculationParams.years ?p)) \<le> pow2 100"
    and h7: "is_finite (total_buffer_percentage (buffers_or_default (CalculationParams.buffers ?p)))"
    and h8: "\<not> js_lt (total_buffer_percentage (buffers_or_default (CalculationParams.buffers ?p)))
              (Fin 0)"
    and h9: "js_lt (total_buffer_percentage (buffers_or_default (CalculationParams.buffers ?p)))
              (Fin 100)"
    using h by (simp_all add: years_or_default_def buffers_or_default_def)
  from round_trip_area_bound [OF h1 h2 h3 h4 h5 h6 h7 h8 h9] h
  show ?thesis
    by (simp add: years_or_default_def buffers_or_default_def) blast
qed

section \<open>Worked examples and policy mode\<close>

text \<open>
  C4. Worked example of forward mode: 100000 square metres of mangrove over 20 years with
  the default buffers (10, 15, 5) give an annual absorption of 71.05, a cumulative
  absorption of 1421, 32 cars removed, 9 homes powered and 22736 trees planted; the same
  result comes out when the horizon and the buffers are left to their defaults.
\<close>

theorem forward_mangrove_worked_example:
  "calculateCarbonSequestration
     \<lparr>CalculationParams.area_m2 = Fin 100000, ecosystem_type = mangrove, years = Some (Fin 20),
      buffers = Some \<lparr>uncertainty = Fin 10, mortality = Fin 15, verification = Fin 5\<rparr>\<rparr>
   = Inr \<lparr>annual_absorption = js_lit 71.05, cumulative_absorption = Fin 1421,
          equivalences =
            \<lparr>cars_removed = Fin 32, homes_powered = Fin 9, trees_planted = Fin 22736\<rparr>,
          policy_area_needed = None\<rparr>
   \<and> calculateCarbonSequestration
     \<lparr>CalculationParams.area_m2 = Fin 100000, ecosystem_type = mangrove, years = None,
      buffers = None\<rparr>
   = Inr \<lparr>annual_absorption = js_lit 71.05, cumulative_absorption = Fin 1421,
          equivalences =
            \<lparr>cars_removed = Fin 32, homes_powered = Fin 9, trees_planted = Fin 22736\<rparr>,
          policy_area_needed = None\<rparr>"
proof -
  have s1: "js_div (Fin 100000) (Fin 10000) = Fin 10"
    by (simp add: js_eval)
  have s2: "js_lit (203 / 20) = Fin (5713942027226317 / 562949953421312)"
    by (simp add: js_eval)
  have s3: "js_mul (Fin 10) (Fin (5713942027226317 / 562949953421312)) = Fin (203 / 2)"
    by (simp add: js_eval)
  have s4: "js_add (Fin 10) (Fin 15) = Fin 25"
    by (simp add: js_eval)
  have s5: "js_add (Fin 25) (Fin 5) = Fin 30"
    by (simp add: js_eval)
  have s6: "js_sub (Fin 100) (Fin 30) = Fin 70"
    by (simp add: js_eval)
  have s7: "js_div (Fin 70) (Fin 100) = Fin (3152519739159347 / 4503599627370496)"
    by (simp add: js_eval)
  have s8: "js_mul (Fin (203 / 2)) (Fin (3152519739159347 / 4503599627370496))
      = Fin (4999699273823027 / 70368744177664)"
    by (simp add: js_eval)
  have s9: "js_mul (Fin (4999699273823027 / 70368744177664)) (Fin 20) = Fin 1421"
    by (simp add: js_eval)
  have s10: "js_lit (9 / 20) = Fin (8106479329266893 / 18014398509481984)"
    by (simp add: js_eval)
  have s11: "js_mul (Fin (4999699273823027 / 70368744177664)) (Fin (8106479329266893 / 18014398509481984))
      = Fin (8999458692881449 / 281474976710656)"
    by (simp add: js_eval)
  have s12: "Math_round (Fin (8999458692881449 / 281474976710656)) = Fin 32"
    by (simp add: js_eval)
  have s13: "js_lit (3 / 25) = Fin (1080863910568919 / 9007199254740992)"
    by (simp add: js_eval)
  have s14: "js_mul (Fin (4999699273823027 / 70368744177664)) (Fin (1080863910568919 / 9007199254740992))
      = Fin (2399855651435053 / 281474976710656)"
    by (simp add: js_eval)
  have s15: "Math_round (Fin (2399855651435053 / 281474976710656)) = Fin 9"
    by (simp add: js_eval)
  have s16: "js_mul (Fin 1421) (Fin 16) = Fin 22736"
    by (simp add: js_eval)
  have s17: "Math_round (Fin 22736) = Fin 22736"
    by (simp add: js_eval)
  have s18: "js_mul (Fin (4999699273823027 / 70368744177664)) (Fin 100) = Fin 7105"
    by (simp add: js_eval)
  have s19: "Math_round (Fin 7105) = Fin 7105"
    by (simp add: js_eval)
  have s20: "js_div (Fin 7105) (Fin 100) = Fin (4999699273823027 / 70368744177664)"
    by (simp add: js_eval)
  have s21: "js_mul (Fin 1421) (Fin 100) = Fin 142100"
    by (simp add: js_eval)
  have s22: "Math_round (Fin 142100) = Fin 142100"
    by (simp add: js_eval)
  have s23: "js_div (Fin 142100) (Fin 100) = Fin 1421"
    by (simp add: js_eval)
  have s24: "js_lit (1421 / 20) = Fin (4999699273823027 / 70368744177664)"
    by (simp add: js_eval)
  show ?thesis
    by (simp add: calculateCarbonSequestration_def Let_def IMPACT_EQUIVALENCES_def DEFAULT_BUFFERS_def
        s1 s2 s3 s4 s5 s6 s7 s8 s9 s10 s11 s12 s13 s14 s15 s16 s17 s18 s19 s20 s21 s22 s23 s24)
qed

text \<open>
  C5. In policy mode the equivalences come from the target alone: cars removed is
  \<^verbatim>\<open>Math.round(target * 0.45 / years)\<close>, homes powered is
  \<^verbatim>\<open>Math.round(target * 0.12 / years)\<close>, trees planted is \<^verbatim>\<open>Math.round(target * 16)\<close>, on
  every input, in the arithmetic of the code. They stay the same under any other
  ecosystem type and buffers, which change the computed area. Against the exact values:
  for a finite horizon other than zero, a count of cars or homes that is finite differs
  from \<open>target * 0.45 / years\<close>, or \<open>target * 0.12 / years\<close>, by at most a half, plus the error
  of the binary roundings; and a finite count of trees differs from \<open>target * 16\<close> by at most
  a half, plus that error. For seagrass, a target of 1000 tons, 20 years and the default
  buffers, the required area is 82102 square metres.
\<close>

theorem policy_equivalences_from_target:
  "(\<exists>r. calculateRequiredArea q = Inr r
      \<and> cars_removed (equivalences r) =
          Math_round (js_div (js_mul (target_co2_reduction q) (js_lit 0.45))
            (years_or_default (PolicyCalculationParams.years q)))
      \<and> homes_powered (equivalences r) =
          Math_round (js_div (js_mul (target_co2_reduction q) (js_lit 0.12))
            (years_or_default (PolicyCalculationParams.years q)))
      \<and> Equivalences.trees_planted (equivalences r) =
          Math_round (js_mul (target_co2_reduction q) (Fin 16))
      \<and> (is_finite (years_or_default (PolicyCalculationParams.years q))
           \<and> \<not> is_zero (years_or_default (PolicyCalculationParams.years q))
           \<and> is_finite (cars_removed (equivalences r))
         \<longrightarrow> \<bar>val (cars_removed (equivalences r))
               - val (target_co2_reduction q) * 0.45
                   / val (years_or_default (PolicyCalculationParams.years q))\<bar>
             \<le> 1 / 2
               + pow2 (- 48) * (\<bar>val (target_co2_reduction q) * 0.45
                   / val (years_or_default (PolicyCalculationParams.years q))\<bar> + 1)
               + pow2 (- 1074) / \<bar>val (years_or_default (PolicyCalculationParams.years q))\<bar>)
      \<and> (is_finite (years_or_default (PolicyCalculationParams.years q))
           \<and> \<not> is_zero (years_or_default (PolicyCalculationParams.years q))
           \<and> is_finite (homes_powered (equivalences r))
         \<longrightarrow> \<bar>val (homes_powered (equivalences r))
               - val (target_co2_reduction q) * 0.12
                   / val (years_or_default (PolicyCalculationParams.years q))\<bar>
             \<le> 1 / 2
               + pow2 (- 48) * (\<bar>val (target_co2_reduction q) * 0.12
                   / val (years_or_default (PolicyCalculationParams.years q))\<bar> + 1)
               + pow2 (- 1074) / \<bar>val (years_or_default (PolicyCalculationParams.years q))\<bar>)
      \<and> (is_finite (Equivalences.trees_planted (equivalences r))
         \<longrightarrow> \<bar>val (Equivalences.trees_planted (equivalences r))
               - val (target_co2_reduction q) * 16\<bar>
             \<le> 1 / 2 + pow2 (- 48) * (\<bar>val (target_co2_reduction q) * 16\<bar> + 1))
      \<and> (\<exists>r'. calculateRequiredArea
             (q\<lparr>PolicyCalculationParams.ecosystem_type := e', buffers := b'\<rparr>) = Inr r'
           \<and> equivalences r' = equivalences r))
    \<and> (case calculateRequiredArea
          \<lparr>target_co2_reduction = Fin 1000, ecosystem_type = seagrass, years = Some (Fin 20),
      buffers = Some DEFAULT_BUFFERS\<rparr>
        of Inl err \<Rightarrow> None | Inr r \<Rightarrow> policy_area_needed r) = Some (Fin 82102)"
proof -
  let ?q' = "q\<lparr>PolicyCalculationParams.ecosystem_type := e', buffers := b'\<rparr>"
  let ?T = "target_co2_reduction q"
  let ?Y = "years_or_default (PolicyCalculationParams.years q)"
  obtain r where r: "calculateRequiredArea q = Inr r"
      "cars_removed (equivalences r) = Math_round (js_div (js_mul ?T (js_lit 0.45)) ?Y)"
      "homes_powered (equivalences r) = Math_round (js_div (js_mul ?T (js_lit 0.12)) ?Y)"
      "Equivalences.trees_planted (equivalences r) = Math_round (js_mul ?T (Fin 16))"
    using policy_fields [of q] by blast
  obtain r' where r': "calculateRequiredArea ?q' = Inr r'"
      "cars_removed (equivalences r') =
         Math_round (js_div (js_mul (target_co2_reduction ?q') (js_lit 0.45))
           (years_or_default (PolicyCalculationParams.years ?q')))"
      "homes_powered (equivalences r') =
         Math_round (js_div (js_mul (target_co2_reduction ?q') (js_lit 0.12))
           (years_or_default (PolicyCalculationParams.years ?q')))"
      "Equivalences.trees_planted (equivalences r') =
         Math_round (js_mul (target_co2_reduction ?q') (Fin 16))"
    using policy_fields [of ?q'] by blast
  have same: "equivalences r' = equivalences r"
    using r(2-4) r'(2-4) by (intro Equivalences.equality) simp_all
  have s1: "js_lit (87 / 10) = Fin (2448832297382707 / 281474976710656)"
    by (simp add: js_eval)
  have s2: "js_add (Fin 10) (Fin 15) = Fin 25"
    by (simp add: js_eval)
  have s3: "js_add (Fin 25) (Fin 5) = Fin 30"
    by (simp add: js_eval)
  have s4: "js_sub (Fin 100) (Fin 30) = Fin 70"
    by (simp add: js_eval)
  have s5: "js_div (Fin 70) (Fin 100) = Fin (3152519739159347 / 4503599627370496)"
    by (simp add: js_eval)
  have s6: "js_mul (Fin (2448832297382707 / 281474976710656)) (Fin (3152519739159347 / 4503599627370496))
      = Fin (6856730432671579 / 1125899906842624)"
    by (simp add: js_eval)
  have s7: "js_mul (Fin (6856730432671579 / 1125899906842624)) (Fin 20)
      = Fin (4285456520419737 / 35184372088832)"
    by (simp add: js_eval)
  have s8: "js_div (Fin 1000) (Fin (4285456520419737 / 35184372088832))
      = Fin (4621920799846569 / 562949953421312)"
    by (simp add: js_eval)
  have s9: "js_mul (Fin (4621920799846569 / 562949953421312)) (Fin 10000)
      = Fin (2820996581937603 / 34359738368)"
    by (simp add: js_eval)
  have s10: "js_lit (9 / 20) = Fin (8106479329266893 / 18014398509481984)"
    by (simp add: js_eval)
  have s11: "js_mul (Fin 1000) (Fin (8106479329266893 / 18014398509481984)) = Fin 450"
    by (simp add: js_eval)
  have s12: "js_div (Fin 450) (Fin 20) = Fin (45 / 2)"
    by (simp add: js_eval)
  have s13: "Math_round (Fin (45 / 2)) = Fin 23"
    by (simp add: js_eval)
  have s14: "js_lit (3 / 25) = Fin (1080863910568919 / 9007199254740992)"
    by (simp add: js_eval)
  have s15: "js_mul (Fin 1000) (Fin (1080863910568919 / 9007199254740992)) = Fin 120"
    by (simp add: js_eval)
  have s16: "js_div (Fin 120) (Fin 20) = Fin 6"
    by (simp add: js_eval)
  have s17: "Math_round (Fin 6) = Fin 6"
    by (simp add: js_eval)
  have s18: "js_mul (Fin 1000) (Fin 16) = Fin 16000"
    by (simp add: js_eval)
  have s19: "Math_round (Fin 16000) = Fin 16000"
    by (simp add: js_eval)
  have s20: "js_div (Fin 1000) (Fin 20) = Fin 50"
    by (simp add: js_eval)
  have s21: "js_mul (Fin 50) (Fin 100) = Fin 5000"
    by (simp add: js_eval)
  have s22: "Math_round (Fin 5000) = Fin 5000"
    by (simp add: js_eval)
  have s23: "js_div (Fin 5000) (Fin 100) = Fin 50"
    by (simp add: js_eval)
  have s24: "js_mul (Fin 1000) (Fin 100) = Fin 100000"
    by (simp add: js_eval)
  have s25: "Math_round (Fin 100000) = Fin 100000"
    by (simp add: js_eval)
  have s26: "js_div (Fin 100000) (Fin 100) = Fin 1000"
    by (simp add: js_eval)
  have s27: "Math_round (Fin (2820996581937603 / 34359738368)) = Fin 82102"
    by (simp add: js_eval)
  have ex: "(case calculateRequiredArea
          \<lparr>target_co2_reduction = Fin 1000, ecosystem_type = seagrass, years = Some (Fin 20),
      buffers = Some DEFAULT_BUFFERS\<rparr>
        of Inl err \<Rightarrow> None | Inr r \<Rightarrow> policy_area_needed r) = Some (Fin 82102)"
    by (simp add: calculateRequiredArea_def Let_def IMPACT_EQUIVALENCES_def DEFAULT_BUFFERS_def
        s1 s2 s3 s4 s5 s6 s7 s8 s9 s10 s11 s12 s13 s14 s15 s16 s17 s18 s19 s20 s21 s22 s23 s24
        s25 s26 s27)
  have cars: "\<bar>val (cars_removed (equivalences r)) - val ?T * 0.45 / val ?Y\<bar>
      \<le> 1 / 2 + pow2 (- 48) * (\<bar>val ?T * 0.45 / val ?Y\<bar> + 1)
        + pow2 (- 1074) / \<bar>val ?Y\<bar>"
    if "is_finite ?Y" "\<not> is_zero ?Y" "is_finite (cars_removed (equivalences r))"
  proof -
    have y: "val ?Y \<noteq> 0"
      using that(1,2) by (cases ?Y) (auto simp: is_zero_def)
    show ?thesis
      using that(3) unfolding r(2) literal_errors(1)
      by (rule round_scaled_quotient_err [OF _ that(1) y _ literal_errors(3)]) simp
  qed
  have homes: "\<bar>val (homes_powered (equivalences r)) - val ?T * 0.12 / val ?Y\<bar>
      \<le> 1 / 2 + pow2 (- 48) * (\<bar>val ?T * 0.12 / val ?Y\<bar> + 1)
        + pow2 (- 1074) / \<bar>val ?Y\<bar>"
    if "is_finite ?Y" "\<not> is_zero ?Y" "is_finite (homes_powered (equivalences r))"
  proof -
    have y: "val ?Y \<noteq> 0"
      using that(1,2) by (cases ?Y) (auto simp: is_zero_def)
    show ?thesis
      using that(3) unfolding r(3) literal_errors(2)
      by (rule round_scaled_quotient_err [OF _ that(1) y _ literal_errors(4)]) simp
  qed
  have trees: "\<bar>val (Equivalences.trees_planted (equivalences r)) - val ?T * 16\<bar>
      \<le> 1 / 2 + pow2 (- 48) * (\<bar>val ?T * 16\<bar> + 1)"
    if "is_finite (Equivalences.trees_planted (equivalences r))"
    using that unfolding r(4) by (rule round_product_err)
  from r same r'(1) ex cars homes trees show ?thesis by blast
qed

theorem policy_equivalences_from_target_witness:
  "is_finite (Fin 20) \<and> \<not> is_zero (Fin 20)
   \<and> (\<exists>r. calculateRequiredArea
          \<lparr>target_co2_reduction = Fin 1000, ecosystem_type = seagrass, years = Some (Fin 20),
      buffers = None\<rparr> = Inr r
        \<and> cars_removed (equivalences r) = Fin 23
        \<and> homes_powered (equivalences r) = Fin 6
        \<and> Equivalences.trees_planted (equivalences r) = Fin 16000
        \<and> \<bar>23 - 1000 * 0.45 / 20\<bar>
            \<le> 1 / 2 + pow2 (- 48) * (\<bar>1000 * 0.45 / 20\<bar> + 1) + pow2 (- 1074) / \<bar>20\<bar>
        \<and> \<bar>6 - 1000 * 0.12 / 20\<bar>
            \<le> 1 / 2 + pow2 (- 48) * (\<bar>1000 * 0.12 / 20\<bar> + 1) + pow2 (- 1074) / \<bar>20\<bar>
        \<and> \<bar>16000 - 1000 * 16\<bar> \<le> 1 / 2 + pow2 (- 48) * (\<bar>1000 * 16\<bar> + 1))"
proof -
  let ?q = "\<lparr>target_co2_reduction = Fin 1000, ecosystem_type = seagrass, years = Some (Fin 20),
      buffers = None\<rparr>"
  have s1: "js_lit (87 / 10) = Fin (2448832297382707 / 281474976710656)"
    by (simp add: js_eval)
  have s2: "js_add (Fin 10) (Fin 15) = Fin 25"
    by (simp add: js_eval)
  have s3: "js_add (Fin 25) (Fin 5) = Fin 30"
    by (simp add: js_eval)
  have s4: "js_sub (Fin 100) (Fin 30) = Fin 70"
    by (simp add: js_eval)
  have s5: "js_div (Fin 70) (Fin 100) = Fin (3152519739159347 / 4503599627370496)"
    by (simp add: js_eval)
  have s6: "js_mul (Fin (2448832297382707 / 281474976710656)) (Fin (3152519739159347 / 4503599627370496))
      = Fin (6856730432671579 / 1125899906842624)"
    by (simp add: js_eval)
  have s7: "js_mul (Fin (6856730432671579 / 1125899906842624)) (Fin 20)
      = Fin (4285456520419737 / 35184372088832)"
    by (simp add: js_eval)
  have s8: "js_div (Fin 1000) (Fin (4285456520419737 / 35184372088832))
      = Fin (4621920799846569 / 562949953421312)"
    by (simp add: js_eval)
  have s9: "js_mul (Fin (4621920799846569 / 562949953421312)) (Fin 10000)
      = Fin (2820996581937603 / 34359738368)"
    by (simp add: js_eval)
  have s10: "js_lit (9 / 20) = Fin (8106479329266893 / 18014398509481984)"
    by (simp add: js_eval)
  have s11: "js_mul (Fin 1000) (Fin (8106479329266893 / 18014398509481984)) = Fin 450"
    by (simp add: js_eval)
  have s12: "js_div (Fin 450) (Fin 20) = Fin (45 / 2)"
    by (simp add: js_eval)
  have s13: "Math_round (Fin (45 / 2)) = Fin 23"
    by (simp add: js_eval)
  have s14: "js_lit (3 / 25) = Fin (1080863910568919 / 9007199254740992)"
    by (simp add: js_eval)
  have s15: "js_mul (Fin 1000) (Fin (1080863910568919 / 9007199254740992)) = Fin 120"
    by (simp add: js_eval)
  have s16: "js_div (Fin 120) (Fin 20) = Fin 6"
    by (simp add: js_eval)
  have s17: "Math_round (Fin 6) = Fin 6"
    by (simp add: js_eval)
  have s18: "js_mul (Fin 1000) (Fin 16) = Fin 16000"
    by (simp add: js_eval)
  have s19: "Math_round (Fin 16000) = Fin 16000"
    by (simp add: js_eval)
  have s20: "js_div (Fin 1000) (Fin 20) = Fin 50"
    by (simp add: js_eval)
  have s21: "js_mul (Fin 50) (Fin 100) = Fin 5000"
    by (simp add: js_eval)
  have s22: "Math_round (Fin 5000) = Fin 5000"
    by (simp add: js_eval)
  have s23: "js_div (Fin 5000) (Fin 100) = Fin 50"
    by (simp add: js_eval)
  have s24: "js_mul (Fin 1000) (Fin 100) = Fin 100000"
    by (simp add: js_eval)
  have s25: "Math_round (Fin 100000) = Fin 100000"
    by (simp add: js_eval)
  have s26: "js_div (Fin 100000) (Fin 100) = Fin 1000"
    by (simp add: js_eval)
  have s27: "Math_round (Fin (2820996581937603 / 34359738368)) = Fin 82102"
    by (simp add: js_eval)
  have e: "calculateRequiredArea ?q = Inr \<lparr>annual_absorption = Fin 50, cumulative_absorption = Fin 1000,
          equivalences =
            \<lparr>cars_removed = Fin 23, homes_powered = Fin 6, trees_planted = Fin 16000\<rparr>,
          policy_area_needed = Some (Fin 82102)\<rparr>"
    by (simp add: calculateRequiredArea_def Let_def IMPACT_EQUIVALENCES_def DEFAULT_BUFFERS_def
        s1 s2 s3 s4 s5 s6 s7 s8 s9 s10 s11 s12 s13 s14 s15 s16 s17 s18 s19 s20 s21 s22 s23 s24
        s25 s26 s27)
  have h: "is_finite (Fin 20)" "\<not> is_zero (Fin 20)"
    by (simp_all add: is_zero_def)
  from policy_equivalences_from_target [of ?q] h
  show ?thesis
    unfolding e by (simp add: years_or_default_def)
qed

section \<open>The detector\<close>

text \<open>
  C6. The growth flag is among the returned flags exactly when the history has at least
  two snapshots and the growth rate over its two most recent entries,
  \<^verbatim>\<open>(latest.area_m2 - previous.area_m2) / previous.area_m2\<close>, is greater than 1. When the rule
  fires, the flag \<open>Unrealistic area expansion detected\<close> comes first and 25 is added to what
  the other two rules give; when it does not, nothing is added. A history of fewer than
  two snapshots gives the same report as the empty history.
\<close>

theorem growth_rule_exact:
  "(''Unrealistic area expansion detected'' \<in> set (flags (detectAnomalies p h)))
     = growth_rule_fires h
   \<and> flags (detectAnomalies p h) =
       (if growth_rule_fires h then [''Unrealistic area expansion detected''] else [])
         @ flags (detectAnomalies p [])
   \<and> credibility_impact (detectAnomalies p h) =
       (if growth_rule_fires h then 25 else 0) + credibility_impact (detectAnomalies p [])
   \<and> (length h < 2 \<longrightarrow> detectAnomalies p h = detectAnomalies p [])"
proof -
  have "\<not> growth_rule_fires []"
    by (simp add: growth_rule_fires_def)
  moreover have "\<not> growth_rule_fires h" if "length h < 2"
    using that by (simp add: growth_rule_fires_def)
  ultimately show ?thesis
    by (simp add: detect_unfold Let_def)
qed

theorem growth_rule_exact_witness:
  "growth_rule_fires
     [\<lparr>area_m2 = Fin 1000, ecosystem_type = mangrove,
        carbon_calculations = \<lparr>annual_co2_absorption = js_lit 0.07\<rparr>\<rparr>,
      \<lparr>area_m2 = Fin 2500, ecosystem_type = mangrove,
        carbon_calculations = \<lparr>annual_co2_absorption = js_lit 0.18\<rparr>\<rparr>]
   \<and> flags (detectAnomalies
       \<lparr>area_m2 = Fin 2500, ecosystem_type = mangrove,
        carbon_calculations = \<lparr>annual_co2_absorption = js_lit 0.18\<rparr>\<rparr>
       [\<lparr>area_m2 = Fin 1000, ecosystem_type = mangrove,
        carbon_calculations = \<lparr>annual_co2_absorption = js_lit 0.07\<rparr>\<rparr>,
        \<lparr>area_m2 = Fin 2500, ecosystem_type = mangrove,
        carbon_calculations = \<lparr>annual_co2_absorption = js_lit 0.18\<rparr>\<rparr>])
     = [''Unrealistic area expansion detected'']
   \<and> credibility_impact (detectAnomalies
       \<lparr>area_m2 = Fin 2500, ecosystem_type = mangrove,
        carbon_calculations = \<lparr>annual_co2_absorption = js_lit 0.18\<rparr>\<rparr>
       [\<lparr>area_m2 = Fin 1000, ecosystem_type = mangrove,
        carbon_calculations = \<lparr>annual_co2_absorption = js_lit 0.07\<rparr>\<rparr>,
        \<lparr>area_m2 = Fin 2500, ecosystem_type = mangrove,
        carbon_calculations = \<lparr>annual_co2_absorption = js_lit 0.18\<rparr>\<rparr>]) = 25
   \<and> length [\<lparr>area_m2 = Fin 1000, ecosystem_type = mangrove,
        carbon_calculations = \<lparr>annual_co2_absorption = js_lit 0.07\<rparr>\<rparr>] < 2
   \<and> detectAnomalies
       \<lparr>area_m2 = Fin 2500, ecosystem_type = mangrove,
        carbon_calculations = \<lparr>annual_co2_absorption = js_lit 0.18\<rparr>\<rparr>
       [\<lparr>area_m2 = Fin 1000, ecosystem_type = mangrove,
        carbon_calculations = \<lparr>annual_co2_absorption = js_lit 0.07\<rparr>\<rparr>]
     = \<lparr>is_suspicious = False, flags = [], credibility_impact = 0\<rparr>"
proof -
  let ?s1 = "\<lparr>area_m2 = Fin 1000, ecosystem_type = mangrove,
        carbon_calculations = \<lparr>annual_co2_absorption = js_lit 0.07\<rparr>\<rparr>"
  let ?s2 = "\<lparr>area_m2 = Fin 2500, ecosystem_type = mangrove,
        carbon_calculations = \<lparr>annual_co2_absorption = js_lit 0.18\<rparr>\<rparr>"
  have s1: "js_lit (7 / 100) = Fin (1261007895663739 / 18014398509481984)"
    by (simp add: js_eval)
  have s2: "js_lit (9 / 50) = Fin (3242591731706757 / 18014398509481984)"
    by (simp add: js_eval)
  have s3: "js_sub (Fin 2500) (Fin 1000) = Fin 1500"
    by (simp add: js_eval)
  have s4: "js_div (Fin 1500) (Fin 1000) = Fin (3 / 2)"
    by (simp add: js_eval)
  have s5: "js_gt (Fin (3 / 2)) (Fin 1)"
    by (simp add: js_eval)
  have s6: "js_lit (203 / 20) = Fin (5713942027226317 / 562949953421312)"
    by (simp add: js_eval)
  have s7: "js_mul (Fin (5713942027226317 / 562949953421312)) (Fin (3 / 2))
      = Fin (2142728260209869 / 140737488355328)"
    by (simp add: js_eval)
  have s8: "js_div (Fin 2500) (Fin 10000) = Fin (1 / 4)"
    by (simp add: js_eval)
  have s9: "js_mul (Fin (2142728260209869 / 140737488355328)) (Fin (1 / 4))
      = Fin (2142728260209869 / 562949953421312)"
    by (simp add: js_eval)
  have s10: "\<not> js_gt (Fin (3242591731706757 / 18014398509481984)) (Fin (2142728260209869 / 562949953421312))"
    by (simp add: js_eval)
  have s11: "\<not> js_lt (Fin 2500) (Fin 1000)"
    by (simp add: js_eval)
  have g: "growth_rule_fires [?s1, ?s2]"
    by (simp add: growth_rule_fires_def growth_rate_def Let_def
        s1 s2 s3 s4 s5 s6 s7 s8 s9 s10 s11)
  have e: "detectAnomalies ?s2 [] = \<lparr>is_suspicious = False, flags = [], credibility_impact = 0\<rparr>"
    by (simp add: detect_unfold Let_def growth_rule_fires_def
        s1 s2 s3 s4 s5 s6 s7 s8 s9 s10 s11)
  have l: "length [?s1] < 2"
    by simp
  show ?thesis
    using growth_rule_exact [of ?s2 "[?s1, ?s2]"] growth_rule_exact [of ?s2 "[?s1]"] g e l
    by simp
qed

section \<open>Forward mode: monotonicity\<close>

text \<open>
  C7, as the specification states it: with the other inputs fixed, a larger area never
  gives a smaller annual absorption, whatever the buffers. With buffers summing to 200, one
  hectare of mangrove returns -10.15 and two hectares return -20.3.
\<close>

theorem larger_area_smaller_absorption:
  "js_lt (Fin 10000) (Fin 20000)
   \<and> calculateCarbonSequestration
     \<lparr>CalculationParams.area_m2 = Fin 10000, ecosystem_type = mangrove, years = Some (Fin 20),
      buffers = Some \<lparr>uncertainty = Fin 100, mortality = Fin 50, verification = Fin 50\<rparr>\<rparr>
   = Inr \<lparr>annual_absorption = js_lit (- 10.15), cumulative_absorption = Fin (- 203),
          equivalences =
            \<lparr>cars_removed = Fin (- 5), homes_powered = Fin (- 1), trees_planted = Fin (- 3248)\<rparr>,
          policy_area_needed = None\<rparr>
   \<and> calculateCarbonSequestration
     \<lparr>CalculationParams.area_m2 = Fin 20000, ecosystem_type = mangrove, years = Some (Fin 20),
      buffers = Some \<lparr>uncertainty = Fin 100, mortality = Fin 50, verification = Fin 50\<rparr>\<rparr>
   = Inr \<lparr>annual_absorption = js_lit (- 20.3), cumulative_absorption = Fin (- 406),
          equivalences =
            \<lparr>cars_removed = Fin (- 9), homes_powered = Fin (- 2), trees_planted = Fin (- 6496)\<rparr>,
          policy_area_needed = None\<rparr>
   \<and> js_lt (js_lit (- 20.3)) (js_lit (- 10.15))"
proof -
  have s1: "js_div (Fin 10000) (Fin 10000) = Fin 1"
    by (simp add: js_eval)
  have s2: "js_lit (203 / 20) = Fin (5713942027226317 / 562949953421312)"
    by (simp add: js_eval)
  have s3: "js_mul (Fin 1) (Fin (5713942027226317 / 562949953421312))
      = Fin (5713942027226317 / 562949953421312)"
    by (simp add: js_eval)
  have s4: "js_add (Fin 100) (Fin 50) = Fin 150"
    by (simp add: js_eval)
  have s5: "js_add (Fin 150) (Fin 50) = Fin 200"
    by (simp add: js_eval)
  have s6: "js_sub (Fin 100) (Fin 200) = Fin (- 100)"
    by (simp add: js_eval)
  have s7: "js_div (Fin (- 100)) (Fin 100) = Fin (- 1)"
    by (simp add: js_eval)
  have s8: "js_mul (Fin (5713942027226317 / 562949953421312)) (Fin (- 1))
      = Fin (- (5713942027226317 / 562949953421312))"
    by (simp add: js_eval)
  have s9: "js_mul (Fin (- (5713942027226317 / 562949953421312))) (Fin 20) = Fin (- 203)"
    by (simp add: js_eval)
  have s10: "js_lit (9 / 20) = Fin (8106479329266893 / 18014398509481984)"
    by (simp add: js_eval)
  have s11: "js_mul (Fin (- (5713942027226317 / 562949953421312))) (Fin (8106479329266893 / 18014398509481984))
      = Fin (- (5142547824503685 / 1125899906842624))"
    by (simp add: js_eval)
  have s12: "Math_round (Fin (- (5142547824503685 / 1125899906842624))) = Fin (- 5)"
    by (simp add: js_eval)
  have s13: "js_lit (3 / 25) = Fin (1080863910568919 / 9007199254740992)"
    by (simp add: js_eval)
  have s14: "js_mul (Fin (- (5713942027226317 / 562949953421312))) (Fin (1080863910568919 / 9007199254740992))
      = Fin (- (342836521633579 / 281474976710656))"
    by (simp add: js_eval)
  have s15: "Math_round (Fin (- (342836521633579 / 281474976710656))) = Fin (- 1)"
    by (simp add: js_eval)
  have s16: "js_mul (Fin (- 203)) (Fin 16) = Fin (- 3248)"
    by (simp add: js_eval)
  have s17: "Math_round (Fin (- 3248)) = Fin (- 3248)"
    by (simp add: js_eval)
  have s18: "js_mul (Fin (- (5713942027226317 / 562949953421312))) (Fin 100) = Fin (- 1015)"
    by (simp add: js_eval)
  have s19: "Math_round (Fin (- 1015)) = Fin (- 1015)"
    by (simp add: js_eval)
  have s20: "js_div (Fin (- 1015)) (Fin 100) = Fin (- (5713942027226317 / 562949953421312))"
    by (simp add: js_eval)
  have s21: "js_mul (Fin (- 203)) (Fin 100) = Fin (- 20300)"
    by (simp add: js_eval)
  have s22: "Math_round (Fin (- 20300)) = Fin (- 20300)"
    by (simp add: js_eval)
  have s23: "js_div (Fin (- 20300)) (Fin 100) = Fin (- 203)"
    by (simp add: js_eval)
  have s24: "js_div (Fin 20000) (Fin 10000) = Fin 2"
    by (simp add: js_eval)
  have s25: "js_mul (Fin 2) (Fin (5713942027226317 / 562949953421312))
      = Fin (5713942027226317 / 281474976710656)"
    by (simp add: js_eval)
  have s26: "js_mul (Fin (5713942027226317 / 281474976710656)) (Fin (- 1))
      = Fin (- (5713942027226317 / 281474976710656))"
    by (simp add: js_eval)
  have s27: "js_mul (Fin (- (5713942027226317 / 281474976710656))) (Fin 20) = Fin (- 406)"
    by (simp add: js_eval)
  have s28: "js_mul (Fin (- (5713942027226317 / 281474976710656))) (Fin (8106479329266893 / 18014398509481984))
      = Fin (- (5142547824503685 / 562949953421312))"
    by (simp add: js_eval)
  have s29: "Math_round (Fin (- (5142547824503685 / 562949953421312))) = Fin (- 9)"
    by (simp add: js_eval)
  have s30: "js_mul (Fin (- (5713942027226317 / 281474976710656))) (Fin (1080863910568919 / 9007199254740992))
      = Fin (- (342836521633579 / 140737488355328))"
    by (simp add: js_eval)
  have s31: "Math_round (Fin (- (342836521633579 / 140737488355328))) = Fin (- 2)"
    by (simp add: js_eval)
  have s32: "js_mul (Fin (- 406)) (Fin 16) = Fin (- 6496)"
    by (simp add: js_eval)
  have s33: "Math_round (Fin (- 6496)) = Fin (- 6496)"
    by (simp add: js_eval)
  have s34: "js_mul (Fin (- (5713942027226317 / 281474976710656))) (Fin 100) = Fin (- 2030)"
    by (simp add: js_eval)
  have s35: "Math_round (Fin (- 2030)) = Fin (- 2030)"
    by (simp add: js_eval)
  have s36: "js_div (Fin (- 2030)) (Fin 100) = Fin (- (5713942027226317 / 281474976710656))"
    by (simp add: js_eval)
  have s37: "js_mul (Fin (- 406)) (Fin 100) = Fin (- 40600)"
    by (simp add: js_eval)
  have s38: "Math_round (Fin (- 40600)) = Fin (- 40600)"
    by (simp add: js_eval)
  have s39: "js_div (Fin (- 40600)) (Fin 100) = Fin (- 406)"
    by (simp add: js_eval)
  have s40: "js_lit (- (203 / 20)) = Fin (- (5713942027226317 / 562949953421312))"
    by (simp add: js_eval)
  have s41: "js_lit (- (203 / 10)) = Fin (- (5713942027226317 / 281474976710656))"
    by (simp add: js_eval)
  have s42: "js_lt (Fin 10000) (Fin 20000)"
    by (simp add: js_eval)
  have s43: "js_lt (Fin (- (5713942027226317 / 281474976710656))) (Fin (- (5713942027226317 / 562949953421312)))"
    by (simp add: js_eval)
  have e1: "calculateCarbonSequestration
     \<lparr>CalculationParams.area_m2 = Fin 10000, ecosystem_type = mangrove, years = Some (Fin 20),
      buffers = Some \<lparr>uncertainty = Fin 100, mortality = Fin 50, verification = Fin 50\<rparr>\<rparr>
   = Inr \<lparr>annual_absorption = js_lit (- 10.15), cumulative_absorption = Fin (- 203),
          equivalences =
            \<lparr>cars_removed = Fin (- 5), homes_powered = Fin (- 1), trees_planted = Fin (- 3248)\<rparr>,
          policy_area_needed = None\<rparr>"
    by (simp add: calculateCarbonSequestration_def Let_def IMPACT_EQUIVALENCES_def DEFAULT_BUFFERS_def
        s1 s2 s3 s4 s5 s6 s7 s8 s9 s10 s11 s12 s13 s14 s15 s16 s17 s18 s19 s20 s21 s22 s23 s24
        s25 s26 s27 s28 s29 s30 s31 s32 s33 s34 s35 s36 s37 s38 s39 s40 s41 s42 s43)
  have e2: "calculateCarbonSequestration
     \<lparr>CalculationParams.area_m2 = Fin 20000, ecosystem_type = mangrove, years = Some (Fin 20),
      buffers = Some \<lparr>uncertainty = Fin 100, mortality = Fin 50, verification = Fin 50\<rparr>\<rparr>
   = Inr \<lparr>annual_absorption = js_lit (- 20.3), cumulative_absorption = Fin (- 406),
          equivalences =
            \<lparr>cars_removed = Fin (- 9), homes_powered = Fin (- 2), trees_planted = Fin (- 6496)\<rparr>,
          policy_area_needed = None\<rparr>"
    by (simp add: calculateCarbonSequestration_def Let_def IMPACT_EQUIVALENCES_def DEFAULT_BUFFERS_def
        s1 s2 s3 s4 s5 s6 s7 s8 s9 s10 s11 s12 s13 s14 s15 s16 s17 s18 s19 s20 s21 s22 s23 s24
        s25 s26 s27 s28 s29 s30 s31 s32 s33 s34 s35 s36 s37 s38 s39 s40 s41 s42 s43)
  show ?thesis
    using e1 e2 by (simp add:
        s1 s2 s3 s4 s5 s6 s7 s8 s9 s10 s11 s12 s13 s14 s15 s16 s17 s18 s19 s20 s21 s22 s23 s24
        s25 s26 s27 s28 s29 s30 s31 s32 s33 s34 s35 s36 s37 s38 s39 s40 s41 s42 s43)
qed

text \<open>
  C7, amended: whenever the buffers do not sum to more than 100, the input with the
  larger area never yields a smaller annual absorption. This holds for every number the
  area can be, of either sign, the infinities and NaN included.
\<close>

theorem annual_monotone_in_area:
  assumes "\<not> js_gt (total_buffer_percentage (buffers_or_default (CalculationParams.buffers p)))
             (Fin 100)"
    and "js_lt (CalculationParams.area_m2 p) a2"
  shows "\<exists>r1 r2. calculateCarbonSequestration p = Inr r1
    \<and> calculateCarbonSequestration (p\<lparr>CalculationParams.area_m2 := a2\<rparr>) = Inr r2
    \<and> \<not> js_lt (annual_absorption r2) (annual_absorption r1)"
proof -
  let ?p2 = "p\<lparr>CalculationParams.area_m2 := a2\<rparr>"
  let ?e = "CalculationParams.ecosystem_type p"
  let ?f = "buffer_factor (buffers_or_default (CalculationParams.buffers p))"
  let ?net = "\<lambda>a. js_round2 (js_mul (js_mul (js_div a (Fin 10000)) (SEQUESTRATION_FACTORS ?e)) ?f)"
  obtain r1 where r1: "calculateCarbonSequestration p = Inr r1"
      "annual_absorption r1 = ?net (CalculationParams.area_m2 p)"
    using forward_unfold [of p] by (auto simp: unrounded_annual_def)
  obtain r2 where r2: "calculateCarbonSequestration ?p2 = Inr r2"
      "annual_absorption r2 = ?net a2"
    using forward_unfold [of ?p2] by (auto simp: unrounded_annual_def)
  obtain c where c: "SEQUESTRATION_FACTORS ?e = Fin c" "0 < c"
    using factor_is_rate rate_pos by blast
  have f: "\<not> js_lt ?f (Fin 0)"
    using assms(1) by (rule factor_nonneg)
  have "js_le_or_unordered (CalculationParams.area_m2 p) a2"
    using assms(2) by (rule lt_imp_le_or_unordered)
  then have "js_le_or_unordered (?net (CalculationParams.area_m2 p)) (?net a2)"
    unfolding c(1) using c(2) f
    by (intro mono_round2 mono_mul_factor mono_mul_const mono_div_const) simp_all
  then have "\<not> js_lt (annual_absorption r2) (annual_absorption r1)"
    by (simp add: r1(2) r2(2) js_le_or_unordered_def)
  with r1(1) r2(1) show ?thesis by blast
qed

theorem annual_monotone_in_area_witness:
  "\<not> js_gt (total_buffer_percentage DEFAULT_BUFFERS) (Fin 100)
   \<and> js_lt (Fin (- 20000)) (Fin 10000)
   \<and> (\<exists>r1 r2. calculateCarbonSequestration
          \<lparr>CalculationParams.area_m2 = Fin (- 20000), ecosystem_type = salt_marsh, years = Some (Fin 20),
      buffers = None\<rparr> = Inr r1
        \<and> calculateCarbonSequestration
          \<lparr>CalculationParams.area_m2 = Fin 10000, ecosystem_type = salt_marsh, years = Some (Fin 20),
      buffers = None\<rparr> = Inr r2
        \<and> \<not> js_lt (annual_absorption r2) (annual_absorption r1))"
proof -
  let ?p = "\<lparr>CalculationParams.area_m2 = Fin (- 20000), ecosystem_type = salt_marsh, years = Some (Fin 20),
      buffers = None\<rparr>"
  have s1: "js_add (Fin 10) (Fin 15) = Fin 25"
    by (simp add: js_eval)
  have s2: "js_add (Fin 25) (Fin 5) = Fin 30"
    by (simp add: js_eval)
  have s3: "js_sub (Fin 100) (Fin 30) = Fin 70"
    by (simp add: js_eval)
  have s4: "js_div (Fin 70) (Fin 100) = Fin (3152519739159347 / 4503599627370496)"
    by (simp add: js_eval)
  have s5: "\<not> js_gt (Fin 30) (Fin 100)"
    by (simp add: js_eval)
  have s6: "js_lt (Fin (- 20000)) (Fin 10000)"
    by (simp add: js_eval)
  have h: "\<not> js_gt (total_buffer_percentage DEFAULT_BUFFERS) (Fin 100)"
    "js_lt (Fin (- 20000)) (Fin 10000)"
    by (simp_all add: total_buffer_percentage_def DEFAULT_BUFFERS_def
        s1 s2 s3 s4 s5 s6)
  have h1: "\<not> js_gt (total_buffer_percentage (buffers_or_default (CalculationParams.buffers ?p)))
             (Fin 100)"
    and h2: "js_lt (CalculationParams.area_m2 ?p) (Fin 10000)"
    using h by (simp_all add: buffers_or_default_def)
  from annual_monotone_in_area [OF h1 h2] h
  show ?thesis
    by simp
qed

text \<open>
  C8. For forward-mode inputs, whose area is positive, raising one of the three buffer
  percentages, the other two and everything else unchanged, never yields a larger annual
  absorption. This holds for every number the buffers can be, and for every area that is
  not negative.
\<close>

theorem annual_antitone_in_buffer:
  assumes "\<not> js_lt (CalculationParams.area_m2 p) (Fin 0)"
    and "buffers_or_default (CalculationParams.buffers p) = b"
    and "b' = b\<lparr>uncertainty := x\<rparr> \<and> js_lt (uncertainty b) x
       \<or> b' = b\<lparr>mortality := x\<rparr> \<and> js_lt (mortality b) x
       \<or> b' = b\<lparr>verification := x\<rparr> \<and> js_lt (verification b) x"
  shows "\<exists>r1 r2. calculateCarbonSequestration p = Inr r1
    \<and> calculateCarbonSequestration (p\<lparr>CalculationParams.buffers := Some b'\<rparr>) = Inr r2
    \<and> \<not> js_gt (annual_absorption r2) (annual_absorption r1)"
proof -
  let ?p2 = "p\<lparr>CalculationParams.buffers := Some b'\<rparr>"
  let ?g = "js_mul (js_div (CalculationParams.area_m2 p) (Fin 10000))
      (SEQUESTRATION_FACTORS (CalculationParams.ecosystem_type p))"
  obtain r1 where r1: "calculateCarbonSequestration p = Inr r1"
      "annual_absorption r1 = js_round2 (js_mul ?g (buffer_factor b))"
    using forward_unfold [of p] assms(2) by (auto simp: unrounded_annual_def)
  obtain r2 where r2: "calculateCarbonSequestration ?p2 = Inr r2"
      "annual_absorption r2 = js_round2 (js_mul ?g (buffer_factor b'))"
    using forward_unfold [of ?p2] by (auto simp: unrounded_annual_def buffers_or_default_def)
  have g: "\<not> js_lt ?g (Fin 0)"
    using assms(1) by (rule gross_nonneg)
  have "js_le_or_unordered (total_buffer_percentage b) (total_buffer_percentage b')"
    using assms(3) by (rule total_mono)
  then have "js_le_or_unordered (buffer_factor b') (buffer_factor b)"
    unfolding buffer_factor_def by (intro mono_div_const anti_sub) simp_all
  then have "js_le_or_unordered (js_round2 (js_mul ?g (buffer_factor b')))
      (js_round2 (js_mul ?g (buffer_factor b)))"
    using g by (intro mono_round2 mono_mul_left)
  then have "\<not> js_gt (annual_absorption r2) (annual_absorption r1)"
    by (simp add: r1(2) r2(2) js_le_or_unordered_def js_gt_def)
  with r1(1) r2(1) show ?thesis by blast
qed

theorem annual_antitone_in_buffer_witness:
  "\<not> js_lt (Fin 10000) (Fin 0) \<and> js_lt (mortality DEFAULT_BUFFERS) (Fin 20)
   \<and> (\<exists>r1 r2. calculateCarbonSequestration
          \<lparr>CalculationParams.area_m2 = Fin 10000, ecosystem_type = salt_marsh, years = Some (Fin 20),
      buffers = None\<rparr> = Inr r1
        \<and> calculateCarbonSequestration
          \<lparr>CalculationParams.area_m2 = Fin 10000, ecosystem_type = salt_marsh, years = Some (Fin 20),
      buffers = Some (DEFAULT_BUFFERS\<lparr>mortality := Fin 20\<rparr>)\<rparr> = Inr r2
        \<and> \<not> js_gt (annual_absorption r2) (annual_absorption r1))"
proof -
  let ?p = "\<lparr>CalculationParams.area_m2 = Fin 10000, ecosystem_type = salt_marsh, years = Some (Fin 20),
      buffers = None\<rparr>"
  have h: "\<not> js_lt (Fin 10000) (Fin 0)" "js_lt (mortality DEFAULT_BUFFERS) (Fin 20)"
    by (simp_all add: DEFAULT_BUFFERS_def js_lt_def)
  have h1: "\<not> js_lt (CalculationParams.area_m2 ?p) (Fin 0)"
    and h2: "buffers_or_default (CalculationParams.buffers ?p) = DEFAULT_BUFFERS"
    using h by (simp_all add: buffers_or_default_def)
  have h3: "DEFAULT_BUFFERS\<lparr>mortality := Fin 20\<rparr> = DEFAULT_BUFFERS\<lparr>uncertainty := Fin 20\<rparr>
         \<and> js_lt (uncertainty DEFAULT_BUFFERS) (Fin 20)
       \<or> DEFAULT_BUFFERS\<lparr>mortality := Fin 20\<rparr> = DEFAULT_BUFFERS\<lparr>mortality := Fin 20\<rparr>
         \<and> js_lt (mortality DEFAULT_BUFFERS) (Fin 20)
       \<or> DEFAULT_BUFFERS\<lparr>mortality := Fin 20\<rparr> = DEFAULT_BUFFERS\<lparr>verification := Fin 20\<rparr>
         \<and> js_lt (verification DEFAULT_BUFFERS) (Fin 20)"
    using h(2) by simp
  from annual_antitone_in_buffer [OF h1 h2 h3] h
  show ?thesis
    by simp
qed

section \<open>The detector: the penalty\<close>

text \<open>
  C9. For every project and every history, the credibility impact returned by the
  detector is 25 if the growth flag is among the returned flags, plus 30 if the
  theoretical-maximum flag is, plus 10 if the minimum-area flag is. It is therefore one
  of 0, 10, 25, 30, 35, 40, 55, 65, and lies between 0 and 65.
\<close>

theorem credibility_impact_sum:
  "credibility_impact (detectAnomalies p h) =
       25 * of_bool (''Unrealistic area expansion detected'' \<in> set (flags (detectAnomalies p h)))
     + 30 * of_bool (''Carbon sequestration estimates exceed theoretical maximum''
                      \<in> set (flags (detectAnomalies p h)))
     + 10 * of_bool (''Project area unusually small for ecosystem restoration''
                      \<in> set (flags (detectAnomalies p h)))
   \<and> credibility_impact (detectAnomalies p h) \<in> {0, 10, 25, 30, 35, 40, 55, 65}
   \<and> 0 \<le> credibility_impact (detectAnomalies p h)
   \<and> credibility_impact (detectAnomalies p h) \<le> 65"
  by (simp add: detect_unfold Let_def)

theorem credibility_impact_sum_witness:
  "credibility_impact (detectAnomalies
      \<lparr>area_m2 = Fin 500, ecosystem_type = mangrove,
        carbon_calculations = \<lparr>annual_co2_absorption = Fin 100\<rparr>\<rparr>
      [\<lparr>area_m2 = Fin 1000, ecosystem_type = mangrove,
        carbon_calculations = \<lparr>annual_co2_absorption = Fin 0\<rparr>\<rparr>,
       \<lparr>area_m2 = Fin 2500, ecosystem_type = mangrove,
        carbon_calculations = \<lparr>annual_co2_absorption = Fin 0\<rparr>\<rparr>]) = 65"
proof -
  let ?p = "\<lparr>area_m2 = Fin 500, ecosystem_type = mangrove,
        carbon_calculations = \<lparr>annual_co2_absorption = Fin 100\<rparr>\<rparr>"
  let ?h = "[\<lparr>area_m2 = Fin 1000, ecosystem_type = mangrove,
        carbon_calculations = \<lparr>annual_co2_absorption = Fin 0\<rparr>\<rparr>,
       \<lparr>area_m2 = Fin 2500, ecosystem_type = mangrove,
        carbon_calculations = \<lparr>annual_co2_absorption = Fin 0\<rparr>\<rparr>]"
  have s1: "js_sub (Fin 2500) (Fin 1000) = Fin 1500"
    by (simp add: js_eval)
  have s2: "js_div (Fin 1500) (Fin 1000) = Fin (3 / 2)"
    by (simp add: js_eval)
  have s3: "js_gt (Fin (3 / 2)) (Fin 1)"
    by (simp add: js_eval)
  have s4: "js_lit (203 / 20) = Fin (5713942027226317 / 562949953421312)"
    by (simp add: js_eval)
  have s5: "js_mul (Fin (5713942027226317 / 562949953421312)) (Fin (3 / 2))
      = Fin (2142728260209869 / 140737488355328)"
    by (simp add: js_eval)
  have s6: "js_div (Fin 500) (Fin 10000) = Fin (3602879701896397 / 72057594037927936)"
    by (simp add: js_eval)
  have s7: "js_mul (Fin (2142728260209869 / 140737488355328)) (Fin (3602879701896397 / 72057594037927936))
      = Fin (6856730432671581 / 9007199254740992)"
    by (simp add: js_eval)
  have s8: "js_gt (Fin 100) (Fin (6856730432671581 / 9007199254740992))"
    by (simp add: js_eval)
  have s9: "js_lt (Fin 500) (Fin 1000)"
    by (simp add: js_eval)
  have f: "flags (detectAnomalies ?p ?h) =
    [''Unrealistic area expansion detected'',
     ''Carbon sequestration estimates exceed theoretical maximum'',
     ''Project area unusually small for ecosystem restoration'']"
    by (simp add: detect_unfold Let_def growth_rule_fires_def growth_rate_def
        s1 s2 s3 s4 s5 s6 s7 s8 s9)
  show ?thesis
    using credibility_impact_sum [of ?p ?h] unfolding f by simp
qed

section \<open>Policy mode: the absorption fields\<close>

text \<open>
  C10. In policy mode the annual absorption returned is the target divided by the horizon,
  rounded to two decimals, and the cumulative absorption returned is the target rounded
  to two decimals, where rounding to two decimals is \<^verbatim>\<open>Math.round(x * 100) / 100\<close> in the
  arithmetic of the code. Both echo the request: they are the same under any other
  ecosystem type and buffers, which decide the area that is returned. Against the exact
  values: for a finite horizon other than zero, an annual absorption that is finite is
  within 0.005 of \<open>target / years\<close>, and a cumulative absorption that is finite is within
  0.005 of the target, in each case plus the error of the binary roundings. That error
  decides the cases next to a tie: a target of 23 tons over 40 years gives 0.57, for
  \<open>23 / 40 * 100\<close> is computed as 57.49999999999999.
\<close>

theorem policy_echoes_target:
  "(\<exists>r. calculateRequiredArea q = Inr r
      \<and> annual_absorption r =
          js_round2 (js_div (target_co2_reduction q)
            (years_or_default (PolicyCalculationParams.years q)))
      \<and> cumulative_absorption r = js_round2 (target_co2_reduction q)
      \<and> (is_finite (years_or_default (PolicyCalculationParams.years q))
           \<and> \<not> is_zero (years_or_default (PolicyCalculationParams.years q))
           \<and> is_finite (annual_absorption r)
         \<longrightarrow> \<bar>val (annual_absorption r)
               - val (target_co2_reduction q)
                   / val (years_or_default (PolicyCalculationParams.years q))\<bar>
             \<le> 1 / 200
               + pow2 (- 48) * (\<bar>val (target_co2_reduction q)
                   / val (years_or_default (PolicyCalculationParams.years q))\<bar> + 1))
      \<and> (is_finite (cumulative_absorption r)
         \<longrightarrow> \<bar>val (cumulative_absorption r) - val (target_co2_reduction q)\<bar>
             \<le> 1 / 200 + pow2 (- 51) * (\<bar>val (target_co2_reduction q)\<bar> + 1))
      \<and> (\<exists>r'. calculateRequiredArea
             (q\<lparr>PolicyCalculationParams.ecosystem_type := e', buffers := b'\<rparr>) = Inr r'
           \<and> annual_absorption r' = annual_absorption r
           \<and> cumulative_absorption r' = cumulative_absorption r))
    \<and> (case calculateRequiredArea
          \<lparr>target_co2_reduction = Fin 23, ecosystem_type = seagrass, years = Some (Fin 40),
      buffers = None\<rparr>
        of Inl err \<Rightarrow> NaN | Inr r \<Rightarrow> annual_absorption r) = js_lit 0.57"
proof -
  let ?q' = "q\<lparr>PolicyCalculationParams.ecosystem_type := e', buffers := b'\<rparr>"
  let ?T = "target_co2_reduction q"
  let ?Y = "years_or_default (PolicyCalculationParams.years q)"
  obtain r where r: "calculateRequiredArea q = Inr r"
      "annual_absorption r = js_round2 (js_div ?T ?Y)"
      "cumulative_absorption r = js_round2 ?T"
    using policy_fields [of q] by blast
  obtain r' where r': "calculateRequiredArea ?q' = Inr r'"
      "annual_absorption r' = js_round2 (js_div (target_co2_reduction ?q')
           (years_or_default (PolicyCalculationParams.years ?q')))"
      "cumulative_absorption r' = js_round2 (target_co2_reduction ?q')"
    using policy_fields [of ?q'] by blast
  have same: "annual_absorption r' = annual_absorption r"
      "cumulative_absorption r' = cumulative_absorption r"
    using r(2,3) r'(2,3) by simp_all
  have s1: "js_lit (87 / 10) = Fin (2448832297382707 / 281474976710656)"
    by (simp add: js_eval)
  have s2: "js_add (Fin 10) (Fin 15) = Fin 25"
    by (simp add: js_eval)
  have s3: "js_add (Fin 25) (Fin 5) = Fin 30"
    by (simp add: js_eval)
  have s4: "js_sub (Fin 100) (Fin 30) = Fin 70"
    by (simp add: js_eval)
  have s5: "js_div (Fin 70) (Fin 100) = Fin (3152519739159347 / 4503599627370496)"
    by (simp add: js_eval)
  have s6: "js_mul (Fin (2448832297382707 / 281474976710656)) (Fin (3152519739159347 / 4503599627370496))
      = Fin (6856730432671579 / 1125899906842624)"
    by (simp add: js_eval)
  have s7: "js_mul (Fin (6856730432671579 / 1125899906842624)) (Fin 40)
      = Fin (4285456520419737 / 17592186044416)"
    by (simp add: js_eval)
  have s8: "js_div (Fin 23) (Fin (4285456520419737 / 17592186044416))
      = Fin (6803467417374149 / 72057594037927936)"
    by (simp add: js_eval)
  have s9: "js_mul (Fin (6803467417374149 / 72057594037927936)) (Fin 10000)
      = Fin (8305013937224303 / 8796093022208)"
    by (simp add: js_eval)
  have s10: "js_lit (9 / 20) = Fin (8106479329266893 / 18014398509481984)"
    by (simp add: js_eval)
  have s11: "js_mul (Fin 23) (Fin (8106479329266893 / 18014398509481984))
      = Fin (5826532017910579 / 562949953421312)"
    by (simp add: js_eval)
  have s12: "js_div (Fin (5826532017910579 / 562949953421312)) (Fin 40)
      = Fin (4661225614328463 / 18014398509481984)"
    by (simp add: js_eval)
  have s13: "Math_round (Fin (4661225614328463 / 18014398509481984)) = Fin 0"
    by (simp add: js_eval)
  have s14: "js_lit (3 / 25) = Fin (1080863910568919 / 9007199254740992)"
    by (simp add: js_eval)
  have s15: "js_mul (Fin 23) (Fin (1080863910568919 / 9007199254740992))
      = Fin (1553741871442821 / 562949953421312)"
    by (simp add: js_eval)
  have s16: "js_div (Fin (1553741871442821 / 562949953421312)) (Fin 40)
      = Fin (4971973988617027 / 72057594037927936)"
    by (simp add: js_eval)
  have s17: "Math_round (Fin (4971973988617027 / 72057594037927936)) = Fin 0"
    by (simp add: js_eval)
  have s18: "js_mul (Fin 23) (Fin 16) = Fin 368"
    by (simp add: js_eval)
  have s19: "Math_round (Fin 368) = Fin 368"
    by (simp add: js_eval)
  have s20: "js_div (Fin 23) (Fin 40) = Fin (2589569785738035 / 4503599627370496)"
    by (simp add: js_eval)
  have s21: "js_mul (Fin (2589569785738035 / 4503599627370496)) (Fin 100)
      = Fin (8092405580431359 / 140737488355328)"
    by (simp add: js_eval)
  have s22: "Math_round (Fin (8092405580431359 / 140737488355328)) = Fin 57"
    by (simp add: js_eval)
  have s23: "js_div (Fin 57) (Fin 100) = Fin (5134103575202365 / 9007199254740992)"
    by (simp add: js_eval)
  have s24: "js_mul (Fin 23) (Fin 100) = Fin 2300"
    by (simp add: js_eval)
  have s25: "Math_round (Fin 2300) = Fin 2300"
    by (simp add: js_eval)
  have s26: "js_div (Fin 2300) (Fin 100) = Fin 23"
    by (simp add: js_eval)
  have s27: "Math_round (Fin (8305013937224303 / 8796093022208)) = Fin 944"
    by (simp add: js_eval)
  have s28: "js_lit (57 / 100) = Fin (5134103575202365 / 9007199254740992)"
    by (simp add: js_eval)
  have ex: "(case calculateRequiredArea
          \<lparr>target_co2_reduction = Fin 23, ecosystem_type = seagrass, years = Some (Fin 40),
      buffers = None\<rparr>
        of Inl err \<Rightarrow> NaN | Inr r \<Rightarrow> annual_absorption r) = js_lit 0.57"
    by (simp add: calculateRequiredArea_def Let_def IMPACT_EQUIVALENCES_def DEFAULT_BUFFERS_def
        s1 s2 s3 s4 s5 s6 s7 s8 s9 s10 s11 s12 s13 s14 s15 s16 s17 s18 s19 s20 s21 s22 s23 s24
        s25 s26 s27 s28)
  have annual: "\<bar>val (annual_absorption r) - val ?T / val ?Y\<bar>
      \<le> 1 / 200 + pow2 (- 48) * (\<bar>val ?T / val ?Y\<bar> + 1)"
    if "is_finite ?Y" "\<not> is_zero ?Y" "is_finite (annual_absorption r)"
  proof -
    have y: "val ?Y \<noteq> 0"
      using that(1,2) by (cases ?Y) (auto simp: is_zero_def)
    show ?thesis
      using that(3) that(1) y unfolding r(2) by (rule quotient_round2_err)
  qed
  have cumulative: "\<bar>val (cumulative_absorption r) - val ?T\<bar>
      \<le> 1 / 200 + pow2 (- 51) * (\<bar>val ?T\<bar> + 1)"
    if "is_finite (cumulative_absorption r)"
    using that unfolding r(3) by (rule js_round2_err)
  from r same r'(1) ex annual cumulative show ?thesis by blast
qed

theorem policy_echoes_target_witness:
  "is_finite (Fin 3) \<and> \<not> is_zero (Fin 3)
   \<and> (\<exists>r. calculateRequiredArea
          \<lparr>target_co2_reduction = Fin 1000, ecosystem_type = seagrass, years = Some (Fin 3),
      buffers = None\<rparr> = Inr r
        \<and> annual_absorption r = js_lit 333.33
        \<and> cumulative_absorption r = Fin 1000
        \<and> \<bar>val (js_lit 333.33) - 1000 / 3\<bar> \<le> 1 / 200 + pow2 (- 48) * (\<bar>1000 / 3\<bar> + 1)
        \<and> \<bar>1000 - 1000\<bar> \<le> 1 / 200 + pow2 (- 51) * (\<bar>1000\<bar> + (1::real)))"
proof -
  let ?q = "\<lparr>target_co2_reduction = Fin 1000, ecosystem_type = seagrass, years = Some (Fin 3),
      buffers = None\<rparr>"
  have s1: "js_lit (87 / 10) = Fin (2448832297382707 / 281474976710656)"
    by (simp add: js_eval)
  have s2: "js_add (Fin 10) (Fin 15) = Fin 25"
    by (simp add: js_eval)
  have s3: "js_add (Fin 25) (Fin 5) = Fin 30"
    by (simp add: js_eval)
  have s4: "js_sub (Fin 100) (Fin 30) = Fin 70"
    by (simp add: js_eval)
  have s5: "js_div (Fin 70) (Fin 100) = Fin (3152519739159347 / 4503599627370496)"
    by (simp add: js_eval)
  have s6: "js_mul (Fin (2448832297382707 / 281474976710656)) (Fin (3152519739159347 / 4503599627370496))
      = Fin (6856730432671579 / 1125899906842624)"
    by (simp add: js_eval)
  have s7: "js_mul (Fin (6856730432671579 / 1125899906842624)) (Fin 3)
      = Fin (1285636956125921 / 70368744177664)"
    by (simp add: js_eval)
  have s8: "js_div (Fin 1000) (Fin (1285636956125921 / 70368744177664))
      = Fin (7703201333077615 / 140737488355328)"
    by (simp add: js_eval)
  have s9: "js_mul (Fin (7703201333077615 / 140737488355328)) (Fin 10000)
      = Fin (4701660969896005 / 8589934592)"
    by (simp add: js_eval)
  have s10: "js_lit (9 / 20) = Fin (8106479329266893 / 18014398509481984)"
    by (simp add: js_eval)
  have s11: "js_mul (Fin 1000) (Fin (8106479329266893 / 18014398509481984)) = Fin 450"
    by (simp add: js_eval)
  have s12: "js_div (Fin 450) (Fin 3) = Fin 150"
    by (simp add: js_eval)
  have s13: "Math_round (Fin 150) = Fin 150"
    by (simp add: js_eval)
  have s14: "js_lit (3 / 25) = Fin (1080863910568919 / 9007199254740992)"
    by (simp add: js_eval)
  have s15: "js_mul (Fin 1000) (Fin (1080863910568919 / 9007199254740992)) = Fin 120"
    by (simp add: js_eval)
  have s16: "js_div (Fin 120) (Fin 3) = Fin 40"
    by (simp add: js_eval)
  have s17: "Math_round (Fin 40) = Fin 40"
    by (simp add: js_eval)
  have s18: "js_mul (Fin 1000) (Fin 16) = Fin 16000"
    by (simp add: js_eval)
  have s19: "Math_round (Fin 16000) = Fin 16000"
    by (simp add: js_eval)
  have s20: "js_div (Fin 1000) (Fin 3) = Fin (5864062014805333 / 17592186044416)"
    by (simp add: js_eval)
  have s21: "js_mul (Fin (5864062014805333 / 17592186044416)) (Fin 100)
      = Fin (2290649224533333 / 68719476736)"
    by (simp add: js_eval)
  have s22: "Math_round (Fin (2290649224533333 / 68719476736)) = Fin 33333"
    by (simp add: js_eval)
  have s23: "js_div (Fin 33333) (Fin 100) = Fin (5864003374185185 / 17592186044416)"
    by (simp add: js_eval)
  have s24: "js_mul (Fin 1000) (Fin 100) = Fin 100000"
    by (simp add: js_eval)
  have s25: "Math_round (Fin 100000) = Fin 100000"
    by (simp add: js_eval)
  have s26: "js_div (Fin 100000) (Fin 100) = Fin 1000"
    by (simp add: js_eval)
  have s27: "Math_round (Fin (4701660969896005 / 8589934592)) = Fin 547345"
    by (simp add: js_eval)
  have s28: "js_lit (33333 / 100) = Fin (5864003374185185 / 17592186044416)"
    by (simp add: js_eval)
  have e: "calculateRequiredArea ?q = Inr \<lparr>annual_absorption = js_lit 333.33, cumulative_absorption = Fin 1000,
          equivalences =
            \<lparr>cars_removed = Fin 150, homes_powered = Fin 40, trees_planted = Fin 16000\<rparr>,
          policy_area_needed = Some (Fin 547345)\<rparr>"
    by (simp add: calculateRequiredArea_def Let_def IMPACT_EQUIVALENCES_def DEFAULT_BUFFERS_def
        s1 s2 s3 s4 s5 s6 s7 s8 s9 s10 s11 s12 s13 s14 s15 s16 s17 s18 s19 s20 s21 s22 s23 s24
        s25 s26 s27 s28)
  have h: "is_finite (Fin 3)" "\<not> is_zero (Fin 3)" "is_finite (js_lit 333.33)"
    by (simp_all add: is_zero_def
        s1 s2 s3 s4 s5 s6 s7 s8 s9 s10 s11 s12 s13 s14 s15 s16 s17 s18 s19 s20 s21 s22 s23 s24
        s25 s26 s27 s28)
  obtain r where r: "calculateRequiredArea ?q = Inr r"
      "is_finite (years_or_default (PolicyCalculationParams.years ?q))
         \<and> \<not> is_zero (years_or_default (PolicyCalculationParams.years ?q))
         \<and> is_finite (annual_absorption r)
       \<longrightarrow> \<bar>val (annual_absorption r)
             - val (target_co2_reduction ?q)
                 / val (years_or_default (PolicyCalculationParams.years ?q))\<bar>
           \<le> 1 / 200
             + pow2 (- 48) * (\<bar>val (target_co2_reduction ?q)
                 / val (years_or_default (PolicyCalculationParams.years ?q))\<bar> + 1)"
      "is_finite (cumulative_absorption r)
       \<longrightarrow> \<bar>val (cumulative_absorption r) - val (target_co2_reduction ?q)\<bar>
           \<le> 1 / 200 + pow2 (- 51) * (\<bar>val (target_co2_reduction ?q)\<bar> + 1)"
    using policy_echoes_target [where q = ?q and e' = seagrass and b' = None] by blast
  have v: "annual_absorption r = js_lit 333.33" "cumulative_absorption r = Fin 1000"
    using r(1) unfolding e by auto
  have "\<bar>val (js_lit 333.33) - 1000 / 3\<bar> \<le> 1 / 200 + pow2 (- 48) * (\<bar>1000 / 3\<bar> + 1)"
    using r(2) h unfolding v by (simp add: years_or_default_def)
  moreover have "\<bar>1000 - 1000\<bar> \<le> 1 / 200 + pow2 (- 51) * (\<bar>1000\<bar> + (1::real))"
    using r(3) unfolding v by simp
  ultimately show ?thesis
    using r(1) v h(1,2) by blast
qed

end
